theory Spec2Isabelle
  imports Complex_Main
begin

section \<open>Python values and errors\<close>

text \<open>
  The two pipelines (\<^verbatim>\<open>core/engine.py\<close>, \<^verbatim>\<open>core/incentive.py\<close>) take an untyped,
  JSON-like payload. It is modelled by \<open>pyval\<close>; a dict is an association list in
  insertion order. A Python \<^verbatim>\<open>float\<close> is read as the rational number it denotes and float
  arithmetic is exact: rounding error, infinities and NaN of IEEE doubles are outside the
  model. The one float effect that is an exception of the language, the conversion of an
  integer that is too large (\<^verbatim>\<open>OverflowError\<close>), is modelled by \<open>to_float\<close>.
\<close>

datatype pyval =
    PNone
  | PBool bool
  | PInt int
  | PFloat rat
  | PStr string
  | PList "pyval list"
  | PDict "(string \<times> pyval) list"

datatype pyerr =
    ValueError string
  | AttributeError
  | TypeError
  | KeyError string
  | OverflowError
  | UnicodeEncodeError
  | ZeroDivisionError
  | AssertionError string

definition bindE :: "pyerr + 'a \<Rightarrow> ('a \<Rightarrow> pyerr + 'b) \<Rightarrow> pyerr + 'b" where
  "bindE m f = (case m of Inl e \<Rightarrow> Inl e | Inr v \<Rightarrow> f v)"

definition thenE :: "pyerr + unit \<Rightarrow> pyerr + 'b \<Rightarrow> pyerr + 'b" where
  "thenE m k = (case m of Inl e \<Rightarrow> Inl e | Inr _ \<Rightarrow> k)"

text \<open>\<^verbatim>\<open>d.get(key)\<close>: only a dict has the method; a missing key gives \<^verbatim>\<open>None\<close>.\<close>

definition dict_get :: "pyval \<Rightarrow> string \<Rightarrow> pyerr + pyval" where
  "dict_get d k =
     (case d of
        PDict kvs \<Rightarrow> Inr (case map_of kvs k of None \<Rightarrow> PNone | Some v \<Rightarrow> v)
      | _ \<Rightarrow> Inl AttributeError)"

text \<open>\<^verbatim>\<open>d[key]\<close> with a string key: \<^verbatim>\<open>KeyError\<close> on a dict without the key,
  \<^verbatim>\<open>TypeError\<close> on every other value.\<close>

definition subscript :: "pyval \<Rightarrow> string \<Rightarrow> pyerr + pyval" where
  "subscript d k =
     (case d of
        PDict kvs \<Rightarrow> (case map_of kvs k of None \<Rightarrow> Inl (KeyError k) | Some v \<Rightarrow> Inr v)
      | _ \<Rightarrow> Inl TypeError)"

text \<open>\<^verbatim>\<open>isinstance(v, int)\<close>: \<^verbatim>\<open>bool\<close> is a subclass of \<^verbatim>\<open>int\<close>, with
  \<^verbatim>\<open>True == 1\<close> and \<^verbatim>\<open>False == 0\<close>.\<close>

definition as_int :: "pyval \<Rightarrow> int option" where
  "as_int v = (case v of PInt i \<Rightarrow> Some i | PBool b \<Rightarrow> Some (if b then 1 else 0) | _ \<Rightarrow> None)"

definition float_limit :: int where
  "float_limit = 2 ^ 1024 - 2 ^ 970"

text \<open>Conversion of an \<^verbatim>\<open>int\<close> to \<^verbatim>\<open>float\<close>, explicit (\<^verbatim>\<open>float(i)\<close>) or implicit in
  mixed arithmetic (\<^verbatim>\<open>i / 6.0\<close>, \<^verbatim>\<open>i * 1.5\<close>): integers from \<open>2^1024 - 2^970\<close> on
  raise \<^verbatim>\<open>OverflowError\<close>.\<close>

definition to_float :: "int \<Rightarrow> pyerr + rat" where
  "to_float i = (if \<bar>i\<bar> < float_limit then Inr (of_int i) else Inl OverflowError)"

text \<open>\<^verbatim>\<open>isinstance(v, (int, float))\<close> followed by \<^verbatim>\<open>float(v)\<close>. The first component
  says whether the instance test holds.\<close>

definition as_number :: "pyval \<Rightarrow> (pyerr + rat) option" where
  "as_number v =
     (case v of
        PFloat r \<Rightarrow> Some (Inr r)
      | PInt i \<Rightarrow> Some (to_float i)
      | PBool b \<Rightarrow> Some (Inr (if b then 1 else 0))
      | _ \<Rightarrow> None)"

text \<open>Typed reads of a field the validator has already checked. On a value of another
  type the arithmetic that follows in the source raises \<^verbatim>\<open>TypeError\<close>.\<close>

definition int_item :: "pyval \<Rightarrow> string \<Rightarrow> pyerr + int" where
  "int_item d k =
     bindE (subscript d k) (\<lambda>v. case as_int v of None \<Rightarrow> Inl TypeError | Some i \<Rightarrow> Inr i)"

definition float_item :: "pyval \<Rightarrow> string \<Rightarrow> pyerr + rat" where
  "float_item d k =
     bindE (subscript d k) (\<lambda>v. case as_number v of None \<Rightarrow> Inl TypeError | Some r \<Rightarrow> r)"

definition str_item :: "pyval \<Rightarrow> string \<Rightarrow> pyerr + string" where
  "str_item d k =
     bindE (subscript d k) (\<lambda>v. case v of PStr s \<Rightarrow> Inr s | _ \<Rightarrow> Inl TypeError)"

definition bool_item :: "pyval \<Rightarrow> string \<Rightarrow> pyerr + bool" where
  "bool_item d k =
     bindE (subscript d k) (\<lambda>v. case v of PBool b \<Rightarrow> Inr b | _ \<Rightarrow> Inl TypeError)"

section \<open>Shared helpers\<close>

definition MODEL_VERSION :: string where
  "MODEL_VERSION = ''mvp-contract-v1.0.0''"

definition clamp :: "rat \<Rightarrow> rat \<Rightarrow> rat \<Rightarrow> rat" where
  "clamp value min_value max_value = max min_value (min max_value value)"

definition clamp_int :: "int \<Rightarrow> int \<Rightarrow> int \<Rightarrow> int" where
  "clamp_int value min_value max_value = max min_value (min max_value value)"

definition map_priority :: "string \<Rightarrow> pyerr + rat" where
  "map_priority priority =
     (if priority = ''low'' then Inr 1
      else if priority = ''medium'' then Inr 2
      else if priority = ''high'' then Inr 3
      else Inl (ValueError (''Invalid priority: '' @ priority)))"

text \<open>\<^verbatim>\<open>round(x, 2)\<close>: to the nearest hundredth, a tie going to the even neighbour.\<close>

definition round_half_even :: "rat \<Rightarrow> int" where
  "round_half_even y =
     (let f = \<lfloor>y\<rfloor>; d = y - of_int f
      in if d < 1 / 2 then f
         else if 1 / 2 < d then f + 1
         else if even f then f else f + 1)"

definition round2 :: "rat \<Rightarrow> rat" where
  "round2 x = of_int (round_half_even (x * 100)) / 100"

text \<open>\<^verbatim>\<open>a / b\<close> with a denominator that is computed, not a literal.\<close>

definition truediv :: "rat \<Rightarrow> rat \<Rightarrow> pyerr + rat" where
  "truediv a b = (if b = 0 then Inl ZeroDivisionError else Inr (a / b))"

section \<open>Library functions taken as parameters\<close>

text \<open>
  The standard-library calls are parameters of the model:
  \<^item> \<open>json_dumps v\<close> is \<^verbatim>\<open>json.dumps(v, ensure_ascii=False, sort_keys=True).encode("utf-8")\<close>,
    a call that can raise: \<^verbatim>\<open>ValueError\<close> on an integer with more digits than the
    interpreter converts to a string, \<^verbatim>\<open>UnicodeEncodeError\<close> on a string with a lone
    surrogate;
  \<^item> \<open>sha256 s\<close> is the SHA-256 digest of \<open>s\<close> read as a big-endian number;
  \<^item> \<open>Random n\<close> is the generator \<^verbatim>\<open>random.Random(n)\<close>, \<open>randint_raw\<close> and
    \<open>uniform\<close> draw from it and return the generator after the draw.
\<close>

record 'g lib =
  json_dumps :: "pyval \<Rightarrow> pyerr + string"
  sha256 :: "string \<Rightarrow> nat"
  Random :: "int \<Rightarrow> 'g"
  randint_raw :: "'g \<Rightarrow> int \<Rightarrow> int \<Rightarrow> int \<times> 'g"
  uniform :: "'g \<Rightarrow> rat \<Rightarrow> rat \<Rightarrow> rat \<times> 'g"

text \<open>\<^verbatim>\<open>rng.randint(a, b)\<close> raises \<^verbatim>\<open>ValueError\<close> on an empty range.\<close>

definition randint :: "'g lib \<Rightarrow> 'g \<Rightarrow> int \<Rightarrow> int \<Rightarrow> pyerr + (int \<times> 'g)" where
  "randint L g a b =
     (if b < a then Inl (ValueError ''empty range for randrange()'')
      else Inr (randint_raw L g a b))"

text \<open>The ambient state a call runs in. The clock is read as the string
  \<^verbatim>\<open>datetime.now(timezone.utc).replace(microsecond=0).isoformat().replace("+00:00", "Z")\<close>.\<close>

record world =
  utc_now :: string

section \<open>Deterministic seed\<close>

definition hex_char :: "nat \<Rightarrow> char" where
  "hex_char n = ''0123456789abcdef'' ! (n mod 16)"

text \<open>\<^verbatim>\<open>hexdigest()\<close>: the 256-bit digest as 64 lowercase hexadecimal characters.\<close>

definition hexdigest :: "nat \<Rightarrow> string" where
  "hexdigest d = map (\<lambda>i. hex_char ((d div 16 ^ (63 - i)) mod 16)) [0..<64]"

definition hex_val :: "char \<Rightarrow> nat option" where
  "hex_val c =
     (if c \<in> set ''0123456789'' then Some (of_char c - 48)
      else if c \<in> set ''abcdef'' then Some (of_char c - 87)
      else if c \<in> set ''ABCDEF'' then Some (of_char c - 55)
      else None)"

text \<open>\<^verbatim>\<open>int(s, 16)\<close> on a string of hexadecimal digits; \<^verbatim>\<open>ValueError\<close> on the empty
  string and on any other character.\<close>

fun int16_acc :: "nat \<Rightarrow> string \<Rightarrow> pyerr + nat" where
  "int16_acc a [] = Inr a"
| "int16_acc a (c # cs) =
     (case hex_val c of
        None \<Rightarrow> Inl (ValueError ''invalid literal for int() with base 16'')
      | Some v \<Rightarrow> int16_acc (16 * a + v) cs)"

definition int16 :: "string \<Rightarrow> pyerr + nat" where
  "int16 s = (if s = [] then Inl (ValueError ''invalid literal for int() with base 16'')
              else int16_acc 0 s)"

fun hex_digits :: "nat \<Rightarrow> string" where
  "hex_digits n = (if n < 16 then [hex_char n] else hex_digits (n div 16) @ [hex_char (n mod 16)])"

text \<open>The format \<^verbatim>\<open>{seed:08x}\<close>: lowercase hexadecimal, padded with zeros to at least
  eight characters.\<close>

definition format_08x :: "nat \<Rightarrow> string" where
  "format_08x n = replicate (8 - length (hex_digits n)) (CHR ''0'') @ hex_digits n"

text \<open>\<^verbatim>\<open>engine._stable_seed(payload)\<close>.\<close>

definition stable_seed :: "'g lib \<Rightarrow> pyval \<Rightarrow> pyerr + nat" where
  "stable_seed L payload =
     bindE (json_dumps L payload) (\<lambda>raw.
       let digest = hexdigest (sha256 L raw)
       in int16 (take 8 digest))"

text \<open>\<^verbatim>\<open>incentive._stable_seed(input_payload, selected_option_id)\<close>.\<close>

definition stable_seed_inc :: "'g lib \<Rightarrow> pyval \<Rightarrow> string \<Rightarrow> pyerr + nat" where
  "stable_seed_inc L input_payload selected_option_id =
     bindE (json_dumps L
              (PDict [(''input_payload'', input_payload),
                      (''selected_option_id'', PStr selected_option_id)])) (\<lambda>raw.
       let digest = hexdigest (sha256 L raw)
       in int16 (take 8 digest))"

section \<open>Input validation\<close>

fun for_each :: "'a list \<Rightarrow> ('a \<Rightarrow> pyerr + unit) \<Rightarrow> pyerr + unit" where
  "for_each [] body = Inr ()"
| "for_each (x # xs) body = thenE (body x) (for_each xs body)"

definition raise_if :: "bool \<Rightarrow> string \<Rightarrow> pyerr + unit" where
  "raise_if c msg = (if c then Inl (ValueError msg) else Inr ())"

definition required_top :: "string list" where
  "required_top = [''device'', ''signals'', ''user_preferences'']"

text \<open>\<^verbatim>\<open>required_top.issubset(input_payload.keys())\<close> on a dict.\<close>

definition has_required_top :: "(string \<times> pyval) list \<Rightarrow> bool" where
  "has_required_top kvs = list_all (\<lambda>k. map_of kvs k \<noteq> None) required_top"

definition is_dict :: "pyval \<Rightarrow> bool" where
  "is_dict v = (case v of PDict _ \<Rightarrow> True | _ \<Rightarrow> False)"

text \<open>\<^verbatim>\<open>isinstance(v, str) and v\<close>.\<close>

definition nonempty_str :: "pyval \<Rightarrow> bool" where
  "nonempty_str v = (case v of PStr s \<Rightarrow> s \<noteq> [] | _ \<Rightarrow> False)"

text \<open>\<^verbatim>\<open>isinstance(v, int) and not v < 0\<close>.\<close>

definition int_ge0 :: "pyval \<Rightarrow> bool" where
  "int_ge0 v = (case as_int v of None \<Rightarrow> False | Some i \<Rightarrow> \<not> i < 0)"

text \<open>\<^verbatim>\<open>v in {"low", "medium", "high"}\<close>: the test hashes \<open>v\<close>, and a list or a dict is
  unhashable.\<close>

definition in_priority_set :: "pyval \<Rightarrow> pyerr + bool" where
  "in_priority_set v =
     (case v of
        PStr s \<Rightarrow> Inr (s \<in> {''low'', ''medium'', ''high''})
      | PList _ \<Rightarrow> Inl TypeError
      | PDict _ \<Rightarrow> Inl TypeError
      | _ \<Rightarrow> Inr False)"

definition is_bool :: "pyval \<Rightarrow> bool" where
  "is_bool v = (case v of PBool _ \<Rightarrow> True | _ \<Rightarrow> False)"

text \<open>The checks of \<^verbatim>\<open>signals.charge_cycles\<close>, \<^verbatim>\<open>signals.frame_drop_rate\<close> and
  \<^verbatim>\<open>signals.repair_history_count\<close>, and those of \<^verbatim>\<open>user_preferences\<close>, are the same
  statements in both validators; they are written once here.\<close>

definition check_charge_cycles :: "pyval \<Rightarrow> pyerr + unit" where
  "check_charge_cycles signals =
     bindE (dict_get signals ''charge_cycles'') (\<lambda>v.
       raise_if (\<not> int_ge0 v) ''signals.charge_cycles must be int >= 0'')"

definition check_frame_drop_rate :: "pyval \<Rightarrow> pyerr + unit" where
  "check_frame_drop_rate signals =
     bindE (dict_get signals ''frame_drop_rate'') (\<lambda>v.
       case as_number v of
         None \<Rightarrow> Inl (ValueError ''signals.frame_drop_rate must be float'')
       | Some conv \<Rightarrow>
           bindE conv (\<lambda>r.
             raise_if (\<not> (0 \<le> r \<and> r \<le> 1)) ''signals.frame_drop_rate must be in [0, 1]''))"

definition check_repair_history_count :: "pyval \<Rightarrow> pyerr + unit" where
  "check_repair_history_count signals =
     bindE (dict_get signals ''repair_history_count'') (\<lambda>v.
       raise_if (\<not> int_ge0 v) ''signals.repair_history_count must be int >= 0'')"

definition check_priorities :: "pyval \<Rightarrow> pyerr + unit" where
  "check_priorities prefs =
     for_each [''budget_priority'', ''sustainability_priority'', ''performance_priority'']
       (\<lambda>key.
          bindE (dict_get prefs key) (\<lambda>v.
          bindE (in_priority_set v) (\<lambda>ok.
            raise_if (\<not> ok) (''user_preferences.'' @ key @ '' must be low|medium|high''))))"

definition check_prefers_financing :: "pyval \<Rightarrow> pyerr + unit" where
  "check_prefers_financing prefs =
     bindE (dict_get prefs ''prefers_financing'') (\<lambda>v.
       raise_if (\<not> is_bool v) ''user_preferences.prefers_financing must be bool'')"

definition check_device_strings :: "pyval \<Rightarrow> pyerr + unit" where
  "check_device_strings device =
     for_each [''brand'', ''model'']
       (\<lambda>key.
          bindE (dict_get device key) (\<lambda>v.
            raise_if (\<not> nonempty_str v) (''device.'' @ key @ '' must be non-empty string'')))"

definition check_age_months :: "pyval \<Rightarrow> pyerr + unit" where
  "check_age_months device =
     bindE (dict_get device ''age_months'') (\<lambda>v.
       raise_if (\<not> int_ge0 v) ''device.age_months must be int >= 0'')"

definition check_battery :: "pyval \<Rightarrow> pyerr + unit" where
  "check_battery signals =
     bindE (dict_get signals ''battery_health_percent'') (\<lambda>v.
       case as_int v of
         None \<Rightarrow> Inl (ValueError ''signals.battery_health_percent must be int'')
       | Some b \<Rightarrow>
           raise_if (\<not> (0 \<le> b \<and> b \<le> 100))
             ''signals.battery_health_percent must be in [0, 100]'')"

text \<open>\<^verbatim>\<open>engine._validate_input_payload\<close>.\<close>

definition validate_input_payload :: "pyval \<Rightarrow> pyerr + unit" where
  "validate_input_payload input_payload =
     (case input_payload of
        PDict kvs \<Rightarrow>
          if \<not> has_required_top kvs
          then Inl (ValueError ''input_payload must include device, signals, user_preferences'')
          else
            bindE (subscript input_payload ''device'') (\<lambda>device.
            bindE (subscript input_payload ''signals'') (\<lambda>signals.
            bindE (subscript input_payload ''user_preferences'') (\<lambda>prefs.
              thenE (check_device_strings device)
             (thenE (check_age_months device)
             (thenE (check_battery signals)
             (thenE (check_charge_cycles signals)
             (thenE (check_frame_drop_rate signals)
             (thenE (check_repair_history_count signals)
             (thenE (check_priorities prefs)
                    (check_prefers_financing prefs))))))))))
      | _ \<Rightarrow> Inl (ValueError ''input_payload must include device, signals, user_preferences''))"

text \<open>\<^verbatim>\<open>incentive._validate_input_payload\<close>.\<close>

definition validate_input_payload_inc :: "pyval \<Rightarrow> pyerr + unit" where
  "validate_input_payload_inc input_payload =
     (case input_payload of
        PDict kvs \<Rightarrow>
          if \<not> has_required_top kvs
          then Inl (ValueError ''input_payload must include device, signals, user_preferences'')
          else
            bindE (subscript input_payload ''signals'') (\<lambda>signals.
            bindE (subscript input_payload ''user_preferences'') (\<lambda>prefs.
              thenE (check_charge_cycles signals)
             (thenE (check_frame_drop_rate signals)
             (thenE (check_repair_history_count signals)
             (thenE (check_priorities prefs)
                    (check_prefers_financing prefs))))))
      | _ \<Rightarrow> Inl (ValueError ''input_payload must be a dict''))"

section \<open>Assess pipeline: RUL and confidence\<close>

record rul_estimate =
  rul_months_min :: int
  rul_months_max :: int
  confidence :: string
  confidence_score :: rat
  key_drivers :: "string list"

text \<open>\<^verbatim>\<open>sorted(items, key=..., reverse=True)\<close>: the list is reversed, sorted by a stable
  ascending sort and reversed again, so equal keys keep their original order.\<close>

definition sorted_reverse :: "('a \<Rightarrow> rat) \<Rightarrow> 'a list \<Rightarrow> 'a list" where
  "sorted_reverse key xs = rev (sort_key key (rev xs))"

text \<open>The dict \<^verbatim>\<open>contributions\<close> (lines 111 to 117), in insertion order.\<close>

definition contributions :: "rat \<Rightarrow> rat \<Rightarrow> rat \<Rightarrow> rat \<Rightarrow> rat \<Rightarrow> (string \<times> rat) list" where
  "contributions battery_deficit charge_cycles frame_drop_rate repair_history_count age_months =
     [(''battery_health_percent'', battery_deficit / 60),
      (''charge_cycles'', charge_cycles / 1200),
      (''frame_drop_rate'', frame_drop_rate / (4 / 10)),
      (''repair_history_count'', repair_history_count / 4),
      (''device_age_months'', age_months / 48)]"

text \<open>\<^verbatim>\<open>engine._compute_rul_and_confidence\<close>. The result is the triple
  \<^verbatim>\<open>(rul_estimate, confidence_score, rul_point)\<close>.\<close>

definition compute_rul_and_confidence :: "pyval \<Rightarrow> pyerr + (rul_estimate \<times> rat \<times> rat)" where
  "compute_rul_and_confidence input_payload =
     bindE (subscript input_payload ''device'') (\<lambda>device.
     bindE (subscript input_payload ''signals'') (\<lambda>signals.
     bindE (int_item device ''age_months'') (\<lambda>age_months.
     bindE (int_item signals ''battery_health_percent'') (\<lambda>battery_health_percent.
     bindE (int_item signals ''charge_cycles'') (\<lambda>charge_cycles.
     bindE (float_item signals ''frame_drop_rate'') (\<lambda>frame_drop_rate.
     bindE (int_item signals ''repair_history_count'') (\<lambda>repair_history_count.
     bindE (to_float age_months) (\<lambda>age_f.
     bindE (to_float (100 - battery_health_percent)) (\<lambda>deficit_f.
     bindE (to_float charge_cycles) (\<lambda>cycles_f.
     bindE (to_float repair_history_count) (\<lambda>repairs_f.
       let rul_point = 24;
           rul_point = rul_point - clamp (age_f / 6) 0 12;
           rul_point = rul_point - deficit_f / 10;
           rul_point = rul_point - cycles_f / 400;
           rul_point = rul_point - frame_drop_rate * 10;
           rul_point = rul_point - repairs_f * (3 / 2);
           rul_point = clamp rul_point 1 30;
           risk = age_f / 48 + deficit_f / 60 + cycles_f / 1200
                  + frame_drop_rate / (4 / 10) + repairs_f / 4;
           score = clamp (1 - risk / 5) (35 / 100) (9 / 10);
           label = (if 8 / 10 \<le> score then ''high''
                    else if 6 / 10 \<le> score then ''medium-high''
                    else ''medium'');
           margin = 2 + (1 - score) * 4;
           rul_min = max 1 \<lfloor>rul_point - margin\<rfloor>;
           rul_max = min 30 \<lceil>rul_point + margin\<rceil>;
           drivers = map fst (take 3 (sorted_reverse snd
                       (contributions deficit_f cycles_f frame_drop_rate repairs_f age_f)))
       in Inr (\<lparr>rul_months_min = rul_min,
                 rul_months_max = rul_max,
                 confidence = label,
                 confidence_score = round2 score,
                 key_drivers = drivers\<rparr>,
               score, rul_point))))))))))))"

section \<open>Assess pipeline: estimated impacts and option scores\<close>

record impact =
  rul_gain_months_min :: int
  rul_gain_months_max :: int
  co2_impact_score :: rat
  ewaste_reduction_score :: rat

text \<open>\<^verbatim>\<open>engine._build_estimated_impacts\<close>: six integer draws, then the six uniform
  draws in the order the dict display evaluates them. The result is the dict in insertion
  order.\<close>

definition build_estimated_impacts :: "'g lib \<Rightarrow> 'g \<Rightarrow> pyerr + (string \<times> impact) list" where
  "build_estimated_impacts L rng =
     bindE (randint L rng 8 12) (\<lambda>(repair_min, g1).
     bindE (randint L g1 4 6) (\<lambda>(d1, g2).
     let repair_max = min 16 (repair_min + d1) in
     bindE (randint L g2 16 22) (\<lambda>(refurb_min, g3).
     bindE (randint L g3 6 9) (\<lambda>(d2, g4).
     let refurb_max = min 30 (refurb_min + d2) in
     bindE (randint L g4 28 35) (\<lambda>(tradein_min, g5).
     bindE (randint L g5 8 12) (\<lambda>(d3, g6).
     let tradein_max = min 45 (tradein_min + d3);
         (u1, g7) = uniform L g6 (82 / 100) (93 / 100);
         (u2, g8) = uniform L g7 (80 / 100) (92 / 100);
         (u3, g9) = uniform L g8 (69 / 100) (82 / 100);
         (u4, g10) = uniform L g9 (62 / 100) (78 / 100);
         (u5, g11) = uniform L g10 (45 / 100) (62 / 100);
         (u6, g12) = uniform L g11 (35 / 100) (55 / 100)
     in Inr
       [(''repair_battery'',
           \<lparr>rul_gain_months_min = repair_min, rul_gain_months_max = repair_max,
            co2_impact_score = round2 u1, ewaste_reduction_score = round2 u2\<rparr>),
        (''refurb_buy'',
           \<lparr>rul_gain_months_min = refurb_min, rul_gain_months_max = refurb_max,
            co2_impact_score = round2 u3, ewaste_reduction_score = round2 u4\<rparr>),
        (''tradein_new'',
           \<lparr>rul_gain_months_min = tradein_min, rul_gain_months_max = tradein_max,
            co2_impact_score = round2 u5, ewaste_reduction_score = round2 u6\<rparr>)]))))))"

record option_score =
  cost_score :: rat
  sustainability_score :: rat
  performance_score :: rat
  overall_score :: rat

text \<open>The nested function \<^verbatim>\<open>overall\<close> (lines 202 to 206), with the normalised weights
  it closes over.\<close>

definition overall :: "rat \<Rightarrow> rat \<Rightarrow> rat \<Rightarrow> rat \<Rightarrow> rat \<Rightarrow> rat \<Rightarrow> rat" where
  "overall w_cost w_sust w_perf cost sust perf =
     round2 (cost * w_cost + sust * w_sust + perf * w_perf)"

text \<open>\<^verbatim>\<open>engine._compute_option_scores\<close>; the result is the dict in insertion order.\<close>

definition compute_option_scores :: "pyval \<Rightarrow> pyerr + (string \<times> option_score) list" where
  "compute_option_scores input_payload =
     bindE (subscript input_payload ''signals'') (\<lambda>signals.
     bindE (subscript input_payload ''user_preferences'') (\<lambda>prefs.
     bindE (subscript input_payload ''device'') (\<lambda>device.
     bindE (int_item device ''age_months'') (\<lambda>age_months.
     bindE (int_item signals ''battery_health_percent'') (\<lambda>battery.
     bindE (int_item signals ''charge_cycles'') (\<lambda>charge.
     bindE (float_item signals ''frame_drop_rate'') (\<lambda>frame.
     bindE (int_item signals ''repair_history_count'') (\<lambda>repairs.
     bindE (to_float charge) (\<lambda>charge_f.
     bindE (to_float repairs) (\<lambda>repairs_f.
     let heavy_usage = clamp ((charge_f / 1200 + frame / (4 / 10) + repairs_f / 4) / 3) 0 (12 / 10) in
     bindE (to_float (100 - battery)) (\<lambda>deficit_f.
     let battery_degradation = clamp (deficit_f / 100) 0 1 in
     bindE (to_float (max (age_months - 24) 0)) (\<lambda>age_over_f.
     let repair_cost = clamp (90 / 100 - age_over_f * (2 / 1000)) (75 / 100) (95 / 100) in
     bindE (to_float (max (repairs - 1) 0)) (\<lambda>repairs_over_f.
     let repair_sust = clamp (90 / 100 - repairs_over_f * (3 / 100)) (75 / 100) (95 / 100);
         repair_perf = clamp (66 / 100 - heavy_usage * (10 / 100) - battery_degradation * (6 / 100))
                         (42 / 100) (74 / 100);
         refurb_cost = clamp (72 / 100 - heavy_usage * (4 / 100)) (58 / 100) (80 / 100);
         refurb_sust = clamp (78 / 100 - heavy_usage * (3 / 100)) (65 / 100) (85 / 100);
         refurb_perf = clamp (81 / 100 + heavy_usage * (7 / 100)) (70 / 100) (92 / 100)
     in
     bindE (bool_item prefs ''prefers_financing'') (\<lambda>prefers_financing.
     let tradein_cost = 48 / 100 + (if prefers_financing then 10 / 100 else 0)
                        - heavy_usage * (2 / 100);
         tradein_cost = clamp tradein_cost (35 / 100) (68 / 100);
         tradein_sust = clamp (58 / 100 - heavy_usage * (4 / 100)) (40 / 100) (70 / 100);
         tradein_perf = clamp (93 / 100 + heavy_usage * (3 / 100)) (90 / 100) (99 / 100)
     in
     bindE (bindE (str_item prefs ''budget_priority'') map_priority) (\<lambda>weight_cost.
     bindE (bindE (str_item prefs ''sustainability_priority'') map_priority) (\<lambda>weight_sust.
     bindE (bindE (str_item prefs ''performance_priority'') map_priority) (\<lambda>weight_perf.
     let total_weight = weight_cost + weight_sust + weight_perf in
     bindE (truediv weight_cost total_weight) (\<lambda>w_cost.
     bindE (truediv weight_sust total_weight) (\<lambda>w_sust.
     bindE (truediv weight_perf total_weight) (\<lambda>w_perf.
       Inr
        [(''repair_battery'',
            \<lparr>cost_score = round2 repair_cost,
             sustainability_score = round2 repair_sust,
             performance_score = round2 repair_perf,
             overall_score = overall w_cost w_sust w_perf repair_cost repair_sust repair_perf\<rparr>),
         (''refurb_buy'',
            \<lparr>cost_score = round2 refurb_cost,
             sustainability_score = round2 refurb_sust,
             performance_score = round2 refurb_perf,
             overall_score = overall w_cost w_sust w_perf refurb_cost refurb_sust refurb_perf\<rparr>),
         (''tradein_new'',
            \<lparr>cost_score = round2 tradein_cost,
             sustainability_score = round2 tradein_sust,
             performance_score = round2 tradein_perf,
             overall_score = overall w_cost w_sust w_perf tradein_cost tradein_sust tradein_perf\<rparr>)]
     ))))))))))))))))))))"

section \<open>Assess pipeline: recommendation cards, rationale and the response\<close>

text \<open>A lookup \<^verbatim>\<open>d[key]\<close> in a dict the pipeline has built itself.\<close>

definition item :: "(string \<times> 'a) list \<Rightarrow> string \<Rightarrow> pyerr + 'a" where
  "item d k = (case map_of d k of None \<Rightarrow> Inl (KeyError k) | Some v \<Rightarrow> Inr v)"

datatype badge = Lowest_CO2 | Lowest_cost | Top_choice | Balanced | Max_performance

text \<open>A recommendation card. The texts that are the same in every response (title,
  tagline, why\_this, assumptions, next\_steps, cta\_label, icon) are left out.\<close>

record card =
  option_id :: string
  category :: string
  scores :: option_score
  estimated_impacts :: impact
  ui_badge :: badge
  open_incentive_flow :: bool

text \<open>\<^verbatim>\<open>engine._build_recommendations\<close>.\<close>

definition build_recommendations ::
  "pyval \<Rightarrow> (string \<times> option_score) list \<Rightarrow> (string \<times> impact) list \<Rightarrow> string
     \<Rightarrow> pyerr + card list" where
  "build_recommendations input_payload scores_d impacts_d recommended_option_id =
     bindE (subscript input_payload ''user_preferences'') (\<lambda>prefs.
     bindE (subscript prefs ''sustainability_priority'') (\<lambda>sp.
     let repair_badge = (if sp = PStr ''high'' then Lowest_CO2 else Lowest_cost);
         refurb_badge = (if recommended_option_id = ''refurb_buy'' then Top_choice else Balanced)
     in
     bindE (item scores_d ''repair_battery'') (\<lambda>s1.
     bindE (item impacts_d ''repair_battery'') (\<lambda>i1.
     bindE (item scores_d ''refurb_buy'') (\<lambda>s2.
     bindE (item impacts_d ''refurb_buy'') (\<lambda>i2.
     bindE (item scores_d ''tradein_new'') (\<lambda>s3.
     bindE (item impacts_d ''tradein_new'') (\<lambda>i3.
       Inr
        [\<lparr>option_id = ''repair_battery'', category = ''repair'', scores = s1,
          estimated_impacts = i1, ui_badge = repair_badge, open_incentive_flow = False\<rparr>,
         \<lparr>option_id = ''refurb_buy'', category = ''refurb'', scores = s2,
          estimated_impacts = i2, ui_badge = refurb_badge, open_incentive_flow = False\<rparr>,
         \<lparr>option_id = ''tradein_new'', category = ''trade_in'', scores = s3,
          estimated_impacts = i3, ui_badge = Max_performance, open_incentive_flow = True\<rparr>]
     ))))))))"

text \<open>The rationale text: which of the three templates, and for the repair template the
  values interpolated into it and whether the extra clause is appended.\<close>

datatype rationale_text =
    Repair_rationale pyval int int bool
  | Refurb_rationale
  | Tradein_rationale

text \<open>The clause test \<^verbatim>\<open>prefs["sustainability_priority"] == "high" and not
  prefs["prefers_financing"]\<close>; the second operand is read only when the first holds.
  Truthiness of a value.\<close>

definition truthy :: "pyval \<Rightarrow> bool" where
  "truthy v =
     (case v of
        PNone \<Rightarrow> False
      | PBool b \<Rightarrow> b
      | PInt i \<Rightarrow> i \<noteq> 0
      | PFloat r \<Rightarrow> r \<noteq> 0
      | PStr s \<Rightarrow> s \<noteq> []
      | PList xs \<Rightarrow> xs \<noteq> []
      | PDict kvs \<Rightarrow> kvs \<noteq> [])"

text \<open>\<^verbatim>\<open>engine._build_rationale\<close>.\<close>

definition build_rationale :: "string \<Rightarrow> pyval \<Rightarrow> rul_estimate \<Rightarrow> pyerr + rationale_text" where
  "build_rationale recommended_option_id input_payload est =
     bindE (subscript input_payload ''user_preferences'') (\<lambda>prefs.
     bindE (subscript input_payload ''signals'') (\<lambda>signals.
       if recommended_option_id = ''repair_battery'' then
         bindE (subscript signals ''battery_health_percent'') (\<lambda>b.
         bindE (subscript prefs ''sustainability_priority'') (\<lambda>sp.
           if sp = PStr ''high'' then
             bindE (subscript prefs ''prefers_financing'') (\<lambda>pf.
               Inr (Repair_rationale b (rul_months_min est) (rul_months_max est) (\<not> truthy pf)))
           else Inr (Repair_rationale b (rul_months_min est) (rul_months_max est) False)))
       else if recommended_option_id = ''refurb_buy'' then Inr Refurb_rationale
       else Inr Tradein_rationale))"

definition option_order :: "string list" where
  "option_order = [''refurb_buy'', ''repair_battery'', ''tradein_new'']"

text \<open>\<^verbatim>\<open>order_index[option_id]\<close> for the dict built from \<^verbatim>\<open>enumerate(option_order)\<close>.\<close>

fun index_in :: "string list \<Rightarrow> string \<Rightarrow> int \<Rightarrow> pyerr + int" where
  "index_in [] k i = Inl (KeyError k)"
| "index_in (x # xs) k i = (if x = k then Inr i else index_in xs k (i + 1))"

definition order_index :: "string \<Rightarrow> pyerr + int" where
  "order_index k = index_in option_order k 0"

text \<open>Comparison of the key tuples \<^verbatim>\<open>(overall_score, -order_index)\<close>.\<close>

definition tuple_less :: "rat \<times> int \<Rightarrow> rat \<times> int \<Rightarrow> bool" where
  "tuple_less a b = (fst a < fst b \<or> (fst a = fst b \<and> snd a < snd b))"

text \<open>The key of every item, in iteration order.\<close>

fun with_keys :: "(string \<times> option_score) list \<Rightarrow> pyerr + ((string \<times> option_score) \<times> (rat \<times> int)) list" where
  "with_keys [] = Inr []"
| "with_keys (x # xs) =
     bindE (order_index (fst x)) (\<lambda>i.
     bindE (with_keys xs) (\<lambda>rest.
       Inr ((x, (overall_score (snd x), - i)) # rest)))"

text \<open>\<^verbatim>\<open>max(iterable, key=...)\<close>: the first item whose key no later item exceeds;
  \<^verbatim>\<open>ValueError\<close> on an empty iterable.\<close>

fun max_by_key :: "('a \<times> (rat \<times> int)) list \<Rightarrow> pyerr + 'a" where
  "max_by_key [] = Inl (ValueError ''max() arg is an empty sequence'')"
| "max_by_key (x # xs) =
     Inr (fst (foldl (\<lambda>best y. if tuple_less (snd best) (snd y) then y else best) x xs))"

definition recommended_option :: "(string \<times> option_score) list \<Rightarrow> pyerr + string" where
  "recommended_option scores_d =
     bindE (with_keys scores_d) (\<lambda>keyed.
     bindE (max_by_key keyed) (\<lambda>best. Inr (fst best)))"

record decision_summary =
  recommended_primary_option_id :: string
  rationale :: rationale_text

record inputs_echo =
  echo_device :: pyval
  echo_signals :: pyval
  echo_user_preferences :: pyval

record assess_response =
  request_id :: string
  timestamp_utc :: string
  model_version :: string
  inputs_echo :: inputs_echo
  rul_estimate :: rul_estimate
  decision_summary :: decision_summary
  recommendations :: "card list"

text \<open>The keys of the dict display that builds the response (lines 409 to 425), and the
  set it is asserted against (lines 427 to 437).\<close>

definition assess_response_keys :: "string list" where
  "assess_response_keys =
     [''request_id'', ''timestamp_utc'', ''model_version'', ''inputs_echo'', ''rul_estimate'',
      ''decision_summary'', ''recommendations'', ''disclaimer'']"

definition assess_expected_keys :: "string set" where
  "assess_expected_keys =
     {''request_id'', ''timestamp_utc'', ''model_version'', ''inputs_echo'', ''rul_estimate'',
      ''decision_summary'', ''recommendations'', ''disclaimer''}"

text \<open>\<^verbatim>\<open>engine.assess_logic\<close>.\<close>

definition assess_logic :: "'g lib \<Rightarrow> world \<Rightarrow> pyval \<Rightarrow> pyerr + assess_response" where
  "assess_logic L W input_payload =
     thenE (validate_input_payload input_payload)
    (bindE (stable_seed L input_payload) (\<lambda>seed.
     let rng = Random L (int seed + 42) in
     bindE (compute_rul_and_confidence input_payload) (\<lambda>(est, _, _).
     bindE (compute_option_scores input_payload) (\<lambda>scores_d.
     bindE (build_estimated_impacts L rng) (\<lambda>impacts_d.
     bindE (recommended_option scores_d) (\<lambda>recommended_option_id.
     bindE (build_recommendations input_payload scores_d impacts_d recommended_option_id) (\<lambda>cards.
     let stamp = utc_now W;
         rid = ''req_'' @ format_08x seed
     in
     bindE (build_rationale recommended_option_id input_payload est) (\<lambda>text.
     bindE (subscript input_payload ''device'') (\<lambda>device.
     bindE (subscript input_payload ''signals'') (\<lambda>signals.
     bindE (subscript input_payload ''user_preferences'') (\<lambda>prefs.
     let response =
           \<lparr>request_id = rid,
            timestamp_utc = stamp,
            model_version = MODEL_VERSION,
            inputs_echo = \<lparr>echo_device = device, echo_signals = signals,
                            echo_user_preferences = prefs\<rparr>,
            rul_estimate = est,
            decision_summary = \<lparr>recommended_primary_option_id = recommended_option_id,
                                  rationale = text\<rparr>,
            recommendations = cards\<rparr>
     in if set assess_response_keys \<noteq> assess_expected_keys
        then Inl (AssertionError ''Top-level assess key set mismatch'')
        else Inr response)))))))))))"

section \<open>Incentive pipeline\<close>

record package_value =
  cash_amount_try :: "int option"
  carbon_points :: "int option"
  perk :: string

text \<open>An incentive package; \<open>None\<close> is the JSON \<^verbatim>\<open>null\<close>. The constant texts (title,
  description, badge, cta\_label) are left out.\<close>

record package =
  package_id :: string
  pkg_value :: package_value

datatype note_text = Note_wipe | Note_heavy_usage | Note_sustainability | Note_budget | Note_default

record incentive_response =
  inc_request_id :: string
  inc_model_version :: string
  selected_option_id :: string
  packages :: "package list"
  accept_score :: rat
  impact_score :: rat
  inc_notes :: "note_text list"

text \<open>Lines 93 to 126 of \<^verbatim>\<open>incentive_logic\<close>: the draws, in the order the source makes
  them, the conditional adjustments and the final clamps. The result is
  \<^verbatim>\<open>(cash_amount, carbon_points_amount, hybrid_cash_amount, hybrid_carbon_points)\<close>.\<close>

definition draw_amounts ::
  "'g lib \<Rightarrow> 'g \<Rightarrow> rat \<Rightarrow> bool \<Rightarrow> string \<Rightarrow> pyerr + (int \<times> int \<times> int \<times> int)" where
  "draw_amounts L rng sustain_bias heavy_usage sustainability_priority =
     bindE
       (if 0 < sustain_bias then
          bindE (randint L rng 16000 22000) (\<lambda>(cp, g1).
          bindE (randint L g1 7500 12000) (\<lambda>(ca, g2). Inr (ca, cp, g2)))
        else if sustain_bias < 0 then
          bindE (randint L rng 13000 17000) (\<lambda>(ca, g1).
          bindE (randint L g1 7000 12000) (\<lambda>(cp, g2). Inr (ca, cp, g2)))
        else
          bindE (randint L rng 10000 14500) (\<lambda>(ca, g1).
          bindE (randint L g1 11000 17000) (\<lambda>(cp, g2). Inr (ca, cp, g2))))
       (\<lambda>(cash_amount, carbon_points_amount, g2).
     bindE (randint L g2 8500 12000) (\<lambda>(hybrid_cash_amount, g3).
     bindE (randint L g3 6000 10000) (\<lambda>(hybrid_carbon_points, g4).
     bindE
       (if 0 < sustain_bias then
          bindE (randint L g4 400 1200) (\<lambda>(a, g5).
          bindE (randint L g5 300 900) (\<lambda>(b, g6).
            Inr (hybrid_cash_amount - b, hybrid_carbon_points + a, g6)))
        else if sustain_bias < 0 then
          bindE (randint L g4 400 1200) (\<lambda>(a, g5).
          bindE (randint L g5 300 900) (\<lambda>(b, g6).
            Inr (hybrid_cash_amount + a, hybrid_carbon_points - b, g6)))
        else Inr (hybrid_cash_amount, hybrid_carbon_points, g4))
       (\<lambda>(hybrid_cash_amount, hybrid_carbon_points, g6).
     let hybrid_cash_amount = max hybrid_cash_amount 7000;
         hybrid_carbon_points = max hybrid_carbon_points 5000
     in
     bindE
       (if heavy_usage then
          bindE (randint L g6 600 1600) (\<lambda>(a, g7).
          bindE (randint L g7 300 800) (\<lambda>(b, g8).
            Inr (cash_amount + a, hybrid_cash_amount + b, g8)))
        else Inr (cash_amount, hybrid_cash_amount, g6))
       (\<lambda>(cash_amount, hybrid_cash_amount, g8).
     bindE
       (if sustainability_priority = ''high'' then
          bindE (randint L g8 600 1800) (\<lambda>(a, g9).
          bindE (randint L g9 200 800) (\<lambda>(b, g10).
            Inr (carbon_points_amount + a, hybrid_carbon_points + b, g10)))
        else Inr (carbon_points_amount, hybrid_carbon_points, g8))
       (\<lambda>(carbon_points_amount, hybrid_carbon_points, g10).
       Inr (clamp_int cash_amount 7000 18000,
            clamp_int carbon_points_amount 6000 24000,
            clamp_int hybrid_cash_amount 7000 13000,
            clamp_int hybrid_carbon_points 5000 12000)))))))"

text \<open>The list \<^verbatim>\<open>packages\<close> (lines 128 to 175).\<close>

definition build_packages :: "int \<Rightarrow> int \<Rightarrow> int \<Rightarrow> int \<Rightarrow> bool \<Rightarrow> bool \<Rightarrow> string \<Rightarrow> package list" where
  "build_packages cash_amount carbon_points_amount hybrid_cash_amount hybrid_carbon_points
       heavy_usage prefers_financing sustainability_priority =
     (let cash_perk = (if heavy_usage \<or> prefers_financing then ''extra_data'' else ''none'');
          carbon_perk = (if sustainability_priority = ''high'' then ''tree'' else ''donation'');
          hybrid_perk = (if sustainability_priority = ''high'' then ''donation'' else ''none'')
      in [\<lparr>package_id = ''cash'',
            pkg_value = \<lparr>cash_amount_try = Some cash_amount, carbon_points = None,
                          perk = cash_perk\<rparr>\<rparr>,
          \<lparr>package_id = ''carbon_points'',
            pkg_value = \<lparr>cash_amount_try = None, carbon_points = Some carbon_points_amount,
                          perk = carbon_perk\<rparr>\<rparr>,
          \<lparr>package_id = ''hybrid'',
            pkg_value = \<lparr>cash_amount_try = Some hybrid_cash_amount,
                          carbon_points = Some hybrid_carbon_points,
                          perk = hybrid_perk\<rparr>\<rparr>])"

text \<open>The list \<^verbatim>\<open>notes\<close> (lines 198 to 208).\<close>

definition build_notes :: "bool \<Rightarrow> bool \<Rightarrow> string \<Rightarrow> string \<Rightarrow> note_text list" where
  "build_notes wipe_anxiety heavy_usage sustainability_priority budget_priority =
     (let ns = [];
          ns = (if wipe_anxiety then ns @ [Note_wipe] else ns);
          ns = (if heavy_usage then ns @ [Note_heavy_usage] else ns);
          ns = (if sustainability_priority = ''high'' then ns @ [Note_sustainability] else ns);
          ns = (if budget_priority = ''high'' then ns @ [Note_budget] else ns)
      in if ns = [] then ns @ [Note_default] else ns)"

definition incentive_response_keys :: "string list" where
  "incentive_response_keys =
     [''request_id'', ''model_version'', ''selected_option_id'', ''packages'', ''accept_score'',
      ''impact_score'', ''notes'', ''disclaimer'']"

definition incentive_expected_keys :: "string set" where
  "incentive_expected_keys =
     {''request_id'', ''model_version'', ''selected_option_id'', ''packages'', ''accept_score'',
      ''impact_score'', ''notes'', ''disclaimer''}"

text \<open>The assertions at the end of \<^verbatim>\<open>incentive_logic\<close> (lines 224 to 241).\<close>

definition check_incentive_response :: "incentive_response \<Rightarrow> pyerr + incentive_response" where
  "check_incentive_response response =
     (if set incentive_response_keys \<noteq> incentive_expected_keys
      then Inl (AssertionError ''Top-level key set mismatch'')
      else if set (map package_id (packages response)) \<noteq> {''cash'', ''carbon_points'', ''hybrid''}
      then Inl (AssertionError ''Invalid package ids'')
      else if \<not> (0 \<le> accept_score response \<and> accept_score response \<le> 1)
      then Inl (AssertionError ''accept_score out of range'')
      else if \<not> (0 \<le> impact_score response \<and> impact_score response \<le> 1)
      then Inl (AssertionError ''impact_score out of range'')
      else if \<not> 1 \<le> length (inc_notes response)
      then Inl (AssertionError ''notes must contain at least one item'')
      else Inr response)"

text \<open>\<^verbatim>\<open>incentive.incentive_logic\<close>. The second argument is untyped, as the first is.
  The pipeline reads nothing of the world it runs in.\<close>

definition incentive_logic :: "'g lib \<Rightarrow> world \<Rightarrow> pyval \<Rightarrow> pyval \<Rightarrow> pyerr + incentive_response" where
  "incentive_logic L W input_payload selected =
     thenE (validate_input_payload_inc input_payload)
       (case selected of
          PStr sid \<Rightarrow>
            if sid = [] then Inl (ValueError ''selected_option_id must be a non-empty string'')
            else
              bindE (subscript input_payload ''signals'') (\<lambda>signals.
              bindE (subscript input_payload ''user_preferences'') (\<lambda>prefs.
              bindE (str_item prefs ''sustainability_priority'') (\<lambda>sustainability_priority.
              bindE (str_item prefs ''budget_priority'') (\<lambda>budget_priority.
              bindE (bool_item prefs ''prefers_financing'') (\<lambda>prefers_financing.
              bindE (map_priority sustainability_priority) (\<lambda>sustainability_weight.
              bindE (map_priority budget_priority) (\<lambda>budget_weight.
              let sustain_bias = sustainability_weight - budget_weight;
                  wipe_anxiety = (prefers_financing = False \<and> sustainability_priority = ''high'')
              in
              bindE (int_item signals ''charge_cycles'') (\<lambda>charge_cycles.
              bindE (float_item signals ''frame_drop_rate'') (\<lambda>frame_drop_rate.
              bindE (int_item signals ''repair_history_count'') (\<lambda>repair_history_count.
              let heavy_usage = (850 \<le> charge_cycles \<or> 15 / 100 \<le> frame_drop_rate
                                 \<or> 2 \<le> repair_history_count)
              in
              bindE (stable_seed_inc L input_payload sid) (\<lambda>seed.
              let rng = Random L (int seed + 42) in
              bindE (draw_amounts L rng sustain_bias heavy_usage sustainability_priority)
                (\<lambda>(cash_amount, carbon_points_amount, hybrid_cash_amount, hybrid_carbon_points).
              let pkgs = build_packages cash_amount carbon_points_amount hybrid_cash_amount
                           hybrid_carbon_points heavy_usage prefers_financing
                           sustainability_priority;
                  max_cash_reference = 17000;
                  max_carbon_reference = 22000
              in
              bindE (to_float cash_amount) (\<lambda>cash_f.
              bindE (to_float carbon_points_amount) (\<lambda>carbon_f.
              let cash_norm = clamp (cash_f / max_cash_reference) 0 1;
                  carbon_norm = clamp (carbon_f / max_carbon_reference) 0 1;
                  accept = 45 / 100 + 22 / 100 * (budget_weight / 3) + 18 / 100 * cash_norm
                           + (if prefers_financing then 7 / 100 else 0)
                           + (if heavy_usage then 4 / 100 else 0);
                  impact = 40 / 100 + 30 / 100 * (sustainability_weight / 3)
                           + 22 / 100 * carbon_norm
                           + (if sustainability_priority = ''high'' then 5 / 100 else 0);
                  accept = round2 (clamp accept 0 1);
                  impact = round2 (clamp impact 0 1);
                  ns = build_notes wipe_anxiety heavy_usage sustainability_priority budget_priority;
                  response =
                    \<lparr>inc_request_id = ''req_'' @ format_08x seed @ ''_INC'',
                     inc_model_version = MODEL_VERSION,
                     selected_option_id = sid,
                     packages = pkgs,
                     accept_score = accept,
                     impact_score = impact,
                     inc_notes = ns\<rparr>
              in check_incentive_response response))))))))))))))
        | _ \<Rightarrow> Inl (ValueError ''selected_option_id must be a non-empty string''))"

section \<open>Example inputs and a concrete library\<close>

text \<open>Scenario A of \<^verbatim>\<open>engine.py\<close> (lines 448 to 462).\<close>

definition scenario_a_input :: pyval where
  "scenario_a_input =
     PDict
      [(''device'', PDict [(''brand'', PStr ''Samsung''), (''model'', PStr ''Galaxy S22''),
                          (''age_months'', PInt 31)]),
       (''signals'', PDict [(''battery_health_percent'', PInt 76), (''charge_cycles'', PInt 702),
                           (''frame_drop_rate'', PFloat (9 / 100)),
                           (''repair_history_count'', PInt 1)]),
       (''user_preferences'',
          PDict [(''budget_priority'', PStr ''medium''), (''sustainability_priority'', PStr ''high''),
                 (''performance_priority'', PStr ''medium''), (''prefers_financing'', PBool False)])]"

text \<open>Scenario A with a device age of \<open>2^1024\<close> months: a JSON integer literal, read
  by Python as an \<^verbatim>\<open>int\<close>.\<close>

definition huge_age_input :: pyval where
  "huge_age_input =
     PDict
      [(''device'', PDict [(''brand'', PStr ''Samsung''), (''model'', PStr ''Galaxy S22''),
                          (''age_months'', PInt (2 ^ 1024))]),
       (''signals'', PDict [(''battery_health_percent'', PInt 76), (''charge_cycles'', PInt 702),
                           (''frame_drop_rate'', PFloat (9 / 100)),
                           (''repair_history_count'', PInt 1)]),
       (''user_preferences'',
          PDict [(''budget_priority'', PStr ''medium''), (''sustainability_priority'', PStr ''high''),
                 (''performance_priority'', PStr ''medium''), (''prefers_financing'', PBool False)])]"

text \<open>Scenario A with \<open>10^4300\<close> charge cycles, an integer of 4301 digits.\<close>

definition int_str_limit :: int where
  "int_str_limit = 10 ^ 4300"

definition long_cycles_input :: pyval where
  "long_cycles_input =
     PDict
      [(''device'', PDict [(''brand'', PStr ''Samsung''), (''model'', PStr ''Galaxy S22''),
                          (''age_months'', PInt 31)]),
       (''signals'', PDict [(''battery_health_percent'', PInt 76),
                           (''charge_cycles'', PInt int_str_limit),
                           (''frame_drop_rate'', PFloat (9 / 100)),
                           (''repair_history_count'', PInt 1)]),
       (''user_preferences'',
          PDict [(''budget_priority'', PStr ''medium''), (''sustainability_priority'', PStr ''high''),
                 (''performance_priority'', PStr ''medium''), (''prefers_financing'', PBool False)])]"

text \<open>A value holds an integer of more than 4300 digits, which CPython from 3.11 on does
  not convert to a string: \<^verbatim>\<open>json.dumps\<close> raises \<^verbatim>\<open>ValueError\<close> on it.\<close>

fun has_long_int :: "pyval \<Rightarrow> bool" where
  "has_long_int (PInt i) = (int_str_limit \<le> \<bar>i\<bar>)"
| "has_long_int (PList vs) = list_ex has_long_int vs"
| "has_long_int (PDict kvs) = list_ex has_long_int (map snd kvs)"
| "has_long_int _ = False"

text \<open>A library instance to run the pipelines on: the encoder refuses an integer of more
  than 4300 digits and otherwise writes the top-level keys, each followed by its value
  when that is a string; the leading digits of the digest depend on the length of the
  encoded text, and the generator is a counter.\<close>

definition lib0 :: "nat lib" where
  "lib0 =
     \<lparr>json_dumps = (\<lambda>v.
        if has_long_int v
        then Inl (ValueError ''Exceeds the limit (4300 digits) for integer string conversion'')
        else Inr (case v of
                    PDict kvs \<Rightarrow>
                      concat (map (\<lambda>(k, x). k @ (case x of PStr t \<Rightarrow> t | _ \<Rightarrow> [])) kvs)
                  | _ \<Rightarrow> [])),
      sha256 = (\<lambda>s. (305441741 + length s) * 16 ^ 56),
      Random = (\<lambda>n. nat n),
      randint_raw = (\<lambda>g a b. (a + int g mod (b - a + 1), g + 1)),
      uniform = (\<lambda>g a b. (a + (b - a) / 2, g + 1))\<rparr>"

definition world0 :: world where
  "world0 = \<lparr>utc_now = ''2026-01-01T00:00:00Z''\<rparr>"

definition world1 :: world where
  "world1 = \<lparr>utc_now = ''2026-06-30T12:00:00Z''\<rparr>"

text \<open>A preference field holds one of the three priority words.\<close>

definition priority_ok :: "pyval \<Rightarrow> string \<Rightarrow> bool" where
  "priority_ok pr k \<longleftrightarrow> (\<exists>s. str_item pr k = Inr s \<and> s \<in> {''low'', ''medium'', ''high''})"

text \<open>A device field holds a non-empty string.\<close>

definition nonempty_str_item :: "pyval \<Rightarrow> string \<Rightarrow> bool" where
  "nonempty_str_item d k \<longleftrightarrow> (\<exists>s. str_item d k = Inr s \<and> s \<noteq> [])"

section \<open>The formulas of the specification\<close>

text \<open>Section 4.3 of the specification, formula by formula. The arguments are the device
  age in months, the battery health in percent, the charge cycles, the frame drop rate and
  the repair count.\<close>

definition spec_rul_point :: "int \<Rightarrow> int \<Rightarrow> int \<Rightarrow> rat \<Rightarrow> int \<Rightarrow> rat" where
  "spec_rul_point age battery cycles frame_drop repairs =
     clamp (24 - clamp (of_int age / 6) 0 12 - (100 - of_int battery) / 10 - of_int cycles / 400
            - frame_drop * 10 - of_int repairs * (15 / 10)) 1 30"

definition spec_risk :: "int \<Rightarrow> int \<Rightarrow> int \<Rightarrow> rat \<Rightarrow> int \<Rightarrow> rat" where
  "spec_risk age battery cycles frame_drop repairs =
     of_int age / 48 + (100 - of_int battery) / 60 + of_int cycles / 1200
     + frame_drop / (4 / 10) + of_int repairs / 4"

definition spec_confidence_score :: "rat \<Rightarrow> rat" where
  "spec_confidence_score risk = clamp (1 - risk / 5) (35 / 100) (9 / 10)"

definition spec_confidence :: "rat \<Rightarrow> string" where
  "spec_confidence score =
     (if 8 / 10 \<le> score then ''high'' else if 6 / 10 \<le> score then ''medium-high'' else ''medium'')"

definition spec_margin :: "rat \<Rightarrow> rat" where
  "spec_margin score = 2 + (1 - score) * 4"

definition spec_rul_min :: "rat \<Rightarrow> rat \<Rightarrow> int" where
  "spec_rul_min rul_point margin = max 1 \<lfloor>rul_point - margin\<rfloor>"

definition spec_rul_max :: "rat \<Rightarrow> rat \<Rightarrow> int" where
  "spec_rul_max rul_point margin = min 30 \<lceil>rul_point + margin\<rceil>"

text \<open>The five contribution ratios of the key drivers, in the enumeration order of the
  specification.\<close>

definition spec_contributions :: "int \<Rightarrow> int \<Rightarrow> int \<Rightarrow> rat \<Rightarrow> int \<Rightarrow> (string \<times> rat) list" where
  "spec_contributions age battery cycles frame_drop repairs =
     [(''battery_health_percent'', (100 - of_int battery) / 60),
      (''charge_cycles'', of_int cycles / 1200),
      (''frame_drop_rate'', frame_drop / (4 / 10)),
      (''repair_history_count'', of_int repairs / 4),
      (''device_age_months'', of_int age / 48)]"

section \<open>Reading a validated payload\<close>

text \<open>The typed value of a field of a section of the payload, as the pipelines read it.\<close>

definition int_field :: "pyval \<Rightarrow> string \<Rightarrow> string \<Rightarrow> pyerr + int" where
  "int_field p sec key = bindE (subscript p sec) (\<lambda>d. int_item d key)"

definition float_field :: "pyval \<Rightarrow> string \<Rightarrow> string \<Rightarrow> pyerr + rat" where
  "float_field p sec key = bindE (subscript p sec) (\<lambda>d. float_item d key)"

definition str_field :: "pyval \<Rightarrow> string \<Rightarrow> string \<Rightarrow> pyerr + string" where
  "str_field p sec key = bindE (subscript p sec) (\<lambda>d. str_item d key)"

definition bool_field :: "pyval \<Rightarrow> string \<Rightarrow> string \<Rightarrow> pyerr + bool" where
  "bool_field p sec key = bindE (subscript p sec) (\<lambda>d. bool_item d key)"

text \<open>An integer field that is present converts to a float without overflow.\<close>

definition fits_float :: "pyerr + int \<Rightarrow> bool" where
  "fits_float x = (case x of Inl _ \<Rightarrow> True | Inr i \<Rightarrow> \<bar>i\<bar> < float_limit)"

definition ints_fit_float :: "pyval \<Rightarrow> bool" where
  "ints_fit_float p \<longleftrightarrow>
     fits_float (int_field p ''device'' ''age_months'')
     \<and> fits_float (int_field p ''signals'' ''charge_cycles'')
     \<and> fits_float (int_field p ''signals'' ''repair_history_count'')"

text \<open>The tie-break order of the specification (section 4.4), and the position of an
  option id in it.\<close>

definition spec_priority_order :: "string list" where
  "spec_priority_order = [''refurb_buy'', ''repair_battery'', ''tradein_new'']"

definition position_in :: "string list \<Rightarrow> string \<Rightarrow> nat" where
  "position_in xs k = length (takeWhile (\<lambda>x. x \<noteq> k) xs)"

text \<open>The weight \<^verbatim>\<open>map_priority(prefs[key])\<close> of a preference of the payload.\<close>

definition priority_weight :: "pyval \<Rightarrow> string \<Rightarrow> pyerr + rat" where
  "priority_weight p key = bindE (str_field p ''user_preferences'' key) map_priority"

text \<open>The seed of the specification, as text: the first eight characters of the SHA-256
  hex digest of the canonical JSON encoding \<open>raw\<close> of a value.\<close>

definition spec_seed_digits :: "'g lib \<Rightarrow> string \<Rightarrow> string" where
  "spec_seed_digits L raw = take 8 (hexdigest (sha256 L raw))"

text \<open>The value the incentive pipeline seeds on.\<close>

definition spec_incentive_seed_input :: "pyval \<Rightarrow> string \<Rightarrow> pyval" where
  "spec_incentive_seed_input p sid =
     PDict [(''input_payload'', p), (''selected_option_id'', PStr sid)]"

section \<open>The validator contract of the specification\<close>

text \<open>Section 4.1 of the specification: the checks in their documented order, each with
  the message that names the field. A field is looked up in its section; a missing field
  reads as \<open>PNone\<close>, as a JSON \<^verbatim>\<open>null\<close> does.\<close>

definition spec_section :: "pyval \<Rightarrow> string \<Rightarrow> pyval" where
  "spec_section p sec =
     (case p of
        PDict kvs \<Rightarrow> (case map_of kvs sec of Some v \<Rightarrow> v | None \<Rightarrow> PNone)
      | _ \<Rightarrow> PNone)"

definition spec_field :: "pyval \<Rightarrow> string \<Rightarrow> string \<Rightarrow> pyval" where
  "spec_field p sec k = spec_section (spec_section p sec) k"

definition spec_top_level_present :: "pyval \<Rightarrow> bool" where
  "spec_top_level_present p =
     (case p of
        PDict kvs \<Rightarrow> map_of kvs ''device'' \<noteq> None \<and> map_of kvs ''signals'' \<noteq> None
                     \<and> map_of kvs ''user_preferences'' \<noteq> None
      | _ \<Rightarrow> False)"

definition spec_nonempty_string :: "pyval \<Rightarrow> bool" where
  "spec_nonempty_string v = (case v of PStr s \<Rightarrow> s \<noteq> [] | _ \<Rightarrow> False)"

text \<open>An integer is a Python \<^verbatim>\<open>int\<close>; a boolean counts as the integer 0 or 1.\<close>

definition spec_is_int :: "pyval \<Rightarrow> bool" where
  "spec_is_int v = (case v of PInt _ \<Rightarrow> True | PBool _ \<Rightarrow> True | _ \<Rightarrow> False)"

definition spec_int_value :: "pyval \<Rightarrow> int" where
  "spec_int_value v = (case v of PInt i \<Rightarrow> i | PBool b \<Rightarrow> (if b then 1 else 0) | _ \<Rightarrow> 0)"

definition spec_nonneg_int :: "pyval \<Rightarrow> bool" where
  "spec_nonneg_int v \<longleftrightarrow> spec_is_int v \<and> 0 \<le> spec_int_value v"

definition spec_int_0_100 :: "pyval \<Rightarrow> bool" where
  "spec_int_0_100 v \<longleftrightarrow> spec_is_int v \<and> 0 \<le> spec_int_value v \<and> spec_int_value v \<le> 100"

definition spec_is_number :: "pyval \<Rightarrow> bool" where
  "spec_is_number v = (case v of PFloat _ \<Rightarrow> True | PInt _ \<Rightarrow> True | PBool _ \<Rightarrow> True | _ \<Rightarrow> False)"

definition spec_number_value :: "pyval \<Rightarrow> rat" where
  "spec_number_value v = (case v of PFloat r \<Rightarrow> r | _ \<Rightarrow> of_int (spec_int_value v))"

definition spec_number_0_1 :: "pyval \<Rightarrow> bool" where
  "spec_number_0_1 v \<longleftrightarrow> spec_is_number v \<and> 0 \<le> spec_number_value v \<and> spec_number_value v \<le> 1"

definition spec_priority :: "pyval \<Rightarrow> bool" where
  "spec_priority v = (case v of PStr s \<Rightarrow> s \<in> {''low'', ''medium'', ''high''} | _ \<Rightarrow> False)"

definition spec_boolean :: "pyval \<Rightarrow> bool" where
  "spec_boolean v = (case v of PBool _ \<Rightarrow> True | _ \<Rightarrow> False)"

text \<open>The checks the incentive validator shares with the full one, then the full list.\<close>

definition spec_checks_inc :: "pyval \<Rightarrow> (string \<times> bool) list" where
  "spec_checks_inc p =
     [(''signals.charge_cycles must be int >= 0'',
         spec_nonneg_int (spec_field p ''signals'' ''charge_cycles'')),
      (''signals.frame_drop_rate must be float'',
         spec_is_number (spec_field p ''signals'' ''frame_drop_rate'')),
      (''signals.frame_drop_rate must be in [0, 1]'',
         spec_number_0_1 (spec_field p ''signals'' ''frame_drop_rate'')),
      (''signals.repair_history_count must be int >= 0'',
         spec_nonneg_int (spec_field p ''signals'' ''repair_history_count'')),
      (''user_preferences.budget_priority must be low|medium|high'',
         spec_priority (spec_field p ''user_preferences'' ''budget_priority'')),
      (''user_preferences.sustainability_priority must be low|medium|high'',
         spec_priority (spec_field p ''user_preferences'' ''sustainability_priority'')),
      (''user_preferences.performance_priority must be low|medium|high'',
         spec_priority (spec_field p ''user_preferences'' ''performance_priority'')),
      (''user_preferences.prefers_financing must be bool'',
         spec_boolean (spec_field p ''user_preferences'' ''prefers_financing''))]"

definition spec_checks :: "pyval \<Rightarrow> (string \<times> bool) list" where
  "spec_checks p =
     [(''device.brand must be non-empty string'',
         spec_nonempty_string (spec_field p ''device'' ''brand'')),
      (''device.model must be non-empty string'',
         spec_nonempty_string (spec_field p ''device'' ''model'')),
      (''device.age_months must be int >= 0'',
         spec_nonneg_int (spec_field p ''device'' ''age_months'')),
      (''signals.battery_health_percent must be int'',
         spec_is_int (spec_field p ''signals'' ''battery_health_percent'')),
      (''signals.battery_health_percent must be in [0, 100]'',
         spec_int_0_100 (spec_field p ''signals'' ''battery_health_percent''))]
     @ spec_checks_inc p"

text \<open>The message of the first check that fails.\<close>

fun first_failure :: "(string \<times> bool) list \<Rightarrow> string option" where
  "first_failure [] = None"
| "first_failure ((msg, ok) # cs) = (if ok then first_failure cs else Some msg)"

definition spec_first_offence :: "pyval \<Rightarrow> string option" where
  "spec_first_offence p =
     (if spec_top_level_present p then first_failure (spec_checks p)
      else Some ''input_payload must include device, signals, user_preferences'')"

definition spec_first_offence_inc :: "pyval \<Rightarrow> string option" where
  "spec_first_offence_inc p =
     (if \<not> is_dict p then Some ''input_payload must be a dict''
      else if spec_top_level_present p then first_failure (spec_checks_inc p)
      else Some ''input_payload must include device, signals, user_preferences'')"

definition spec_valid :: "pyval \<Rightarrow> bool" where
  "spec_valid p \<longleftrightarrow> spec_top_level_present p \<and> list_all snd (spec_checks p)"

definition spec_valid_inc :: "pyval \<Rightarrow> bool" where
  "spec_valid_inc p \<longleftrightarrow> spec_top_level_present p \<and> list_all snd (spec_checks_inc p)"

text \<open>The outcome of a validator: it returns, or raises the one kind of validation error
  with a message.\<close>

definition spec_outcome :: "string option \<Rightarrow> pyerr + unit" where
  "spec_outcome offence = (case offence of None \<Rightarrow> Inr () | Some msg \<Rightarrow> Inl (ValueError msg))"

text \<open>The payloads on which the validators are compared with the documented checks: the
  three sections are objects, no priority is an array or an object, and a frame drop rate
  given as an integer is in the range of a float.\<close>

definition spec_number_fits :: "pyval \<Rightarrow> bool" where
  "spec_number_fits v = (case v of PInt i \<Rightarrow> \<bar>i\<bar> < float_limit | _ \<Rightarrow> True)"

definition spec_hashable :: "pyval \<Rightarrow> bool" where
  "spec_hashable v = (case v of PList _ \<Rightarrow> False | PDict _ \<Rightarrow> False | _ \<Rightarrow> True)"

definition well_shaped :: "pyval \<Rightarrow> bool" where
  "well_shaped p \<longleftrightarrow>
     \<not> spec_top_level_present p
     \<or> (is_dict (spec_section p ''device'') \<and> is_dict (spec_section p ''signals'')
        \<and> is_dict (spec_section p ''user_preferences'')
        \<and> spec_hashable (spec_field p ''user_preferences'' ''budget_priority'')
        \<and> spec_hashable (spec_field p ''user_preferences'' ''sustainability_priority'')
        \<and> spec_hashable (spec_field p ''user_preferences'' ''performance_priority'')
        \<and> spec_number_fits (spec_field p ''signals'' ''frame_drop_rate''))"

text \<open>Scenario A with the device given as a string instead of an object.\<close>

definition device_string_input :: pyval where
  "device_string_input =
     PDict
      [(''device'', PStr ''Galaxy S22''),
       (''signals'', PDict [(''battery_health_percent'', PInt 76), (''charge_cycles'', PInt 702),
                           (''frame_drop_rate'', PFloat (9 / 100)),
                           (''repair_history_count'', PInt 1)]),
       (''user_preferences'',
          PDict [(''budget_priority'', PStr ''medium''), (''sustainability_priority'', PStr ''high''),
                 (''performance_priority'', PStr ''medium''), (''prefers_financing'', PBool False)])]"

text \<open>Scenario A with a frame drop rate of 1.5.\<close>

definition frame_drop_input :: pyval where
  "frame_drop_input =
     PDict
      [(''device'', PDict [(''brand'', PStr ''Samsung''), (''model'', PStr ''Galaxy S22''),
                          (''age_months'', PInt 31)]),
       (''signals'', PDict [(''battery_health_percent'', PInt 76), (''charge_cycles'', PInt 702),
                           (''frame_drop_rate'', PFloat (3 / 2)),
                           (''repair_history_count'', PInt 1)]),
       (''user_preferences'',
          PDict [(''budget_priority'', PStr ''medium''), (''sustainability_priority'', PStr ''high''),
                 (''performance_priority'', PStr ''medium''), (''prefers_financing'', PBool False)])]"

section \<open>Properties\<close>

declare hex_digits.simps [simp del]

subsection \<open>The error monad\<close>

lemma bindE_Inr [simp]: "bindE (Inr v) f = f v" by (simp add: bindE_def)
lemma bindE_Inl [simp]: "bindE (Inl e) f = Inl e" by (simp add: bindE_def)
lemma thenE_Inr [simp]: "thenE (Inr u) k = k" by (simp add: thenE_def)
lemma thenE_Inl [simp]: "thenE (Inl e) k = Inl e" by (simp add: thenE_def)

lemma bindE_eq_Inr: "bindE m f = Inr r \<longleftrightarrow> (\<exists>v. m = Inr v \<and> f v = Inr r)"
  by (cases m) simp_all

lemma thenE_eq_Inr: "thenE m k = Inr r \<longleftrightarrow> (m = Inr () \<and> k = Inr r)"
  by (cases m) simp_all

lemma bindE_InrE:
  assumes "bindE m f = Inr r"
  obtains v where "m = Inr v" and "f v = Inr r"
  using assms by (auto simp: bindE_eq_Inr)

lemma clamp_int_bounds: "lo \<le> hi \<Longrightarrow> lo \<le> clamp_int v lo hi \<and> clamp_int v lo hi \<le> hi"
  by (simp add: clamp_int_def)

lemma bindE_post:
  assumes "\<And>v. \<forall>r. f v = Inr r \<longrightarrow> Q r"
  shows "\<forall>r. bindE m f = Inr r \<longrightarrow> Q r"
  using assms by (cases m) auto

lemma case_prod_post:
  assumes "\<And>a b. \<forall>r. f a b = Inr r \<longrightarrow> Q r"
  shows "\<forall>r. (case p of (a, b) \<Rightarrow> f a b) = Inr r \<longrightarrow> Q r"
  using assms by (cases p) auto

lemma draw_amounts_post:
  "\<forall>t. draw_amounts L rng bias heavy sp = Inr t \<longrightarrow>
     (case t of (ca, cp, hc, hcp) \<Rightarrow>
        7000 \<le> ca \<and> ca \<le> 18000 \<and> 6000 \<le> cp \<and> cp \<le> 24000
        \<and> 7000 \<le> hc \<and> hc \<le> 13000 \<and> 5000 \<le> hcp \<and> hcp \<le> 12000)"
  unfolding draw_amounts_def Let_def
  by (intro bindE_post case_prod_post) (simp add: clamp_int_def)

lemma draw_amounts_bounds:
  assumes "draw_amounts L rng bias heavy sp = Inr (ca, cp, hc, hcp)"
  shows "7000 \<le> ca \<and> ca \<le> 18000 \<and> 6000 \<le> cp \<and> cp \<le> 24000
       \<and> 7000 \<le> hc \<and> hc \<le> 13000 \<and> 5000 \<le> hcp \<and> hcp \<le> 12000"
  using draw_amounts_post [of L rng bias heavy sp] assms by simp

lemma check_charge_cycles_ok:
  "check_charge_cycles sg = Inr () \<longleftrightarrow> (\<exists>i. int_item sg ''charge_cycles'' = Inr i \<and> 0 \<le> i)"
  by (auto simp: check_charge_cycles_def int_item_def dict_get_def subscript_def raise_if_def
        int_ge0_def as_int_def split: pyval.splits option.splits if_splits)

lemma check_repair_history_count_ok:
  "check_repair_history_count sg = Inr () \<longleftrightarrow>
     (\<exists>i. int_item sg ''repair_history_count'' = Inr i \<and> 0 \<le> i)"
  by (auto simp: check_repair_history_count_def int_item_def dict_get_def subscript_def
        raise_if_def int_ge0_def as_int_def split: pyval.splits option.splits if_splits)

lemma check_frame_drop_rate_ok:
  "check_frame_drop_rate sg = Inr () \<longleftrightarrow>
     (\<exists>r. float_item sg ''frame_drop_rate'' = Inr r \<and> 0 \<le> r \<and> r \<le> 1)"
proof (cases sg)
  case (PDict kvs)
  show ?thesis
  proof (cases "map_of kvs ''frame_drop_rate''")
    case None
    with PDict show ?thesis
      by (simp add: check_frame_drop_rate_def float_item_def dict_get_def subscript_def
            as_number_def)
  next
    case (Some v)
    with PDict show ?thesis
      by (cases v)
         (auto simp: check_frame_drop_rate_def float_item_def dict_get_def subscript_def
            as_number_def raise_if_def to_float_def)
  qed
qed (simp_all add: check_frame_drop_rate_def float_item_def dict_get_def subscript_def)

lemma check_prefers_financing_ok:
  "check_prefers_financing pr = Inr () \<longleftrightarrow> (\<exists>b. bool_item pr ''prefers_financing'' = Inr b)"
  by (auto simp: check_prefers_financing_def bool_item_def dict_get_def subscript_def
        raise_if_def is_bool_def split: pyval.splits option.splits if_splits)

lemma check_priority_step:
  "bindE (dict_get pr k) (\<lambda>v. bindE (in_priority_set v) (\<lambda>ok. raise_if (\<not> ok) msg)) = Inr ()
     \<longleftrightarrow> priority_ok pr k"
  by (auto simp: priority_ok_def str_item_def dict_get_def subscript_def raise_if_def
        in_priority_set_def split: pyval.splits option.splits if_splits)

lemma check_priorities_ok:
  "check_priorities pr = Inr () \<longleftrightarrow>
     priority_ok pr ''budget_priority'' \<and> priority_ok pr ''sustainability_priority''
     \<and> priority_ok pr ''performance_priority''"
  by (simp add: check_priorities_def thenE_eq_Inr check_priority_step)

subsection \<open>Hexadecimal digits\<close>

lemma hex_char_mod [simp]: "hex_char (n mod 16) = hex_char n"
  by (simp add: hex_char_def)

lemma hex_val_table: "\<forall>k\<in>{0..<16}. hex_val (''0123456789abcdef'' ! k) = Some k"
  by code_simp

lemma hex_val_hex_char: "hex_val (hex_char n) = Some (n mod 16)"
  using hex_val_table by (simp add: hex_char_def)

lemma int16_acc_digits:
  "\<forall>x\<in>set ds. x < 16 \<Longrightarrow>
     int16_acc a (map hex_char ds) = Inr (foldl (\<lambda>a x. 16 * a + x) a ds)"
  by (induction ds arbitrary: a) (simp_all add: hex_val_hex_char)

lemma hex_value_bound:
  "\<forall>x\<in>set ds. x < 16 \<Longrightarrow> foldl (\<lambda>a x. 16 * a + x) a ds < 16 ^ length ds * (a + (1::nat))"
proof (induction ds arbitrary: a)
  case Nil
  then show ?case by simp
next
  case (Cons x ds)
  then have "foldl (\<lambda>a x. 16 * a + x) (16 * a + x) ds < 16 ^ length ds * (16 * a + x + 1)"
    by simp
  also have "\<dots> \<le> 16 ^ length ds * (16 * (a + 1))"
    using Cons.prems by (intro mult_left_mono) simp_all
  finally show ?case by (simp add: algebra_simps)
qed

lemma hex_char_0: "hex_char 0 = CHR ''0''"
  by (simp add: hex_char_def)

lemma hex_digits_small: "n < 16 \<Longrightarrow> hex_digits n = [hex_char n]"
  by (simp add: hex_digits.simps)

lemma hex_digits_step: "0 < v \<Longrightarrow> x < 16 \<Longrightarrow> hex_digits (16 * v + x) = hex_digits v @ [hex_char x]"
  by (subst hex_digits.simps) simp

lemma pad_hex_digits:
  "\<forall>x\<in>set ds. x < 16 \<Longrightarrow> ds \<noteq> [] \<Longrightarrow>
     replicate (length ds - length (hex_digits (foldl (\<lambda>a x. 16 * a + x) 0 ds))) (CHR ''0'')
       @ hex_digits (foldl (\<lambda>a x. 16 * a + x) 0 ds) = map hex_char ds"
proof (induction ds rule: rev_induct)
  case Nil
  then show ?case by simp
next
  case (snoc x ys)
  let ?v = "foldl (\<lambda>a x. 16 * a + x) 0 ys"
  have x: "x < 16" using snoc.prems by simp
  show ?case
  proof (cases "ys = []")
    case True
    with x show ?thesis by (simp add: hex_digits_small)
  next
    case False
    with snoc have IH: "replicate (length ys - length (hex_digits ?v)) (CHR ''0'') @ hex_digits ?v
                        = map hex_char ys" by simp
    show ?thesis
    proof (cases "?v = 0")
      case True
      from False obtain n where n: "length ys = Suc n" by (cases ys) auto
      from IH True n have "replicate n (CHR ''0'') @ [CHR ''0''] = map hex_char ys"
        by (simp add: hex_digits_small hex_char_0)
      then have "replicate (Suc n) (CHR ''0'') = map hex_char ys"
        by (simp add: replicate_append_same)
      with True x n show ?thesis by (simp add: hex_digits_small)
    next
      case False
      then have "hex_digits (16 * ?v + x) = hex_digits ?v @ [hex_char x]"
        using x by (simp add: hex_digits_step)
      with IH show ?thesis by simp
    qed
  qed
qed

lemma take8_hexdigest:
  "take 8 (hexdigest d) = map hex_char (map (\<lambda>i. (d div 16 ^ (63 - i)) mod 16) [0..<8])"
  by (simp add: hexdigest_def take_map)

lemma int16_take8:
  "\<exists>n. int16 (take 8 (hexdigest d)) = Inr n \<and> n < 16 ^ 8
       \<and> format_08x n = take 8 (hexdigest d)"
proof -
  let ?ds = "map (\<lambda>i. (d div 16 ^ (63 - i)) mod 16) [0..<8]"
  let ?n = "foldl (\<lambda>a x. 16 * a + x) 0 ?ds"
  have small: "\<forall>x\<in>set ?ds. x < 16" by auto
  have len: "length ?ds = 8" by simp
  have ne: "?ds \<noteq> []" using len by (metis length_0_conv zero_neq_numeral)
  have "take 8 (hexdigest d) \<noteq> []" using len by (simp add: take8_hexdigest del: map_map)
  then have 1: "int16 (take 8 (hexdigest d)) = Inr ?n"
    unfolding int16_def take8_hexdigest using int16_acc_digits [OF small, of 0]
    by (simp del: map_map upt_Suc)
  have 2: "?n < 16 ^ 8" using hex_value_bound [OF small, of 0] len by (simp del: map_map upt_Suc)
  have 3: "format_08x ?n = take 8 (hexdigest d)"
    unfolding format_08x_def take8_hexdigest using pad_hex_digits [OF small ne] len
    by (simp del: map_map upt_Suc)
  from 1 2 3 show ?thesis by blast
qed

lemma stable_seed_ok:
  assumes "json_dumps L p = Inr raw"
  shows "\<exists>n. stable_seed L p = Inr n \<and> n < 2 ^ 32
       \<and> format_08x n = take 8 (hexdigest (sha256 L raw))"
  using int16_take8 [of "sha256 L raw"] assms by (simp add: stable_seed_def Let_def)

lemma stable_seed_Inl:
  "json_dumps L p = Inl e \<Longrightarrow> stable_seed L p = Inl e"
  by (simp add: stable_seed_def)

lemma stable_seed_Inr:
  assumes "stable_seed L p = Inr n"
  shows "\<exists>raw. json_dumps L p = Inr raw \<and> int16 (take 8 (hexdigest (sha256 L raw))) = Inr n
       \<and> n < 2 ^ 32 \<and> format_08x n = take 8 (hexdigest (sha256 L raw))"
proof (cases "json_dumps L p")
  case (Inl e)
  with assms show ?thesis by (simp add: stable_seed_def)
next
  case (Inr raw)
  with assms have "int16 (take 8 (hexdigest (sha256 L raw))) = Inr n"
    by (simp add: stable_seed_def Let_def)
  with int16_take8 [of "sha256 L raw"] Inr show ?thesis by auto
qed

lemma stable_seed_inc_ok:
  assumes "json_dumps L (PDict [(''input_payload'', p), (''selected_option_id'', PStr sid)])
             = Inr raw"
  shows "\<exists>n. stable_seed_inc L p sid = Inr n \<and> n < 2 ^ 32
       \<and> format_08x n = take 8 (hexdigest (sha256 L raw))"
  using int16_take8 [of "sha256 L raw"] assms by (simp add: stable_seed_inc_def Let_def)

lemma stable_seed_inc_Inl:
  "json_dumps L (PDict [(''input_payload'', p), (''selected_option_id'', PStr sid)]) = Inl e
     \<Longrightarrow> stable_seed_inc L p sid = Inl e"
  by (simp add: stable_seed_inc_def)

lemma stable_seed_inc_Inr:
  assumes "stable_seed_inc L p sid = Inr n"
  shows "\<exists>raw. json_dumps L (PDict [(''input_payload'', p), (''selected_option_id'', PStr sid)])
             = Inr raw
       \<and> int16 (take 8 (hexdigest (sha256 L raw))) = Inr n
       \<and> n < 2 ^ 32 \<and> format_08x n = take 8 (hexdigest (sha256 L raw))"
proof (cases "json_dumps L (PDict [(''input_payload'', p), (''selected_option_id'', PStr sid)])")
  case (Inl e)
  with assms show ?thesis by (simp add: stable_seed_inc_def)
next
  case (Inr raw)
  with assms have "int16 (take 8 (hexdigest (sha256 L raw))) = Inr n"
    by (simp add: stable_seed_inc_def Let_def)
  with int16_take8 [of "sha256 L raw"] Inr show ?thesis by auto
qed

subsection \<open>Arithmetic helpers\<close>

lemma clamp_bounds: "lo \<le> hi \<Longrightarrow> lo \<le> clamp v lo hi \<and> clamp v lo hi \<le> hi"
  by (simp add: clamp_def)

lemma round_half_even_between:
  assumes "of_int a \<le> y" and "y \<le> of_int b"
  shows "a \<le> round_half_even y \<and> round_half_even y \<le> b"
proof -
  have fa: "a \<le> \<lfloor>y\<rfloor>" using assms(1) by (simp add: le_floor_iff)
  have fb: "\<lfloor>y\<rfloor> \<le> b" using assms(2) by (simp add: floor_le_iff)
  have up: "\<lfloor>y\<rfloor> + 1 \<le> b" if "y \<noteq> of_int \<lfloor>y\<rfloor>"
  proof -
    have "of_int \<lfloor>y\<rfloor> < y" using that of_int_floor_le [of y] by linarith
    then have "of_int \<lfloor>y\<rfloor> < (of_int b :: rat)" using assms(2) by linarith
    then show ?thesis by simp
  qed
  show ?thesis
    using fa fb up by (auto simp: round_half_even_def Let_def)
qed

lemma round2_between:
  assumes "of_int a / 100 \<le> x" and "x \<le> of_int b / 100"
  shows "of_int a / 100 \<le> round2 x \<and> round2 x \<le> of_int b / 100"
proof -
  have "of_int a \<le> x * 100" "x * 100 \<le> of_int b" using assms by (simp_all add: field_simps)
  from round_half_even_between [OF this] show ?thesis
    by (simp add: round2_def divide_le_cancel)
qed

lemma round2_unit: "0 \<le> x \<Longrightarrow> x \<le> 1 \<Longrightarrow> 0 \<le> round2 x \<and> round2 x \<le> 1"
  using round2_between [of 0 x 100] by simp

lemma to_float_small: "\<bar>i\<bar> \<le> 2 ^ 64 \<Longrightarrow> to_float i = Inr (of_int i)"
  by (simp add: to_float_def float_limit_def)

lemma to_float_ok: "\<bar>i\<bar> < float_limit \<Longrightarrow> to_float i = Inr (of_int i)"
  by (simp add: to_float_def)

lemma map_priority_ok:
  "s \<in> {''low'', ''medium'', ''high''} \<Longrightarrow> \<exists>w. map_priority s = Inr w \<and> w \<in> {1, 2, 3}"
  by (auto simp: map_priority_def)

subsection \<open>What a successful validation establishes\<close>

lemma has_required_top_iff:
  "has_required_top kvs \<longleftrightarrow>
     (\<exists>d s u. map_of kvs ''device'' = Some d \<and> map_of kvs ''signals'' = Some s
        \<and> map_of kvs ''user_preferences'' = Some u)"
  by (auto simp: has_required_top_def required_top_def)

lemma validate_inc_iff:
  "validate_input_payload_inc p = Inr () \<longleftrightarrow>
     (\<exists>dv sg pr. subscript p ''device'' = Inr dv \<and> subscript p ''signals'' = Inr sg
        \<and> subscript p ''user_preferences'' = Inr pr
        \<and> check_charge_cycles sg = Inr () \<and> check_frame_drop_rate sg = Inr ()
        \<and> check_repair_history_count sg = Inr () \<and> check_priorities pr = Inr ()
        \<and> check_prefers_financing pr = Inr ())"
proof (cases p)
  case (PDict kvs)
  show ?thesis
  proof (cases "has_required_top kvs")
    case True
    then obtain d s u where "map_of kvs ''device'' = Some d" "map_of kvs ''signals'' = Some s"
      "map_of kvs ''user_preferences'' = Some u" by (auto simp: has_required_top_iff)
    with PDict True show ?thesis
      by (simp add: validate_input_payload_inc_def subscript_def thenE_eq_Inr)
  next
    case False
    with PDict show ?thesis
      by (auto simp: validate_input_payload_inc_def subscript_def has_required_top_iff
            split: option.splits)
  qed
qed (simp_all add: validate_input_payload_inc_def subscript_def)

lemma draw_amounts_total: "\<exists>t. draw_amounts L rng bias heavy sp = Inr t"
  by (simp add: draw_amounts_def randint_def split_beta Let_def)

subsection \<open>The incentive pipeline on a validated payload\<close>

lemma build_notes_nonempty: "1 \<le> length (build_notes a b c d)"
  by (simp add: build_notes_def Let_def)

lemma build_packages_ids:
  "set (map package_id (build_packages ca cp hc hcp h f s)) = {''cash'', ''carbon_points'', ''hybrid''}"
  by (auto simp: build_packages_def Let_def)

lemma incentive_keys_ok: "set incentive_response_keys = incentive_expected_keys"
  by (auto simp: incentive_response_keys_def incentive_expected_keys_def)

lemma check_incentive_response_ok:
  assumes "set (map package_id (packages r)) = {''cash'', ''carbon_points'', ''hybrid''}"
    and "0 \<le> accept_score r" "accept_score r \<le> 1"
    and "0 \<le> impact_score r" "impact_score r \<le> 1"
    and "1 \<le> length (inc_notes r)"
  shows "check_incentive_response r = Inr r"
  using assms by (simp add: check_incentive_response_def incentive_keys_ok)

lemma incentive_logic_fields:
  assumes v: "validate_input_payload_inc p = Inr ()"
  obtains sg pr sp bp pf sw bw and cc rc :: int and fd :: rat where
    "subscript p ''signals'' = Inr sg" "subscript p ''user_preferences'' = Inr pr"
    "str_item pr ''sustainability_priority'' = Inr sp"
    "str_item pr ''budget_priority'' = Inr bp"
    "bool_item pr ''prefers_financing'' = Inr pf"
    "map_priority sp = Inr sw" "map_priority bp = Inr bw"
    "int_item sg ''charge_cycles'' = Inr cc" "float_item sg ''frame_drop_rate'' = Inr fd"
    "int_item sg ''repair_history_count'' = Inr rc"
proof -
  from v obtain dv sg pr where
      sg: "subscript p ''signals'' = Inr sg" and pr: "subscript p ''user_preferences'' = Inr pr"
    and c1: "check_charge_cycles sg = Inr ()" and c2: "check_frame_drop_rate sg = Inr ()"
    and c3: "check_repair_history_count sg = Inr ()" and c4: "check_priorities pr = Inr ()"
    and c5: "check_prefers_financing pr = Inr ()"
    unfolding validate_inc_iff by blast
  from c1 obtain cc where cc: "int_item sg ''charge_cycles'' = Inr cc"
    by (auto simp: check_charge_cycles_ok)
  from c2 obtain fd where fd: "float_item sg ''frame_drop_rate'' = Inr fd"
    by (auto simp: check_frame_drop_rate_ok)
  from c3 obtain rc where rc: "int_item sg ''repair_history_count'' = Inr rc"
    by (auto simp: check_repair_history_count_ok)
  from c5 obtain pf where pf: "bool_item pr ''prefers_financing'' = Inr pf"
    by (auto simp: check_prefers_financing_ok)
  from c4 obtain sp bp where sp: "str_item pr ''sustainability_priority'' = Inr sp"
      and sp_in: "sp \<in> {''low'', ''medium'', ''high''}"
      and bp: "str_item pr ''budget_priority'' = Inr bp"
      and bp_in: "bp \<in> {''low'', ''medium'', ''high''}"
    unfolding check_priorities_ok priority_ok_def by blast
  from map_priority_ok [OF sp_in] obtain sw where sw: "map_priority sp = Inr sw" by blast
  from map_priority_ok [OF bp_in] obtain bw where bw: "map_priority bp = Inr bw" by blast
  from sg pr sp bp pf sw bw cc fd rc show thesis by (rule that)
qed

lemma incentive_logic_seed_fails:
  assumes v: "validate_input_payload_inc p = Inr ()" and sid: "sid \<noteq> []"
    and seed: "stable_seed_inc L p sid = Inl e"
  shows "incentive_logic L W p (PStr sid) = Inl e"
proof -
  from v obtain sg pr sp bp pf sw bw and cc rc :: int and fd :: rat where
      f: "subscript p ''signals'' = Inr sg" "subscript p ''user_preferences'' = Inr pr"
         "str_item pr ''sustainability_priority'' = Inr sp"
         "str_item pr ''budget_priority'' = Inr bp"
         "bool_item pr ''prefers_financing'' = Inr pf"
         "map_priority sp = Inr sw" "map_priority bp = Inr bw"
         "int_item sg ''charge_cycles'' = Inr cc" "float_item sg ''frame_drop_rate'' = Inr fd"
         "int_item sg ''repair_history_count'' = Inr rc"
    by (rule incentive_logic_fields)
  show ?thesis
    unfolding incentive_logic_def
    by (simp only: v sid thenE_Inr pyval.case if_False f bindE_Inr bindE_Inl Let_def seed)
qed

lemma incentive_logic_run:
  assumes v: "validate_input_payload_inc p = Inr ()" and sid: "sid \<noteq> []"
    and seed: "stable_seed_inc L p sid = Inr seed"
  shows "\<exists>sg pr sp bp pf sw bw cc fd rc ca cp hc hcp.
     subscript p ''signals'' = Inr sg \<and> subscript p ''user_preferences'' = Inr pr
     \<and> str_item pr ''sustainability_priority'' = Inr sp
     \<and> str_item pr ''budget_priority'' = Inr bp
     \<and> bool_item pr ''prefers_financing'' = Inr pf
     \<and> map_priority sp = Inr sw \<and> map_priority bp = Inr bw
     \<and> int_item sg ''charge_cycles'' = Inr cc \<and> float_item sg ''frame_drop_rate'' = Inr fd
     \<and> int_item sg ''repair_history_count'' = Inr rc
     \<and> draw_amounts L (Random L (int seed + 42)) (sw - bw)
           (850 \<le> cc \<or> 15 / 100 \<le> fd \<or> 2 \<le> rc) sp = Inr (ca, cp, hc, hcp)
     \<and> incentive_logic L W p (PStr sid) =
         Inr \<lparr>inc_request_id = ''req_'' @ format_08x seed @ ''_INC'',
              inc_model_version = MODEL_VERSION,
              selected_option_id = sid,
              packages = build_packages ca cp hc hcp (850 \<le> cc \<or> 15 / 100 \<le> fd \<or> 2 \<le> rc) pf sp,
              accept_score = round2 (clamp (45 / 100 + 22 / 100 * (bw / 3)
                  + 18 / 100 * clamp (of_int ca / 17000) 0 1
                  + (if pf then 7 / 100 else 0)
                  + (if 850 \<le> cc \<or> 15 / 100 \<le> fd \<or> 2 \<le> rc then 4 / 100 else 0)) 0 1),
              impact_score = round2 (clamp (40 / 100 + 30 / 100 * (sw / 3)
                  + 22 / 100 * clamp (of_int cp / 22000) 0 1
                  + (if sp = ''high'' then 5 / 100 else 0)) 0 1),
              inc_notes = build_notes (pf = False \<and> sp = ''high'')
                  (850 \<le> cc \<or> 15 / 100 \<le> fd \<or> 2 \<le> rc) sp bp\<rparr>"
proof -
  from v obtain sg pr sp bp pf sw bw and cc rc :: int and fd :: rat where
      sg: "subscript p ''signals'' = Inr sg" and pr: "subscript p ''user_preferences'' = Inr pr"
    and sp: "str_item pr ''sustainability_priority'' = Inr sp"
    and bp: "str_item pr ''budget_priority'' = Inr bp"
    and pf: "bool_item pr ''prefers_financing'' = Inr pf"
    and sw: "map_priority sp = Inr sw" and bw: "map_priority bp = Inr bw"
    and cc: "int_item sg ''charge_cycles'' = Inr cc"
    and fd: "float_item sg ''frame_drop_rate'' = Inr fd"
    and rc: "int_item sg ''repair_history_count'' = Inr rc"
    by (rule incentive_logic_fields)
  let ?heavy = "850 \<le> cc \<or> 15 / 100 \<le> fd \<or> 2 \<le> rc"
  from draw_amounts_total [of L "Random L (int seed + 42)" "sw - bw" ?heavy sp]
  obtain ca cp hc hcp where
    dr: "draw_amounts L (Random L (int seed + 42)) (sw - bw) ?heavy sp = Inr (ca, cp, hc, hcp)"
    by (metis prod_cases4)
  from draw_amounts_bounds [OF dr] have "\<bar>ca\<bar> \<le> 2 ^ 64" "\<bar>cp\<bar> \<le> 2 ^ 64" by simp_all
  then have fl: "to_float ca = Inr (of_int ca)" "to_float cp = Inr (of_int cp)"
    by (simp_all add: to_float_small)
  let ?r = "\<lparr>inc_request_id = ''req_'' @ format_08x seed @ ''_INC'',
              inc_model_version = MODEL_VERSION,
              selected_option_id = sid,
              packages = build_packages ca cp hc hcp ?heavy pf sp,
              accept_score = round2 (clamp (45 / 100 + 22 / 100 * (bw / 3)
                  + 18 / 100 * clamp (of_int ca / 17000) 0 1
                  + (if pf then 7 / 100 else 0)
                  + (if ?heavy then 4 / 100 else 0)) 0 1),
              impact_score = round2 (clamp (40 / 100 + 30 / 100 * (sw / 3)
                  + 22 / 100 * clamp (of_int cp / 22000) 0 1
                  + (if sp = ''high'' then 5 / 100 else 0)) 0 1),
              inc_notes = build_notes (pf = False \<and> sp = ''high'') ?heavy sp bp\<rparr>"
  have chk: "check_incentive_response ?r = Inr ?r"
    using build_packages_ids [of ca cp hc hcp ?heavy pf sp]
      build_notes_nonempty [of "pf = False \<and> sp = ''high''" ?heavy sp bp]
    by (intro check_incentive_response_ok) (simp_all add: round2_unit clamp_bounds)
  have "incentive_logic L W p (PStr sid) = Inr ?r"
    unfolding incentive_logic_def
    by (simp only: v sid thenE_Inr pyval.case if_False sg pr sp bp pf sw bw cc fd rc bindE_Inr
          Let_def seed dr prod.case fl chk)
  with sg pr sp bp pf sw bw cc fd rc dr show ?thesis by blast
qed

subsection \<open>The example inputs\<close>

lemma scenario_a_valid_inc: "validate_input_payload_inc scenario_a_input = Inr ()"
  by code_simp

lemma scenario_a_valid: "validate_input_payload scenario_a_input = Inr ()"
  by code_simp

lemma int_str_limit_ge: "2 ^ 4000 \<le> int_str_limit"
proof -
  have "(2::int) ^ 4000 \<le> 10 ^ 4000" by (rule power_mono) simp_all
  also have "\<dots> \<le> 10 ^ 4300" by (rule power_increasing) simp_all
  finally show ?thesis by (simp only: int_str_limit_def)
qed

lemma int_str_limit_pos: "0 < int_str_limit"
  unfolding int_str_limit_def by (rule zero_less_power) simp

lemma short_int: "i \<le> 2 ^ 1024 \<Longrightarrow> \<not> int_str_limit \<le> i"
proof -
  assume "i \<le> 2 ^ 1024"
  also have "(2::int) ^ 1024 < 2 ^ 4000" by (rule power_strict_increasing) simp_all
  finally show ?thesis using int_str_limit_ge by linarith
qed

lemma scenario_a_encodes:
  "json_dumps lib0 scenario_a_input = Inr ''devicesignalsuser_preferences''"
  by (simp add: lib0_def scenario_a_input_def short_int)

lemma scenario_a_inc_encodes:
  "json_dumps lib0 (PDict [(''input_payload'', scenario_a_input), (''selected_option_id'', PStr sid)])
     = Inr (''input_payloadselected_option_id'' @ sid)"
  by (simp add: lib0_def scenario_a_input_def short_int)

lemma huge_age_encodes:
  "json_dumps lib0 huge_age_input = Inr ''devicesignalsuser_preferences''"
  by (simp add: lib0_def huge_age_input_def short_int)

lemma long_cycles_valid_inc: "validate_input_payload_inc long_cycles_input = Inr ()"
  using int_str_limit_pos
  by (simp add: long_cycles_input_def validate_input_payload_inc_def has_required_top_def
        required_top_def subscript_def check_charge_cycles_def check_frame_drop_rate_def
        check_repair_history_count_def check_priorities_def check_prefers_financing_def
        dict_get_def raise_if_def int_ge0_def as_int_def as_number_def in_priority_set_def
        is_bool_def)

lemma long_cycles_valid: "validate_input_payload long_cycles_input = Inr ()"
  using int_str_limit_pos
  by (simp add: long_cycles_input_def validate_input_payload_def has_required_top_def
        required_top_def subscript_def check_device_strings_def check_age_months_def
        check_battery_def check_charge_cycles_def check_frame_drop_rate_def
        check_repair_history_count_def check_priorities_def check_prefers_financing_def
        dict_get_def raise_if_def int_ge0_def as_int_def as_number_def in_priority_set_def
        is_bool_def nonempty_str_def)

lemma long_cycles_inc_encodes:
  "json_dumps lib0 (PDict [(''input_payload'', long_cycles_input), (''selected_option_id'', PStr sid)])
     = Inl (ValueError ''Exceeds the limit (4300 digits) for integer string conversion'')"
  using int_str_limit_pos by (simp add: lib0_def long_cycles_input_def)

lemma long_cycles_encodes:
  "json_dumps lib0 long_cycles_input
     = Inl (ValueError ''Exceeds the limit (4300 digits) for integer string conversion'')"
  using int_str_limit_pos by (simp add: lib0_def long_cycles_input_def)

subsection \<open>The selected option\<close>

lemma incentive_bad_selected:
  assumes "validate_input_payload_inc p = Inr ()" and "\<not> (\<exists>sid. sel = PStr sid \<and> sid \<noteq> [])"
  shows "incentive_logic L W p sel = Inl (ValueError ''selected_option_id must be a non-empty string'')"
  using assms by (cases sel) (simp_all add: incentive_logic_def)

lemma check_age_months_ok:
  "check_age_months dv = Inr () \<longleftrightarrow> (\<exists>i. int_item dv ''age_months'' = Inr i \<and> 0 \<le> i)"
  by (auto simp: check_age_months_def int_item_def dict_get_def subscript_def raise_if_def
        int_ge0_def as_int_def split: pyval.splits option.splits if_splits)

lemma check_battery_ok:
  "check_battery sg = Inr () \<longleftrightarrow>
     (\<exists>b. int_item sg ''battery_health_percent'' = Inr b \<and> 0 \<le> b \<and> b \<le> 100)"
  by (auto simp: check_battery_def int_item_def dict_get_def subscript_def raise_if_def
        as_int_def split: pyval.splits option.splits if_splits)

lemma check_string_step:
  "bindE (dict_get dv k) (\<lambda>v. raise_if (\<not> nonempty_str v) msg) = Inr ()
     \<longleftrightarrow> nonempty_str_item dv k"
  by (auto simp: nonempty_str_item_def str_item_def dict_get_def subscript_def raise_if_def
        nonempty_str_def split: pyval.splits option.splits if_splits)

lemma check_device_strings_ok:
  "check_device_strings dv = Inr () \<longleftrightarrow>
     nonempty_str_item dv ''brand'' \<and> nonempty_str_item dv ''model''"
  by (simp add: check_device_strings_def thenE_eq_Inr check_string_step)

lemma validate_iff:
  "validate_input_payload p = Inr () \<longleftrightarrow>
     (\<exists>dv sg pr. subscript p ''device'' = Inr dv \<and> subscript p ''signals'' = Inr sg
        \<and> subscript p ''user_preferences'' = Inr pr
        \<and> check_device_strings dv = Inr () \<and> check_age_months dv = Inr ()
        \<and> check_battery sg = Inr ()
        \<and> check_charge_cycles sg = Inr () \<and> check_frame_drop_rate sg = Inr ()
        \<and> check_repair_history_count sg = Inr () \<and> check_priorities pr = Inr ()
        \<and> check_prefers_financing pr = Inr ())"
proof (cases p)
  case (PDict kvs)
  show ?thesis
  proof (cases "has_required_top kvs")
    case True
    then obtain d s u where "map_of kvs ''device'' = Some d" "map_of kvs ''signals'' = Some s"
      "map_of kvs ''user_preferences'' = Some u" by (auto simp: has_required_top_iff)
    with PDict True show ?thesis
      by (simp add: validate_input_payload_def subscript_def thenE_eq_Inr)
  next
    case False
    with PDict show ?thesis
      by (auto simp: validate_input_payload_def subscript_def has_required_top_iff
            split: option.splits)
  qed
qed (simp_all add: validate_input_payload_def subscript_def)

lemma validate_implies_validate_inc:
  "validate_input_payload p = Inr () \<Longrightarrow> validate_input_payload_inc p = Inr ()"
  unfolding validate_iff validate_inc_iff by blast

subsection \<open>The RUL estimate on a validated payload\<close>

lemma compute_rul_run:
  assumes dv: "subscript p ''device'' = Inr dv" and sg: "subscript p ''signals'' = Inr sg"
    and age: "int_item dv ''age_months'' = Inr age"
    and b: "int_item sg ''battery_health_percent'' = Inr b"
    and cyc: "int_item sg ''charge_cycles'' = Inr cyc"
    and fd: "float_item sg ''frame_drop_rate'' = Inr fd"
    and rep: "int_item sg ''repair_history_count'' = Inr rep"
    and b_range: "0 \<le> b" "b \<le> 100"
    and fits: "\<bar>age\<bar> < float_limit" "\<bar>cyc\<bar> < float_limit" "\<bar>rep\<bar> < float_limit"
  shows "compute_rul_and_confidence p =
     Inr (\<lparr>rul_months_min = spec_rul_min (spec_rul_point age b cyc fd rep)
                (spec_margin (spec_confidence_score (spec_risk age b cyc fd rep))),
           rul_months_max = spec_rul_max (spec_rul_point age b cyc fd rep)
                (spec_margin (spec_confidence_score (spec_risk age b cyc fd rep))),
           confidence = spec_confidence (spec_confidence_score (spec_risk age b cyc fd rep)),
           confidence_score = round2 (spec_confidence_score (spec_risk age b cyc fd rep)),
           key_drivers = map fst (take 3 (sorted_reverse snd
                (spec_contributions age b cyc fd rep)))\<rparr>,
          spec_confidence_score (spec_risk age b cyc fd rep),
          spec_rul_point age b cyc fd rep)"
proof -
  have "\<bar>100 - b\<bar> \<le> 2 ^ 64" using b_range by simp
  then have f1: "to_float (100 - b) = Inr (of_int (100 - b))" by (rule to_float_small)
  note f2 = fits [THEN to_float_ok]
  have pt: "clamp (24 - clamp (of_int age / 6) 0 12 - of_int (100 - b) / 10 - of_int cyc / 400
              - fd * 10 - of_int rep * (3 / 2)) 1 30 = spec_rul_point age b cyc fd rep"
    by (simp add: spec_rul_point_def)
  have rk: "of_int age / 48 + of_int (100 - b) / 60 + of_int cyc / 1200 + fd / (4 / 10)
              + of_int rep / 4 = spec_risk age b cyc fd rep"
    by (simp add: spec_risk_def)
  have ct: "contributions (of_int (100 - b)) (of_int cyc) fd (of_int rep) (of_int age)
              = spec_contributions age b cyc fd rep"
    by (simp add: contributions_def spec_contributions_def)
  show ?thesis
    unfolding compute_rul_and_confidence_def
    by (simp only: dv sg age b cyc fd rep f1 f2 bindE_Inr Let_def pt rk ct
          spec_confidence_score_def [symmetric] spec_confidence_def [symmetric]
          spec_margin_def [symmetric] spec_rul_min_def [symmetric] spec_rul_max_def [symmetric])
qed

lemma compute_rul_overflow:
  assumes dv: "subscript p ''device'' = Inr dv" and sg: "subscript p ''signals'' = Inr sg"
    and age: "int_item dv ''age_months'' = Inr age"
    and b: "int_item sg ''battery_health_percent'' = Inr b"
    and cyc: "int_item sg ''charge_cycles'' = Inr cyc"
    and fd: "float_item sg ''frame_drop_rate'' = Inr fd"
    and rep: "int_item sg ''repair_history_count'' = Inr rep"
    and nofit: "\<not> (\<bar>age\<bar> < float_limit \<and> \<bar>cyc\<bar> < float_limit \<and> \<bar>rep\<bar> < float_limit)"
  shows "compute_rul_and_confidence p = Inl OverflowError"
  using nofit unfolding compute_rul_and_confidence_def
  by (simp only: dv sg age b cyc fd rep bindE_Inr)
     (auto simp: to_float_def bindE_def split: sum.splits)

subsection \<open>The option scores\<close>

lemma bindE_post_eq:
  assumes "\<And>v. m = Inr v \<Longrightarrow> \<forall>r. f v = Inr r \<longrightarrow> Q r"
  shows "\<forall>r. bindE m f = Inr r \<longrightarrow> Q r"
  using assms by (cases m) auto

lemma truediv_Inr: "truediv a b = Inr w \<longleftrightarrow> b \<noteq> 0 \<and> w = a / b"
  by (auto simp: truediv_def)

lemma map_priority_Inr: "map_priority s = Inr w \<Longrightarrow> w \<in> {1, 2, 3}"
  by (auto simp: map_priority_def split: if_splits)

lemma priority_item_Inr:
  "bindE (str_item pr k) map_priority = Inr w \<Longrightarrow> w \<in> {1, 2, 3}"
  by (auto simp: bindE_eq_Inr dest: map_priority_Inr)

lemma overall_unit:
  assumes "0 \<le> c" "c \<le> 1" "0 \<le> s" "s \<le> 1" "0 \<le> q" "q \<le> 1"
    and "0 \<le> wc" "0 \<le> ws" "0 \<le> wp" "wc + ws + wp = 1"
  shows "0 \<le> overall wc ws wp c s q \<and> overall wc ws wp c s q \<le> 1"
proof -
  have "c * wc \<le> wc" "s * ws \<le> ws" "q * wp \<le> wp"
    using assms by (simp_all add: mult_left_le_one_le)
  then have "c * wc + s * ws + q * wp \<le> 1" using assms(10) by linarith
  moreover have "0 \<le> c * wc + s * ws + q * wp" using assms by simp
  ultimately show ?thesis unfolding overall_def by (intro round2_unit)
qed

lemma weights_normalised:
  assumes "a \<in> {1, 2, 3}" "b \<in> {1, 2, 3}" "c \<in> {1, 2, (3::rat)}"
  shows "3 \<le> a + b + c" "0 \<le> a / (a + b + c)" "0 \<le> b / (a + b + c)" "0 \<le> c / (a + b + c)"
    "a / (a + b + c) + b / (a + b + c) + c / (a + b + c) = 1"
proof -
  show 3: "3 \<le> a + b + c" using assms by auto
  show "0 \<le> a / (a + b + c)" "0 \<le> b / (a + b + c)" "0 \<le> c / (a + b + c)"
    using assms 3 by auto
  have "a + b + c \<noteq> 0" using 3 by linarith
  then show "a / (a + b + c) + b / (a + b + c) + c / (a + b + c) = 1"
    by (simp add: add_divide_distrib [symmetric])
qed

lemma overall_clamped:
  assumes w: "wc \<in> {1, 2, 3}" "ws \<in> {1, 2, 3}" "wp \<in> {1, 2, 3}"
    and c: "0 \<le> a1" "a1 \<le> b1" "b1 \<le> 1"
    and s: "0 \<le> a2" "a2 \<le> b2" "b2 \<le> 1"
    and q: "0 \<le> a3" "a3 \<le> b3" "b3 \<le> 1"
  shows "0 \<le> overall (wc / (wc + ws + wp)) (ws / (wc + ws + wp)) (wp / (wc + ws + wp))
               (clamp x a1 b1) (clamp y a2 b2) (clamp z a3 b3)
       \<and> overall (wc / (wc + ws + wp)) (ws / (wc + ws + wp)) (wp / (wc + ws + wp))
               (clamp x a1 b1) (clamp y a2 b2) (clamp z a3 b3) \<le> 1"
proof (rule overall_unit)
  show "0 \<le> clamp x a1 b1" "clamp x a1 b1 \<le> 1" using clamp_bounds [of a1 b1 x] c by linarith+
  show "0 \<le> clamp y a2 b2" "clamp y a2 b2 \<le> 1" using clamp_bounds [of a2 b2 y] s by linarith+
  show "0 \<le> clamp z a3 b3" "clamp z a3 b3 \<le> 1" using clamp_bounds [of a3 b3 z] q by linarith+
qed (use weights_normalised [OF w] in simp_all)

lemma overall_clamped_rec:
  assumes w: "wc \<in> {1, 2, 3}" "ws \<in> {1, 2, 3}" "wp \<in> {1, 2, 3}"
    and c: "0 \<le> a1" "a1 \<le> b1" "b1 \<le> 1"
    and s: "0 \<le> a2" "a2 \<le> b2" "b2 \<le> 1"
    and q: "0 \<le> a3" "a3 \<le> b3" "b3 \<le> 1"
  shows "0 \<le> overall_score \<lparr>cost_score = k1, sustainability_score = k2, performance_score = k3,
            overall_score = overall (wc / (wc + ws + wp)) (ws / (wc + ws + wp))
               (wp / (wc + ws + wp)) (clamp x a1 b1) (clamp y a2 b2) (clamp z a3 b3)\<rparr>"
    and "overall_score \<lparr>cost_score = k1, sustainability_score = k2, performance_score = k3,
            overall_score = overall (wc / (wc + ws + wp)) (ws / (wc + ws + wp))
               (wp / (wc + ws + wp)) (clamp x a1 b1) (clamp y a2 b2) (clamp z a3 b3)\<rparr> \<le> 1"
  using overall_clamped [OF assms, of x y z] by simp_all

lemma compute_option_scores_post:
  "\<forall>d. compute_option_scores p = Inr d \<longrightarrow>
     (\<exists>s1 s2 s3. d = [(''repair_battery'', s1), (''refurb_buy'', s2), (''tradein_new'', s3)]
        \<and> (0 \<le> overall_score s1 \<and> overall_score s1 \<le> 1)
        \<and> (0 \<le> overall_score s2 \<and> overall_score s2 \<le> 1)
        \<and> (0 \<le> overall_score s3 \<and> overall_score s3 \<le> 1))"
  unfolding compute_option_scores_def Let_def
  apply (intro bindE_post_eq allI impI)
  apply (drule priority_item_Inr)+
  apply (simp only: truediv_Inr)
  apply (elim conjE)
  apply hypsubst
  apply (simp only: sum.inject)
  apply (intro exI conjI)
        apply (erule sym)
       apply (rule overall_clamped_rec; simp)+
  done

lemma priority_ok_weight:
  assumes "priority_ok pr k"
  shows "\<exists>w. bindE (str_item pr k) map_priority = Inr w \<and> w \<in> {1, 2, 3}"
  using assms map_priority_ok unfolding priority_ok_def by fastforce

lemma compute_option_scores_total:
  assumes dv: "subscript p ''device'' = Inr dv" and sg: "subscript p ''signals'' = Inr sg"
    and pr: "subscript p ''user_preferences'' = Inr pr"
    and age: "int_item dv ''age_months'' = Inr age"
    and b: "int_item sg ''battery_health_percent'' = Inr b"
    and cyc: "int_item sg ''charge_cycles'' = Inr cyc"
    and fd: "float_item sg ''frame_drop_rate'' = Inr fd"
    and rep: "int_item sg ''repair_history_count'' = Inr rep"
    and pf: "bool_item pr ''prefers_financing'' = Inr pf"
    and prio: "priority_ok pr ''budget_priority''" "priority_ok pr ''sustainability_priority''"
      "priority_ok pr ''performance_priority''"
    and ranges: "0 \<le> age" "0 \<le> b" "b \<le> 100" "0 \<le> rep"
    and fits: "\<bar>age\<bar> < float_limit" "\<bar>cyc\<bar> < float_limit" "\<bar>rep\<bar> < float_limit"
  shows "\<exists>d. compute_option_scores p = Inr d"
proof -
  have "\<bar>100 - b\<bar> \<le> 2 ^ 64" using ranges by simp
  then have f1: "to_float (100 - b) = Inr (of_int (100 - b))" by (rule to_float_small)
  have "\<bar>max (age - 24) 0\<bar> < float_limit" "\<bar>max (rep - 1) 0\<bar> < float_limit"
    using fits ranges by simp_all
  then have f2: "to_float (max (age - 24) 0) = Inr (of_int (max (age - 24) 0))"
      "to_float (max (rep - 1) 0) = Inr (of_int (max (rep - 1) 0))"
    by (simp_all add: to_float_ok)
  note f3 = fits(2,3) [THEN to_float_ok]
  from prio [THEN priority_ok_weight] obtain wc ws wp where
      w: "bindE (str_item pr ''budget_priority'') map_priority = Inr wc"
         "bindE (str_item pr ''sustainability_priority'') map_priority = Inr ws"
         "bindE (str_item pr ''performance_priority'') map_priority = Inr wp"
      and win: "wc \<in> {1, 2, 3}" "ws \<in> {1, 2, 3}" "wp \<in> {1, 2, 3}"
    by blast
  from weights_normalised(1) [OF win] have "wc + ws + wp \<noteq> 0" by linarith
  then have t: "truediv wc (wc + ws + wp) = Inr (wc / (wc + ws + wp))"
      "truediv ws (wc + ws + wp) = Inr (ws / (wc + ws + wp))"
      "truediv wp (wc + ws + wp) = Inr (wp / (wc + ws + wp))"
    by (simp_all add: truediv_def)
  show ?thesis
    unfolding compute_option_scores_def
    by (simp only: dv sg pr age b cyc fd rep pf f1 f2 f3 w t bindE_Inr Let_def)
       (rule exI, rule refl)
qed

subsection \<open>Winner, impacts, cards and rationale\<close>

lemma recommended_option_three:
  "\<exists>w sw. recommended_option [(''repair_battery'', s1), (''refurb_buy'', s2), (''tradein_new'', s3)]
            = Inr w
     \<and> (w, sw) \<in> {(''repair_battery'', s1), (''refurb_buy'', s2), (''tradein_new'', s3)}
     \<and> (\<forall>(k, s) \<in> {(''repair_battery'', s1), (''refurb_buy'', s2), (''tradein_new'', s3)}.
           overall_score s \<le> overall_score sw
           \<and> (overall_score s = overall_score sw \<longrightarrow>
                position_in spec_priority_order w \<le> position_in spec_priority_order k))"
  by (simp add: recommended_option_def order_index_def option_order_def tuple_less_def
        position_in_def spec_priority_order_def)

lemma build_estimated_impacts_total:
  "\<exists>i1 i2 i3. build_estimated_impacts L g =
      Inr [(''repair_battery'', i1), (''refurb_buy'', i2), (''tradein_new'', i3)]"
  by (simp add: build_estimated_impacts_def randint_def split_beta Let_def)

lemma str_item_subscript: "str_item d k = Inr s \<Longrightarrow> subscript d k = Inr (PStr s)"
  unfolding str_item_def by (cases "subscript d k"; simp) (cases "projr (subscript d k)"; simp)

lemma bool_item_subscript: "bool_item d k = Inr b \<Longrightarrow> subscript d k = Inr (PBool b)"
  unfolding bool_item_def by (cases "subscript d k"; simp) (cases "projr (subscript d k)"; simp)

lemma int_item_subscript: "int_item d k = Inr i \<Longrightarrow> \<exists>v. subscript d k = Inr v"
  by (auto simp: int_item_def bindE_eq_Inr)

lemma build_recommendations_run:
  assumes pr: "subscript p ''user_preferences'' = Inr pr"
    and sp: "str_item pr ''sustainability_priority'' = Inr sp"
  shows "build_recommendations p
           [(''repair_battery'', s1), (''refurb_buy'', s2), (''tradein_new'', s3)]
           [(''repair_battery'', i1), (''refurb_buy'', i2), (''tradein_new'', i3)] w =
         Inr [\<lparr>option_id = ''repair_battery'', category = ''repair'', scores = s1,
                estimated_impacts = i1,
                ui_badge = (if sp = ''high'' then Lowest_CO2 else Lowest_cost),
                open_incentive_flow = False\<rparr>,
              \<lparr>option_id = ''refurb_buy'', category = ''refurb'', scores = s2,
                estimated_impacts = i2,
                ui_badge = (if w = ''refurb_buy'' then Top_choice else Balanced),
                open_incentive_flow = False\<rparr>,
              \<lparr>option_id = ''tradein_new'', category = ''trade_in'', scores = s3,
                estimated_impacts = i3, ui_badge = Max_performance,
                open_incentive_flow = True\<rparr>]"
  by (simp add: build_recommendations_def pr str_item_subscript [OF sp] item_def Let_def)

lemma build_rationale_total:
  assumes pr: "subscript p ''user_preferences'' = Inr pr"
    and sg: "subscript p ''signals'' = Inr sg"
    and b: "int_item sg ''battery_health_percent'' = Inr b"
    and sp: "str_item pr ''sustainability_priority'' = Inr sp"
    and pf: "bool_item pr ''prefers_financing'' = Inr pf"
  shows "\<exists>t. build_rationale w p est = Inr t"
proof -
  from int_item_subscript [OF b] obtain v where "subscript sg ''battery_health_percent'' = Inr v"
    by blast
  then show ?thesis
    by (simp add: build_rationale_def pr sg str_item_subscript [OF sp]
          bool_item_subscript [OF pf])
qed

lemma assess_keys_ok: "set assess_response_keys = assess_expected_keys"
  by (auto simp: assess_response_keys_def assess_expected_keys_def)

subsection \<open>The assess pipeline\<close>

lemma assess_logic_Inr_iff:
  "assess_logic L W p = Inr r \<longleftrightarrow>
     validate_input_payload p = Inr ()
     \<and> (\<exists>seed est cs pt d imp w cards t dv sg pr.
          stable_seed L p = Inr seed
          \<and> compute_rul_and_confidence p = Inr (est, cs, pt)
          \<and> compute_option_scores p = Inr d
          \<and> build_estimated_impacts L (Random L (int seed + 42)) = Inr imp
          \<and> recommended_option d = Inr w
          \<and> build_recommendations p d imp w = Inr cards
          \<and> build_rationale w p est = Inr t
          \<and> subscript p ''device'' = Inr dv \<and> subscript p ''signals'' = Inr sg
          \<and> subscript p ''user_preferences'' = Inr pr
          \<and> r = \<lparr>request_id = ''req_'' @ format_08x seed,
                   timestamp_utc = utc_now W,
                   model_version = MODEL_VERSION,
                   inputs_echo = \<lparr>echo_device = dv, echo_signals = sg,
                                   echo_user_preferences = pr\<rparr>,
                   rul_estimate = est,
                   decision_summary = \<lparr>recommended_primary_option_id = w, rationale = t\<rparr>,
                   recommendations = cards\<rparr>)"
  unfolding assess_logic_def
  by (simp only: thenE_eq_Inr bindE_eq_Inr Let_def split_paired_Ex prod.case assess_keys_ok
        simp_thms if_False sum.inject ex_simps) (blast)

lemma validated_fields:
  assumes "validate_input_payload p = Inr ()"
  obtains dv sg pr age b cyc fd rep pf where
    "subscript p ''device'' = Inr dv" "subscript p ''signals'' = Inr sg"
    "subscript p ''user_preferences'' = Inr pr"
    "int_item dv ''age_months'' = Inr age" "0 \<le> age"
    "int_item sg ''battery_health_percent'' = Inr b" "0 \<le> b" "b \<le> 100"
    "int_item sg ''charge_cycles'' = Inr cyc" "0 \<le> cyc"
    "float_item sg ''frame_drop_rate'' = Inr fd" "0 \<le> fd" "fd \<le> 1"
    "int_item sg ''repair_history_count'' = Inr rep" "0 \<le> rep"
    "bool_item pr ''prefers_financing'' = Inr pf"
    "priority_ok pr ''budget_priority''" "priority_ok pr ''sustainability_priority''"
    "priority_ok pr ''performance_priority''"
    "nonempty_str_item dv ''brand''" "nonempty_str_item dv ''model''"
proof -
  from assms obtain dv sg pr where
      s: "subscript p ''device'' = Inr dv" "subscript p ''signals'' = Inr sg"
         "subscript p ''user_preferences'' = Inr pr"
    and c: "check_device_strings dv = Inr ()" "check_age_months dv = Inr ()"
       "check_battery sg = Inr ()" "check_charge_cycles sg = Inr ()"
       "check_frame_drop_rate sg = Inr ()" "check_repair_history_count sg = Inr ()"
       "check_priorities pr = Inr ()" "check_prefers_financing pr = Inr ()"
    unfolding validate_iff by blast
  from c(2) obtain age where 1: "int_item dv ''age_months'' = Inr age" "0 \<le> age"
    unfolding check_age_months_ok by blast
  from c(3) obtain b where 2: "int_item sg ''battery_health_percent'' = Inr b" "0 \<le> b" "b \<le> 100"
    unfolding check_battery_ok by blast
  from c(4) obtain cyc where 3: "int_item sg ''charge_cycles'' = Inr cyc" "0 \<le> cyc"
    unfolding check_charge_cycles_ok by blast
  from c(5) obtain fd where 4: "float_item sg ''frame_drop_rate'' = Inr fd" "0 \<le> fd" "fd \<le> 1"
    unfolding check_frame_drop_rate_ok by blast
  from c(6) obtain rep where 5: "int_item sg ''repair_history_count'' = Inr rep" "0 \<le> rep"
    unfolding check_repair_history_count_ok by blast
  from c(8) obtain pf where 6: "bool_item pr ''prefers_financing'' = Inr pf"
    unfolding check_prefers_financing_ok by blast
  from c(7) have 7: "priority_ok pr ''budget_priority''"
      "priority_ok pr ''sustainability_priority''" "priority_ok pr ''performance_priority''"
    unfolding check_priorities_ok by blast+
  from c(1) have 8: "nonempty_str_item dv ''brand''" "nonempty_str_item dv ''model''"
    unfolding check_device_strings_ok by blast+
  from s 1 2 3 4 5 6 7 8 show thesis by (rule that)
qed

lemma ints_fit_float_fields:
  assumes "subscript p ''device'' = Inr dv" "subscript p ''signals'' = Inr sg"
    "int_item dv ''age_months'' = Inr age" "int_item sg ''charge_cycles'' = Inr cyc"
    "int_item sg ''repair_history_count'' = Inr rep"
  shows "ints_fit_float p \<longleftrightarrow>
     \<bar>age\<bar> < float_limit \<and> \<bar>cyc\<bar> < float_limit \<and> \<bar>rep\<bar> < float_limit"
  using assms by (simp add: ints_fit_float_def int_field_def fits_float_def)

lemma priority_ok_str: "priority_ok pr k \<Longrightarrow> \<exists>s. str_item pr k = Inr s"
  by (auto simp: priority_ok_def)

lemma assess_logic_total:
  assumes v: "validate_input_payload p = Inr ()" and fit: "ints_fit_float p"
    and enc: "json_dumps L p = Inr raw"
  shows "\<exists>r. assess_logic L W p = Inr r"
proof -
  from v obtain dv sg pr age b cyc fd rep pf where
      s: "subscript p ''device'' = Inr dv" "subscript p ''signals'' = Inr sg"
         "subscript p ''user_preferences'' = Inr pr"
    and age: "int_item dv ''age_months'' = Inr age" "0 \<le> age"
    and b: "int_item sg ''battery_health_percent'' = Inr b" "0 \<le> b" "b \<le> 100"
    and cyc: "int_item sg ''charge_cycles'' = Inr cyc"
    and fd: "float_item sg ''frame_drop_rate'' = Inr fd"
    and rep: "int_item sg ''repair_history_count'' = Inr rep" "0 \<le> rep"
    and pf: "bool_item pr ''prefers_financing'' = Inr pf"
    and prio: "priority_ok pr ''budget_priority''" "priority_ok pr ''sustainability_priority''"
       "priority_ok pr ''performance_priority''"
    by (rule validated_fields)
  from fit have fits: "\<bar>age\<bar> < float_limit" "\<bar>cyc\<bar> < float_limit" "\<bar>rep\<bar> < float_limit"
    unfolding ints_fit_float_fields [OF s(1,2) age(1) cyc rep(1)] by simp_all
  from stable_seed_ok [OF enc] obtain seed where seed: "stable_seed L p = Inr seed" by blast
  note rul = compute_rul_run [OF s(1,2) age(1) b(1) cyc fd rep(1) b(2,3) fits]
  from compute_option_scores_total [OF s age(1) b(1) cyc fd rep(1) pf prio age(2) b(2,3) rep(2) fits]
  obtain d where d: "compute_option_scores p = Inr d" by blast
  with compute_option_scores_post [of p] obtain s1 s2 s3 where
    d3: "d = [(''repair_battery'', s1), (''refurb_buy'', s2), (''tradein_new'', s3)]" by blast
  from build_estimated_impacts_total [of L "Random L (int seed + 42)"] obtain i1 i2 i3 where
    imp: "build_estimated_impacts L (Random L (int seed + 42)) =
            Inr [(''repair_battery'', i1), (''refurb_buy'', i2), (''tradein_new'', i3)]" by blast
  from recommended_option_three [of s1 s2 s3] d3 obtain w where w: "recommended_option d = Inr w"
    by blast
  from priority_ok_str [OF prio(2)] obtain sp where
    sp: "str_item pr ''sustainability_priority'' = Inr sp" by blast
  note cards = build_recommendations_run [OF s(3) sp, of s1 s2 s3 i1 i2 i3 w]
  from build_rationale_total [OF s(3) s(2) b(1) sp pf] obtain t where
    t: "build_rationale w p
          \<lparr>rul_months_min = spec_rul_min (spec_rul_point age b cyc fd rep)
                (spec_margin (spec_confidence_score (spec_risk age b cyc fd rep))),
           rul_months_max = spec_rul_max (spec_rul_point age b cyc fd rep)
                (spec_margin (spec_confidence_score (spec_risk age b cyc fd rep))),
           confidence = spec_confidence (spec_confidence_score (spec_risk age b cyc fd rep)),
           confidence_score = round2 (spec_confidence_score (spec_risk age b cyc fd rep)),
           key_drivers = map fst (take 3 (sorted_reverse snd
                (spec_contributions age b cyc fd rep)))\<rparr> = Inr t" by blast
  show ?thesis
    unfolding assess_logic_Inr_iff
    using v seed rul d imp w cards t s unfolding d3 by blast
qed

lemma assess_logic_overflow:
  assumes v: "validate_input_payload p = Inr ()" and nofit: "\<not> ints_fit_float p"
    and enc: "json_dumps L p = Inr raw"
  shows "assess_logic L W p = Inl OverflowError"
proof -
  from v obtain dv sg pr age b cyc fd rep where
      s: "subscript p ''device'' = Inr dv" "subscript p ''signals'' = Inr sg"
    and age: "int_item dv ''age_months'' = Inr age"
    and b: "int_item sg ''battery_health_percent'' = Inr b"
    and cyc: "int_item sg ''charge_cycles'' = Inr cyc"
    and fd: "float_item sg ''frame_drop_rate'' = Inr fd"
    and rep: "int_item sg ''repair_history_count'' = Inr rep"
    by (rule validated_fields)
  from nofit have "\<not> (\<bar>age\<bar> < float_limit \<and> \<bar>cyc\<bar> < float_limit \<and> \<bar>rep\<bar> < float_limit)"
    unfolding ints_fit_float_fields [OF s age cyc rep] .
  from compute_rul_overflow [OF s age b cyc fd rep this]
  have rul: "compute_rul_and_confidence p = Inl OverflowError" .
  from stable_seed_ok [OF enc] obtain seed where seed: "stable_seed L p = Inr seed" by blast
  show ?thesis
    unfolding assess_logic_def
    by (simp only: v seed rul thenE_Inr bindE_Inr bindE_Inl Let_def)
qed

lemma assess_logic_seed_fails:
  assumes v: "validate_input_payload p = Inr ()" and enc: "json_dumps L p = Inl e"
  shows "assess_logic L W p = Inl e"
  unfolding assess_logic_def
  by (simp only: v stable_seed_Inl [OF enc] thenE_Inr bindE_Inl)

lemma assess_logic_invalid:
  "validate_input_payload p = Inl e \<Longrightarrow> assess_logic L W p = Inl e"
  by (simp add: assess_logic_def)

lemma incentive_logic_invalid:
  "validate_input_payload_inc p = Inl e \<Longrightarrow> incentive_logic L W p sel = Inl e"
  by (simp add: incentive_logic_def)

lemma scenario_a_fits: "ints_fit_float scenario_a_input"
  by code_simp

lemma huge_age_valid: "validate_input_payload huge_age_input = Inr ()"
  by code_simp

lemma huge_age_no_fit: "\<not> ints_fit_float huge_age_input"
  by code_simp

lemma total_weight_ge_3:
  assumes "validate_input_payload_inc p = Inr ()"
  shows "\<exists>wc ws wp. priority_weight p ''budget_priority'' = Inr wc
           \<and> priority_weight p ''sustainability_priority'' = Inr ws
           \<and> priority_weight p ''performance_priority'' = Inr wp
           \<and> 3 \<le> wc + ws + wp \<and> truediv wc (wc + ws + wp) = Inr (wc / (wc + ws + wp))
           \<and> truediv ws (wc + ws + wp) = Inr (ws / (wc + ws + wp))
           \<and> truediv wp (wc + ws + wp) = Inr (wp / (wc + ws + wp))"
proof -
  from assms obtain pr where pr: "subscript p ''user_preferences'' = Inr pr"
    and "check_priorities pr = Inr ()"
    unfolding validate_inc_iff by blast
  then have prio: "priority_ok pr ''budget_priority''" "priority_ok pr ''sustainability_priority''"
      "priority_ok pr ''performance_priority''"
    unfolding check_priorities_ok by blast+
  from prio [THEN priority_ok_weight] obtain wc ws wp where
      w: "bindE (str_item pr ''budget_priority'') map_priority = Inr wc"
         "bindE (str_item pr ''sustainability_priority'') map_priority = Inr ws"
         "bindE (str_item pr ''performance_priority'') map_priority = Inr wp"
      and win: "wc \<in> {1, 2, 3}" "ws \<in> {1, 2, 3}" "wp \<in> {1, 2, 3}"
    by blast
  note 3 = weights_normalised(1) [OF win]
  then have "wc + ws + wp \<noteq> 0" by linarith
  then have "truediv wc (wc + ws + wp) = Inr (wc / (wc + ws + wp))"
      "truediv ws (wc + ws + wp) = Inr (ws / (wc + ws + wp))"
      "truediv wp (wc + ws + wp) = Inr (wp / (wc + ws + wp))"
    by (simp_all add: truediv_def)
  with w 3 show ?thesis
    by (simp add: priority_weight_def str_field_def pr)
qed

lemma incentive_logic_checked:
  assumes v: "validate_input_payload_inc p = Inr ()" and sid: "sid \<noteq> []"
    and seed: "stable_seed_inc L p sid = Inr seed"
  shows "\<exists>r. incentive_logic L W p (PStr sid) = Inr r \<and> check_incentive_response r = Inr r"
proof -
  from incentive_logic_run [OF assms, of W]
  obtain sp bp pf sw bw and cc rc :: int and fd :: rat and ca cp hc hcp where
    r: "incentive_logic L W p (PStr sid) =
         Inr \<lparr>inc_request_id = ''req_'' @ format_08x seed @ ''_INC'',
              inc_model_version = MODEL_VERSION,
              selected_option_id = sid,
              packages = build_packages ca cp hc hcp (850 \<le> cc \<or> 15 / 100 \<le> fd \<or> 2 \<le> rc) pf sp,
              accept_score = round2 (clamp (45 / 100 + 22 / 100 * (bw / 3)
                  + 18 / 100 * clamp (of_int ca / 17000) 0 1
                  + (if pf then 7 / 100 else 0)
                  + (if 850 \<le> cc \<or> 15 / 100 \<le> fd \<or> 2 \<le> rc then 4 / 100 else 0)) 0 1),
              impact_score = round2 (clamp (40 / 100 + 30 / 100 * (sw / 3)
                  + 22 / 100 * clamp (of_int cp / 22000) 0 1
                  + (if sp = ''high'' then 5 / 100 else 0)) 0 1),
              inc_notes = build_notes (pf = False \<and> sp = ''high'')
                  (850 \<le> cc \<or> 15 / 100 \<le> fd \<or> 2 \<le> rc) sp bp\<rparr>"
      (is "_ = Inr ?r")
    by blast
  have "check_incentive_response ?r = Inr ?r"
    using build_packages_ids [of ca cp hc hcp "850 \<le> cc \<or> 15 / 100 \<le> fd \<or> 2 \<le> rc" pf sp]
      build_notes_nonempty [of "pf = False \<and> sp = ''high''"
         "850 \<le> cc \<or> 15 / 100 \<le> fd \<or> 2 \<le> rc" sp bp]
    by (intro check_incentive_response_ok) (simp_all add: round2_unit clamp_bounds)
  with r show ?thesis by blast
qed

lemma assess_returns:
  assumes ret: "assess_logic L W p = Inr r"
  obtains dv sg pr sp seed s1 s2 s3 i1 i2 i3 w t
    and age b cyc rep :: int and fd :: rat where
    "validate_input_payload p = Inr ()" "ints_fit_float p"
    "subscript p ''device'' = Inr dv" "subscript p ''signals'' = Inr sg"
    "subscript p ''user_preferences'' = Inr pr"
    "int_item dv ''age_months'' = Inr age" "0 \<le> age"
    "int_item sg ''battery_health_percent'' = Inr b" "0 \<le> b" "b \<le> 100"
    "int_item sg ''charge_cycles'' = Inr cyc" "0 \<le> cyc"
    "float_item sg ''frame_drop_rate'' = Inr fd" "0 \<le> fd" "fd \<le> 1"
    "int_item sg ''repair_history_count'' = Inr rep" "0 \<le> rep"
    "str_item pr ''sustainability_priority'' = Inr sp"
    "stable_seed L p = Inr seed"
    "compute_option_scores p =
       Inr [(''repair_battery'', s1), (''refurb_buy'', s2), (''tradein_new'', s3)]"
    "build_estimated_impacts L (Random L (int seed + 42)) =
       Inr [(''repair_battery'', i1), (''refurb_buy'', i2), (''tradein_new'', i3)]"
    "recommended_option [(''repair_battery'', s1), (''refurb_buy'', s2), (''tradein_new'', s3)]
       = Inr w"
    "r = \<lparr>request_id = ''req_'' @ format_08x seed,
           timestamp_utc = utc_now W,
           model_version = MODEL_VERSION,
           inputs_echo = \<lparr>echo_device = dv, echo_signals = sg, echo_user_preferences = pr\<rparr>,
           rul_estimate =
             \<lparr>rul_months_min = spec_rul_min (spec_rul_point age b cyc fd rep)
                  (spec_margin (spec_confidence_score (spec_risk age b cyc fd rep))),
              rul_months_max = spec_rul_max (spec_rul_point age b cyc fd rep)
                  (spec_margin (spec_confidence_score (spec_risk age b cyc fd rep))),
              confidence = spec_confidence (spec_confidence_score (spec_risk age b cyc fd rep)),
              confidence_score = round2 (spec_confidence_score (spec_risk age b cyc fd rep)),
              key_drivers = map fst (take 3 (sorted_reverse snd
                  (spec_contributions age b cyc fd rep)))\<rparr>,
           decision_summary = \<lparr>recommended_primary_option_id = w, rationale = t\<rparr>,
           recommendations =
             [\<lparr>option_id = ''repair_battery'', category = ''repair'', scores = s1,
                estimated_impacts = i1,
                ui_badge = (if sp = ''high'' then Lowest_CO2 else Lowest_cost),
                open_incentive_flow = False\<rparr>,
              \<lparr>option_id = ''refurb_buy'', category = ''refurb'', scores = s2,
                estimated_impacts = i2,
                ui_badge = (if w = ''refurb_buy'' then Top_choice else Balanced),
                open_incentive_flow = False\<rparr>,
              \<lparr>option_id = ''tradein_new'', category = ''trade_in'', scores = s3,
                estimated_impacts = i3, ui_badge = Max_performance,
                open_incentive_flow = True\<rparr>]\<rparr>"
proof -
  from ret obtain seed est cs pt d imp w cards t dv' sg' pr' where
      v: "validate_input_payload p = Inr ()"
    and seed: "stable_seed L p = Inr seed"
    and rul: "compute_rul_and_confidence p = Inr (est, cs, pt)"
    and d: "compute_option_scores p = Inr d"
    and imp: "build_estimated_impacts L (Random L (int seed + 42)) = Inr imp"
    and w: "recommended_option d = Inr w"
    and cards: "build_recommendations p d imp w = Inr cards"
    and s': "subscript p ''device'' = Inr dv'" "subscript p ''signals'' = Inr sg'"
       "subscript p ''user_preferences'' = Inr pr'"
    and r: "r = \<lparr>request_id = ''req_'' @ format_08x seed,
                   timestamp_utc = utc_now W,
                   model_version = MODEL_VERSION,
                   inputs_echo = \<lparr>echo_device = dv', echo_signals = sg',
                                   echo_user_preferences = pr'\<rparr>,
                   rul_estimate = est,
                   decision_summary = \<lparr>recommended_primary_option_id = w, rationale = t\<rparr>,
                   recommendations = cards\<rparr>"
    unfolding assess_logic_Inr_iff by blast
  from v obtain dv sg pr age b cyc fd rep where
      s: "subscript p ''device'' = Inr dv" "subscript p ''signals'' = Inr sg"
         "subscript p ''user_preferences'' = Inr pr"
    and age: "int_item dv ''age_months'' = Inr age" "0 \<le> age"
    and b: "int_item sg ''battery_health_percent'' = Inr b" "0 \<le> b" "b \<le> 100"
    and cyc: "int_item sg ''charge_cycles'' = Inr cyc" "0 \<le> cyc"
    and fd: "float_item sg ''frame_drop_rate'' = Inr fd" "0 \<le> fd" "fd \<le> 1"
    and rep: "int_item sg ''repair_history_count'' = Inr rep" "0 \<le> rep"
    and prio: "priority_ok pr ''sustainability_priority''"
    by (rule validated_fields)
  from s s' have same: "dv' = dv" "sg' = sg" "pr' = pr" by simp_all
  have fit: "ints_fit_float p"
  proof (rule ccontr)
    assume nofit: "\<not> ints_fit_float p"
    from stable_seed_Inr [OF seed] obtain raw where "json_dumps L p = Inr raw" by blast
    from assess_logic_overflow [OF v nofit this, of W] ret show False by simp
  qed
  then have fits: "\<bar>age\<bar> < float_limit" "\<bar>cyc\<bar> < float_limit" "\<bar>rep\<bar> < float_limit"
    unfolding ints_fit_float_fields [OF s(1,2) age(1) cyc(1) rep(1)] by simp_all
  from compute_rul_run [OF s(1,2) age(1) b(1) cyc(1) fd(1) rep(1) b(2,3) fits] rul
  have est: "est = \<lparr>rul_months_min = spec_rul_min (spec_rul_point age b cyc fd rep)
                  (spec_margin (spec_confidence_score (spec_risk age b cyc fd rep))),
              rul_months_max = spec_rul_max (spec_rul_point age b cyc fd rep)
                  (spec_margin (spec_confidence_score (spec_risk age b cyc fd rep))),
              confidence = spec_confidence (spec_confidence_score (spec_risk age b cyc fd rep)),
              confidence_score = round2 (spec_confidence_score (spec_risk age b cyc fd rep)),
              key_drivers = map fst (take 3 (sorted_reverse snd
                  (spec_contributions age b cyc fd rep)))\<rparr>"
    by simp
  from d compute_option_scores_post [of p] obtain s1 s2 s3 where
    d3: "d = [(''repair_battery'', s1), (''refurb_buy'', s2), (''tradein_new'', s3)]" by blast
  from build_estimated_impacts_total [of L "Random L (int seed + 42)"] imp obtain i1 i2 i3 where
    imp3: "imp = [(''repair_battery'', i1), (''refurb_buy'', i2), (''tradein_new'', i3)]"
    by auto
  from priority_ok_str [OF prio] obtain sp where
    sp: "str_item pr ''sustainability_priority'' = Inr sp" by blast
  from build_recommendations_run [OF s(3) sp, of s1 s2 s3 i1 i2 i3 w] cards
  have c3: "cards = [\<lparr>option_id = ''repair_battery'', category = ''repair'', scores = s1,
                estimated_impacts = i1,
                ui_badge = (if sp = ''high'' then Lowest_CO2 else Lowest_cost),
                open_incentive_flow = False\<rparr>,
              \<lparr>option_id = ''refurb_buy'', category = ''refurb'', scores = s2,
                estimated_impacts = i2,
                ui_badge = (if w = ''refurb_buy'' then Top_choice else Balanced),
                open_incentive_flow = False\<rparr>,
              \<lparr>option_id = ''tradein_new'', category = ''trade_in'', scores = s3,
                estimated_impacts = i3, ui_badge = Max_performance,
                open_incentive_flow = True\<rparr>]"
    unfolding d3 imp3 by simp
  show thesis
    by (rule that [OF v fit s age b cyc fd rep sp seed d [unfolded d3] imp [unfolded imp3]
          w [unfolded d3] r [unfolded same est c3]])
qed

subsection \<open>Ranges\<close>

lemma spec_rul_point_range:
  "1 \<le> spec_rul_point age b cyc fd rep \<and> spec_rul_point age b cyc fd rep \<le> 30"
  unfolding spec_rul_point_def by (rule clamp_bounds) simp

lemma spec_confidence_score_range:
  "35 / 100 \<le> spec_confidence_score k \<and> spec_confidence_score k \<le> 9 / 10"
  unfolding spec_confidence_score_def by (rule clamp_bounds) simp

lemma rul_interval:
  assumes "1 \<le> pt" "pt \<le> 30" "35 / 100 \<le> s" "s \<le> 9 / 10"
  shows "1 \<le> spec_rul_min pt (spec_margin s)
       \<and> spec_rul_min pt (spec_margin s) \<le> spec_rul_max pt (spec_margin s)
       \<and> spec_rul_max pt (spec_margin s) \<le> 30"
proof -
  let ?m = "spec_margin s"
  have m: "2 \<le> ?m" "?m \<le> 5" using assms by (simp_all add: spec_margin_def)
  have lo: "\<lfloor>pt - ?m\<rfloor> \<le> 30"
  proof -
    have "pt - ?m < of_int 30 + 1" using assms m by simp
    then show ?thesis by (simp only: floor_le_iff)
  qed
  have hi: "1 \<le> \<lceil>pt + ?m\<rceil>"
  proof -
    have "of_int 1 - 1 < pt + ?m" using assms m by simp
    then show ?thesis by (simp only: le_ceiling_iff)
  qed
  have "of_int \<lfloor>pt - ?m\<rfloor> \<le> pt - ?m" by (rule of_int_floor_le)
  also have "\<dots> \<le> pt + ?m" using m by simp
  also have "\<dots> \<le> of_int \<lceil>pt + ?m\<rceil>" by (rule le_of_int_ceiling)
  finally have mid: "\<lfloor>pt - ?m\<rfloor> \<le> \<lceil>pt + ?m\<rceil>" by simp
  from lo hi mid show ?thesis by (simp add: spec_rul_min_def spec_rul_max_def)
qed

lemma round2_confidence_range:
  assumes "35 / 100 \<le> s" "s \<le> 9 / 10"
  shows "35 / 100 \<le> round2 s \<and> round2 s \<le> 9 / 10"
  using round2_between [of 35 s 90] assms by simp

lemma check_incentive_response_range:
  assumes "check_incentive_response r = Inr r'"
  shows "0 \<le> accept_score r \<and> accept_score r \<le> 1 \<and> 0 \<le> impact_score r \<and> impact_score r \<le> 1"
  using assms by (simp add: check_incentive_response_def split: if_splits)

lemma scenario_a_assess_returns:
  "assess_logic lib0 world0 scenario_a_input =
     Inr (projr (assess_logic lib0 world0 scenario_a_input))"
  using assess_logic_total [OF scenario_a_valid scenario_a_fits scenario_a_encodes, of world0]
  by auto

text \<open>
  C4 (winner selection). In every response assess returns, the recommendation cards are
  those of the three options, and \<open>recommended_primary_option_id\<close> is the id of a card
  whose \<open>overall_score\<close> no other card exceeds; among the cards that tie with it, it is
  the one that comes first in the order refurb\_buy, repair\_battery, tradein\_new.
\<close>

theorem winner_selection:
  assumes "assess_logic L W p = Inr r"
  shows "map option_id (recommendations r) = [''repair_battery'', ''refurb_buy'', ''tradein_new'']
     \<and> (\<exists>c \<in> set (recommendations r).
          option_id c = recommended_primary_option_id (decision_summary r)
          \<and> (\<forall>c' \<in> set (recommendations r).
                overall_score (scores c') \<le> overall_score (scores c)
                \<and> (overall_score (scores c') = overall_score (scores c) \<longrightarrow>
                     position_in spec_priority_order (option_id c)
                       \<le> position_in spec_priority_order (option_id c'))))"
proof -
  from assms obtain s1 s2 s3 w k1 k2 k3 where
      w: "recommended_option
            [(''repair_battery'', s1), (''refurb_buy'', s2), (''tradein_new'', s3)] = Inr w"
    and win: "recommended_primary_option_id (decision_summary r) = w"
    and ids: "map option_id (recommendations r) =
                [''repair_battery'', ''refurb_buy'', ''tradein_new'']"
    and sc: "map scores (recommendations r) = [s1, s2, s3]"
    by (elim assess_returns) simp
  from ids sc obtain c1 c2 c3 where cs: "recommendations r = [c1, c2, c3]"
      and c1: "option_id c1 = ''repair_battery''" "scores c1 = s1"
      and c2: "option_id c2 = ''refurb_buy''" "scores c2 = s2"
      and c3: "option_id c3 = ''tradein_new''" "scores c3 = s3"
    by (auto simp: map_eq_Cons_conv)
  from recommended_option_three [of s1 s2 s3] w obtain sw where
      mem: "(w, sw) \<in> {(''repair_battery'', s1), (''refurb_buy'', s2), (''tradein_new'', s3)}"
    and best: "\<forall>(k, s) \<in> {(''repair_battery'', s1), (''refurb_buy'', s2), (''tradein_new'', s3)}.
           overall_score s \<le> overall_score sw
           \<and> (overall_score s = overall_score sw \<longrightarrow>
                position_in spec_priority_order w \<le> position_in spec_priority_order k)"
    by auto
  from mem consider "w = ''repair_battery''" "sw = s1" | "w = ''refurb_buy''" "sw = s2"
    | "w = ''tradein_new''" "sw = s3" by auto
  then have "\<exists>c \<in> set (recommendations r).
          option_id c = w
          \<and> (\<forall>c' \<in> set (recommendations r).
                overall_score (scores c') \<le> overall_score (scores c)
                \<and> (overall_score (scores c') = overall_score (scores c) \<longrightarrow>
                     position_in spec_priority_order (option_id c)
                       \<le> position_in spec_priority_order (option_id c')))"
  proof cases
    case 1
    with best cs c1 c2 c3 show ?thesis by (intro bexI [of _ c1]) auto
  next
    case 2
    with best cs c1 c2 c3 show ?thesis by (intro bexI [of _ c2]) auto
  next
    case 3
    with best cs c1 c2 c3 show ?thesis by (intro bexI [of _ c3]) auto
  qed
  with ids win show ?thesis by simp
qed

theorem winner_selection_witness:
  "assess_logic lib0 world0 scenario_a_input =
      Inr (projr (assess_logic lib0 world0 scenario_a_input))
   \<and> map option_id (recommendations (projr (assess_logic lib0 world0 scenario_a_input)))
        = [''repair_battery'', ''refurb_buy'', ''tradein_new'']
   \<and> (\<exists>c \<in> set (recommendations (projr (assess_logic lib0 world0 scenario_a_input))).
          option_id c = recommended_primary_option_id
             (decision_summary (projr (assess_logic lib0 world0 scenario_a_input)))
          \<and> (\<forall>c' \<in> set (recommendations (projr (assess_logic lib0 world0 scenario_a_input))).
                overall_score (scores c') \<le> overall_score (scores c)
                \<and> (overall_score (scores c') = overall_score (scores c) \<longrightarrow>
                     position_in spec_priority_order (option_id c)
                       \<le> position_in spec_priority_order (option_id c'))))"
  using winner_selection [OF scenario_a_assess_returns] scenario_a_assess_returns by simp

subsection \<open>Two runs\<close>

lemma assess_logic_other_world:
  assumes "assess_logic L W1 p = Inr r"
  shows "assess_logic L W2 p = Inr (r\<lparr>timestamp_utc := utc_now W2\<rparr>)"
proof -
  from assms obtain seed est cs pt d imp w cards t dv sg pr where
      v: "validate_input_payload p = Inr ()"
    and c: "stable_seed L p = Inr seed"
       "compute_rul_and_confidence p = Inr (est, cs, pt)"
       "compute_option_scores p = Inr d"
       "build_estimated_impacts L (Random L (int seed + 42)) = Inr imp"
       "recommended_option d = Inr w"
       "build_recommendations p d imp w = Inr cards"
       "build_rationale w p est = Inr t"
       "subscript p ''device'' = Inr dv" "subscript p ''signals'' = Inr sg"
       "subscript p ''user_preferences'' = Inr pr"
    and r: "r = \<lparr>request_id = ''req_'' @ format_08x seed,
                   timestamp_utc = utc_now W1,
                   model_version = MODEL_VERSION,
                   inputs_echo = \<lparr>echo_device = dv, echo_signals = sg,
                                   echo_user_preferences = pr\<rparr>,
                   rul_estimate = est,
                   decision_summary = \<lparr>recommended_primary_option_id = w, rationale = t\<rparr>,
                   recommendations = cards\<rparr>"
    unfolding assess_logic_Inr_iff by blast
  from r have r2: "r\<lparr>timestamp_utc := utc_now W2\<rparr> =
                 \<lparr>request_id = ''req_'' @ format_08x seed,
                   timestamp_utc = utc_now W2,
                   model_version = MODEL_VERSION,
                   inputs_echo = \<lparr>echo_device = dv, echo_signals = sg,
                                   echo_user_preferences = pr\<rparr>,
                   rul_estimate = est,
                   decision_summary = \<lparr>recommended_primary_option_id = w, rationale = t\<rparr>,
                   recommendations = cards\<rparr>"
    by simp
  show ?thesis
    unfolding assess_logic_Inr_iff
    using v c r2 by blast
qed

lemma incentive_logic_other_world:
  "incentive_logic L W1 p sel = incentive_logic L W2 p sel"
  by (simp only: incentive_logic_def)

text \<open>
  C1 (determinism). Two calls differ in the ambient state they run in, which is the clock.
  If assess returns a response on a payload, a second call on the same payload returns the
  same response with the timestamp of the second call in place of the first: the two
  responses have the same \<open>rul_estimate\<close>, the same \<open>recommended_primary_option_id\<close>, the
  same \<open>estimated_impacts\<close> in every card and the same \<open>request_id\<close>. Two calls of
  incentive on the same payload and selected option id have the same outcome.
\<close>

theorem determinism:
  "(assess_logic L W1 p = Inr r1 \<longrightarrow>
      assess_logic L W2 p = Inr (r1\<lparr>timestamp_utc := utc_now W2\<rparr>)
      \<and> (\<forall>r2. assess_logic L W2 p = Inr r2 \<longrightarrow>
             rul_estimate r2 = rul_estimate r1
           \<and> recommended_primary_option_id (decision_summary r2)
               = recommended_primary_option_id (decision_summary r1)
           \<and> map estimated_impacts (recommendations r2)
               = map estimated_impacts (recommendations r1)
           \<and> request_id r2 = request_id r1))
   \<and> incentive_logic L W1 p sel = incentive_logic L W2 p sel"
proof (intro conjI impI allI)
  assume a: "assess_logic L W1 p = Inr r1"
  then show b: "assess_logic L W2 p = Inr (r1\<lparr>timestamp_utc := utc_now W2\<rparr>)"
    by (rule assess_logic_other_world)
  fix r2
  assume "assess_logic L W2 p = Inr r2"
  with b have r2: "r2 = r1\<lparr>timestamp_utc := utc_now W2\<rparr>" by simp
  then show "rul_estimate r2 = rul_estimate r1"
    "recommended_primary_option_id (decision_summary r2)
       = recommended_primary_option_id (decision_summary r1)"
    "map estimated_impacts (recommendations r2) = map estimated_impacts (recommendations r1)"
    "request_id r2 = request_id r1"
    by simp_all
next
  show "incentive_logic L W1 p sel = incentive_logic L W2 p sel"
    by (rule incentive_logic_other_world)
qed

theorem determinism_witness:
  "assess_logic lib0 world0 scenario_a_input =
      Inr (projr (assess_logic lib0 world0 scenario_a_input))
   \<and> utc_now world0 \<noteq> utc_now world1
   \<and> assess_logic lib0 world1 scenario_a_input =
      Inr ((projr (assess_logic lib0 world0 scenario_a_input))\<lparr>timestamp_utc := utc_now world1\<rparr>)
   \<and> rul_estimate (projr (assess_logic lib0 world1 scenario_a_input))
       = rul_estimate (projr (assess_logic lib0 world0 scenario_a_input))
   \<and> recommended_primary_option_id
        (decision_summary (projr (assess_logic lib0 world1 scenario_a_input)))
       = recommended_primary_option_id
        (decision_summary (projr (assess_logic lib0 world0 scenario_a_input)))
   \<and> map estimated_impacts (recommendations (projr (assess_logic lib0 world1 scenario_a_input)))
       = map estimated_impacts (recommendations (projr (assess_logic lib0 world0 scenario_a_input)))
   \<and> request_id (projr (assess_logic lib0 world1 scenario_a_input))
       = request_id (projr (assess_logic lib0 world0 scenario_a_input))
   \<and> incentive_logic lib0 world0 scenario_a_input (PStr ''tradein_new'')
       = incentive_logic lib0 world1 scenario_a_input (PStr ''tradein_new'')"
proof -
  have w: "utc_now world0 \<noteq> utc_now world1" by (simp add: world0_def world1_def)
  from determinism [of lib0 world0 scenario_a_input
      "projr (assess_logic lib0 world0 scenario_a_input)" world1 "PStr ''tradein_new''"]
    scenario_a_assess_returns w
  show ?thesis by simp
qed

subsection \<open>The validators against the documented checks\<close>

lemma thenE_assoc: "thenE (thenE a b) c = thenE a (thenE b c)"
  by (cases a) (simp_all add: thenE_def)

lemma thenE_unit: "thenE m (Inr ()) = m"
  by (cases m) (simp_all add: thenE_def)

lemma spec_outcome_Nil: "spec_outcome (first_failure []) = Inr ()"
  by (simp add: spec_outcome_def)

lemma spec_outcome_Cons:
  "spec_outcome (first_failure ((msg, ok) # cs)) =
     thenE (raise_if (\<not> ok) msg) (spec_outcome (first_failure cs))"
  by (simp add: spec_outcome_def raise_if_def)

lemma first_failure_None: "first_failure cs = None \<longleftrightarrow> list_all snd cs"
  by (induction cs rule: first_failure.induct) simp_all

lemma spec_outcome_Inr: "spec_outcome x = Inr () \<longleftrightarrow> x = None"
  by (cases x) (simp_all add: spec_outcome_def)

lemma nonempty_str_spec: "nonempty_str v = spec_nonempty_string v"
  by (simp add: nonempty_str_def spec_nonempty_string_def)

lemma int_ge0_spec: "int_ge0 v = spec_nonneg_int v"
  by (cases v) (simp_all add: int_ge0_def as_int_def spec_nonneg_int_def spec_is_int_def
        spec_int_value_def not_less)

lemma is_bool_spec: "is_bool v = spec_boolean v"
  by (simp add: is_bool_def spec_boolean_def)

lemma section_get:
  "dict_get (PDict fs) k = Inr (spec_section (PDict fs) k)"
  by (simp add: dict_get_def spec_section_def)

lemma check_device_strings_spec:
  "check_device_strings (PDict fs) =
     thenE (raise_if (\<not> spec_nonempty_string (spec_section (PDict fs) ''brand''))
              ''device.brand must be non-empty string'')
           (raise_if (\<not> spec_nonempty_string (spec_section (PDict fs) ''model''))
              ''device.model must be non-empty string'')"
  by (simp add: check_device_strings_def section_get nonempty_str_spec thenE_unit)

lemma check_age_months_spec:
  "check_age_months (PDict fs) =
     raise_if (\<not> spec_nonneg_int (spec_section (PDict fs) ''age_months''))
       ''device.age_months must be int >= 0''"
  by (simp add: check_age_months_def section_get int_ge0_spec)

lemma check_battery_value:
  "(case as_int v of
      None \<Rightarrow> Inl (ValueError m1)
    | Some b \<Rightarrow> raise_if (\<not> (0 \<le> b \<and> b \<le> 100)) m2) =
   thenE (raise_if (\<not> spec_is_int v) m1) (raise_if (\<not> spec_int_0_100 v) m2)"
  by (cases v) (simp_all add: as_int_def spec_is_int_def spec_int_0_100_def spec_int_value_def
        raise_if_def)

lemma check_battery_spec:
  "check_battery (PDict fs) =
     thenE (raise_if (\<not> spec_is_int (spec_section (PDict fs) ''battery_health_percent''))
              ''signals.battery_health_percent must be int'')
           (raise_if (\<not> spec_int_0_100 (spec_section (PDict fs) ''battery_health_percent''))
              ''signals.battery_health_percent must be in [0, 100]'')"
  by (simp add: check_battery_def section_get check_battery_value)

lemma check_charge_cycles_spec:
  "check_charge_cycles (PDict fs) =
     raise_if (\<not> spec_nonneg_int (spec_section (PDict fs) ''charge_cycles''))
       ''signals.charge_cycles must be int >= 0''"
  by (simp add: check_charge_cycles_def section_get int_ge0_spec)

lemma check_frame_drop_value:
  assumes "spec_number_fits v"
  shows "(case as_number v of
      None \<Rightarrow> Inl (ValueError m1)
    | Some conv \<Rightarrow> bindE conv (\<lambda>r. raise_if (\<not> (0 \<le> r \<and> r \<le> 1)) m2)) =
   thenE (raise_if (\<not> spec_is_number v) m1) (raise_if (\<not> spec_number_0_1 v) m2)"
  using assms
  by (cases v) (simp_all add: as_number_def spec_is_number_def spec_number_0_1_def
        spec_number_value_def spec_int_value_def spec_number_fits_def to_float_def raise_if_def)

lemma check_frame_drop_rate_spec:
  assumes "spec_number_fits (spec_section (PDict fs) ''frame_drop_rate'')"
  shows "check_frame_drop_rate (PDict fs) =
     thenE (raise_if (\<not> spec_is_number (spec_section (PDict fs) ''frame_drop_rate''))
              ''signals.frame_drop_rate must be float'')
           (raise_if (\<not> spec_number_0_1 (spec_section (PDict fs) ''frame_drop_rate''))
              ''signals.frame_drop_rate must be in [0, 1]'')"
  by (simp add: check_frame_drop_rate_def section_get check_frame_drop_value [OF assms])

lemma check_repair_history_count_spec:
  "check_repair_history_count (PDict fs) =
     raise_if (\<not> spec_nonneg_int (spec_section (PDict fs) ''repair_history_count''))
       ''signals.repair_history_count must be int >= 0''"
  by (simp add: check_repair_history_count_def section_get int_ge0_spec)

lemma in_priority_set_spec:
  "spec_hashable v \<Longrightarrow> in_priority_set v = Inr (spec_priority v)"
  by (cases v) (simp_all add: in_priority_set_def spec_priority_def spec_hashable_def)

lemma check_priorities_spec:
  assumes "spec_hashable (spec_section (PDict fs) ''budget_priority'')"
    "spec_hashable (spec_section (PDict fs) ''sustainability_priority'')"
    "spec_hashable (spec_section (PDict fs) ''performance_priority'')"
  shows "check_priorities (PDict fs) =
     thenE (raise_if (\<not> spec_priority (spec_section (PDict fs) ''budget_priority''))
              ''user_preferences.budget_priority must be low|medium|high'')
    (thenE (raise_if (\<not> spec_priority (spec_section (PDict fs) ''sustainability_priority''))
              ''user_preferences.sustainability_priority must be low|medium|high'')
           (raise_if (\<not> spec_priority (spec_section (PDict fs) ''performance_priority''))
              ''user_preferences.performance_priority must be low|medium|high''))"
  by (simp add: check_priorities_def section_get in_priority_set_spec [OF assms(1)]
        in_priority_set_spec [OF assms(2)] in_priority_set_spec [OF assms(3)] thenE_unit)

lemma check_prefers_financing_spec:
  "check_prefers_financing (PDict fs) =
     raise_if (\<not> spec_boolean (spec_section (PDict fs) ''prefers_financing''))
       ''user_preferences.prefers_financing must be bool''"
  by (simp add: check_prefers_financing_def section_get is_bool_spec)

lemma top_level_present:
  "spec_top_level_present (PDict kvs) = has_required_top kvs"
  by (simp add: spec_top_level_present_def has_required_top_def required_top_def)

lemma top_level_sections:
  assumes "spec_top_level_present (PDict kvs)"
    and "sec \<in> {''device'', ''signals'', ''user_preferences''}"
  shows "subscript (PDict kvs) sec = Inr (spec_section (PDict kvs) sec)"
  using assms by (auto simp: spec_top_level_present_def subscript_def spec_section_def)

lemma well_shaped_sections:
  assumes "well_shaped p" and "spec_top_level_present p"
  obtains kvs dfs sfs pfs where "p = PDict kvs"
    "subscript p ''device'' = Inr (PDict dfs)" "subscript p ''signals'' = Inr (PDict sfs)"
    "subscript p ''user_preferences'' = Inr (PDict pfs)"
    "\<forall>k. spec_field p ''device'' k = spec_section (PDict dfs) k"
    "\<forall>k. spec_field p ''signals'' k = spec_section (PDict sfs) k"
    "\<forall>k. spec_field p ''user_preferences'' k = spec_section (PDict pfs) k"
    "spec_hashable (spec_section (PDict pfs) ''budget_priority'')"
    "spec_hashable (spec_section (PDict pfs) ''sustainability_priority'')"
    "spec_hashable (spec_section (PDict pfs) ''performance_priority'')"
    "spec_number_fits (spec_section (PDict sfs) ''frame_drop_rate'')"
proof -
  from assms(2) obtain kvs where p: "p = PDict kvs"
    by (cases p) (simp_all add: spec_top_level_present_def)
  from assms have w: "is_dict (spec_section p ''device'')" "is_dict (spec_section p ''signals'')"
      "is_dict (spec_section p ''user_preferences'')"
      "spec_hashable (spec_field p ''user_preferences'' ''budget_priority'')"
      "spec_hashable (spec_field p ''user_preferences'' ''sustainability_priority'')"
      "spec_hashable (spec_field p ''user_preferences'' ''performance_priority'')"
      "spec_number_fits (spec_field p ''signals'' ''frame_drop_rate'')"
    by (simp_all add: well_shaped_def)
  from w(1) obtain dfs where d: "spec_section p ''device'' = PDict dfs"
    by (cases "spec_section p ''device''") (simp_all add: is_dict_def)
  from w(2) obtain sfs where s: "spec_section p ''signals'' = PDict sfs"
    by (cases "spec_section p ''signals''") (simp_all add: is_dict_def)
  from w(3) obtain pfs where u: "spec_section p ''user_preferences'' = PDict pfs"
    by (cases "spec_section p ''user_preferences''") (simp_all add: is_dict_def)
  from assms(2) have sub: "subscript p ''device'' = Inr (PDict dfs)"
      "subscript p ''signals'' = Inr (PDict sfs)"
      "subscript p ''user_preferences'' = Inr (PDict pfs)"
    unfolding p using top_level_sections [of kvs] d s u by (simp_all add: p)
  show thesis
    using w(4-7) by (intro that [OF p sub]) (simp_all add: spec_field_def d s u)
qed

lemma validate_spec:
  assumes "well_shaped p"
  shows "validate_input_payload p = spec_outcome (spec_first_offence p)"
proof (cases "spec_top_level_present p")
  case False
  then show ?thesis
    by (cases p)
      (simp_all add: validate_input_payload_def spec_first_offence_def spec_outcome_def
         top_level_present [symmetric])
next
  case True
  obtain kvs dfs sfs pfs where p: "p = PDict kvs"
    and sub: "subscript p ''device'' = Inr (PDict dfs)" "subscript p ''signals'' = Inr (PDict sfs)"
      "subscript p ''user_preferences'' = Inr (PDict pfs)"
    and fld: "\<forall>k. spec_field p ''device'' k = spec_section (PDict dfs) k"
      "\<forall>k. spec_field p ''signals'' k = spec_section (PDict sfs) k"
      "\<forall>k. spec_field p ''user_preferences'' k = spec_section (PDict pfs) k"
    and h: "spec_hashable (spec_section (PDict pfs) ''budget_priority'')"
      "spec_hashable (spec_section (PDict pfs) ''sustainability_priority'')"
      "spec_hashable (spec_section (PDict pfs) ''performance_priority'')"
    and fits: "spec_number_fits (spec_section (PDict sfs) ''frame_drop_rate'')"
    by (rule well_shaped_sections [OF assms True]) blast
  from True have top: "has_required_top kvs" by (simp add: p top_level_present)
  have v: "validate_input_payload p =
      thenE (check_device_strings (PDict dfs))
     (thenE (check_age_months (PDict dfs))
     (thenE (check_battery (PDict sfs))
     (thenE (check_charge_cycles (PDict sfs))
     (thenE (check_frame_drop_rate (PDict sfs))
     (thenE (check_repair_history_count (PDict sfs))
     (thenE (check_priorities (PDict pfs))
            (check_prefers_financing (PDict pfs))))))))"
    using top sub unfolding p by (simp add: validate_input_payload_def)
  show ?thesis
    unfolding v spec_first_offence_def
    by (simp only: True if_True spec_checks_def spec_checks_inc_def append.simps
          spec_outcome_Cons spec_outcome_Nil fld
          check_device_strings_spec check_age_months_spec check_battery_spec
          check_charge_cycles_spec check_frame_drop_rate_spec [OF fits]
          check_repair_history_count_spec check_priorities_spec [OF h]
          check_prefers_financing_spec thenE_assoc thenE_unit)
qed

lemma validate_inc_spec:
  assumes "well_shaped p"
  shows "validate_input_payload_inc p = spec_outcome (spec_first_offence_inc p)"
proof (cases "spec_top_level_present p")
  case False
  then show ?thesis
    by (cases p)
      (simp_all add: validate_input_payload_inc_def spec_first_offence_inc_def spec_outcome_def
         is_dict_def top_level_present [symmetric])
next
  case True
  obtain kvs dfs sfs pfs where p: "p = PDict kvs"
    and sub: "subscript p ''device'' = Inr (PDict dfs)" "subscript p ''signals'' = Inr (PDict sfs)"
      "subscript p ''user_preferences'' = Inr (PDict pfs)"
    and fld: "\<forall>k. spec_field p ''device'' k = spec_section (PDict dfs) k"
      "\<forall>k. spec_field p ''signals'' k = spec_section (PDict sfs) k"
      "\<forall>k. spec_field p ''user_preferences'' k = spec_section (PDict pfs) k"
    and h: "spec_hashable (spec_section (PDict pfs) ''budget_priority'')"
      "spec_hashable (spec_section (PDict pfs) ''sustainability_priority'')"
      "spec_hashable (spec_section (PDict pfs) ''performance_priority'')"
    and fits: "spec_number_fits (spec_section (PDict sfs) ''frame_drop_rate'')"
    by (rule well_shaped_sections [OF assms True]) blast
  from True have top: "has_required_top kvs" by (simp add: p top_level_present)
  have d: "is_dict p" by (simp add: p is_dict_def)
  have v: "validate_input_payload_inc p =
      thenE (check_charge_cycles (PDict sfs))
     (thenE (check_frame_drop_rate (PDict sfs))
     (thenE (check_repair_history_count (PDict sfs))
     (thenE (check_priorities (PDict pfs))
            (check_prefers_financing (PDict pfs)))))"
    using top sub unfolding p by (simp add: validate_input_payload_inc_def)
  show ?thesis
    unfolding v spec_first_offence_inc_def
    by (simp only: True d not_True_eq_False if_False if_True spec_checks_inc_def
          spec_outcome_Cons spec_outcome_Nil fld
          check_charge_cycles_spec check_frame_drop_rate_spec [OF fits]
          check_repair_history_count_spec check_priorities_spec [OF h]
          check_prefers_financing_spec thenE_assoc thenE_unit)
qed

lemma spec_first_offence_None: "spec_first_offence p = None \<longleftrightarrow> spec_valid p"
  by (simp add: spec_first_offence_def spec_valid_def first_failure_None)

lemma spec_first_offence_inc_None: "spec_first_offence_inc p = None \<longleftrightarrow> spec_valid_inc p"
  by (cases p)
    (simp_all add: spec_first_offence_inc_def spec_valid_inc_def first_failure_None is_dict_def
       spec_top_level_present_def)

lemma device_string_validate:
  "validate_input_payload device_string_input = Inl AttributeError"
  by code_simp

lemma device_string_offence:
  "spec_first_offence device_string_input = Some ''device.brand must be non-empty string''"
  by code_simp

lemma frame_drop_shaped: "well_shaped frame_drop_input"
  by code_simp

lemma frame_drop_offence:
  "spec_first_offence frame_drop_input = Some ''signals.frame_drop_rate must be in [0, 1]''"
  "spec_first_offence_inc frame_drop_input = Some ''signals.frame_drop_rate must be in [0, 1]''"
  by code_simp+

subsection \<open>A returned incentive response\<close>

lemma incentive_returns:
  assumes ret: "incentive_logic L W p sel = Inr r"
  obtains sid raw seed sp bp pf sw bw and cc rc :: int and fd :: rat and ca cp hc hcp where
    "validate_input_payload_inc p = Inr ()" "sel = PStr sid" "sid \<noteq> []"
    "json_dumps L (spec_incentive_seed_input p sid) = Inr raw"
    "int16 (spec_seed_digits L raw) = Inr seed" "seed < 2 ^ 32"
    "format_08x seed = spec_seed_digits L raw"
    "draw_amounts L (Random L (int seed + 42)) (sw - bw)
       (850 \<le> cc \<or> 15 / 100 \<le> fd \<or> 2 \<le> rc) sp = Inr (ca, cp, hc, hcp)"
    "r = \<lparr>inc_request_id = ''req_'' @ format_08x seed @ ''_INC'',
          inc_model_version = MODEL_VERSION,
          selected_option_id = sid,
          packages = build_packages ca cp hc hcp (850 \<le> cc \<or> 15 / 100 \<le> fd \<or> 2 \<le> rc) pf sp,
          accept_score = round2 (clamp (45 / 100 + 22 / 100 * (bw / 3)
              + 18 / 100 * clamp (of_int ca / 17000) 0 1
              + (if pf then 7 / 100 else 0)
              + (if 850 \<le> cc \<or> 15 / 100 \<le> fd \<or> 2 \<le> rc then 4 / 100 else 0)) 0 1),
          impact_score = round2 (clamp (40 / 100 + 30 / 100 * (sw / 3)
              + 22 / 100 * clamp (of_int cp / 22000) 0 1
              + (if sp = ''high'' then 5 / 100 else 0)) 0 1),
          inc_notes = build_notes (pf = False \<and> sp = ''high'')
              (850 \<le> cc \<or> 15 / 100 \<le> fd \<or> 2 \<le> rc) sp bp\<rparr>"
proof -
  have v: "validate_input_payload_inc p = Inr ()"
  proof (cases "validate_input_payload_inc p")
    case (Inl e)
    from incentive_logic_invalid [OF Inl, of L W sel] ret show ?thesis by simp
  next
    case (Inr u)
    then show ?thesis by simp
  qed
  have "\<exists>sid. sel = PStr sid \<and> sid \<noteq> []"
  proof (rule ccontr)
    assume n: "\<not> (\<exists>sid. sel = PStr sid \<and> sid \<noteq> [])"
    from incentive_bad_selected [OF v n, of L W] ret show False by simp
  qed
  then obtain sid where sel: "sel = PStr sid" and sid: "sid \<noteq> []" by blast
  obtain seed where seed: "stable_seed_inc L p sid = Inr seed"
  proof (cases "stable_seed_inc L p sid")
    case (Inl e)
    from incentive_logic_seed_fails [OF v sid Inl, of W] ret sel show ?thesis by simp
  next
    case (Inr n)
    then show ?thesis by (rule that)
  qed
  from stable_seed_inc_Inr [OF seed] obtain raw where
      raw: "json_dumps L (spec_incentive_seed_input p sid) = Inr raw"
    and dg: "int16 (spec_seed_digits L raw) = Inr seed" "seed < 2 ^ 32"
      "format_08x seed = spec_seed_digits L raw"
    unfolding spec_incentive_seed_input_def spec_seed_digits_def by blast
  from incentive_logic_run [OF v sid seed, of W]
  obtain sp bp pf sw bw and cc rc :: int and fd :: rat and ca cp hc hcp where
      dr: "draw_amounts L (Random L (int seed + 42)) (sw - bw)
             (850 \<le> cc \<or> 15 / 100 \<le> fd \<or> 2 \<le> rc) sp = Inr (ca, cp, hc, hcp)"
    and run: "incentive_logic L W p (PStr sid) =
         Inr \<lparr>inc_request_id = ''req_'' @ format_08x seed @ ''_INC'',
              inc_model_version = MODEL_VERSION,
              selected_option_id = sid,
              packages = build_packages ca cp hc hcp (850 \<le> cc \<or> 15 / 100 \<le> fd \<or> 2 \<le> rc) pf sp,
              accept_score = round2 (clamp (45 / 100 + 22 / 100 * (bw / 3)
                  + 18 / 100 * clamp (of_int ca / 17000) 0 1
                  + (if pf then 7 / 100 else 0)
                  + (if 850 \<le> cc \<or> 15 / 100 \<le> fd \<or> 2 \<le> rc then 4 / 100 else 0)) 0 1),
              impact_score = round2 (clamp (40 / 100 + 30 / 100 * (sw / 3)
                  + 22 / 100 * clamp (of_int cp / 22000) 0 1
                  + (if sp = ''high'' then 5 / 100 else 0)) 0 1),
              inc_notes = build_notes (pf = False \<and> sp = ''high'')
                  (850 \<le> cc \<or> 15 / 100 \<le> fd \<or> 2 \<le> rc) sp bp\<rparr>"
    by blast
  from run ret sel have r: "r = \<lparr>inc_request_id = ''req_'' @ format_08x seed @ ''_INC'',
              inc_model_version = MODEL_VERSION,
              selected_option_id = sid,
              packages = build_packages ca cp hc hcp (850 \<le> cc \<or> 15 / 100 \<le> fd \<or> 2 \<le> rc) pf sp,
              accept_score = round2 (clamp (45 / 100 + 22 / 100 * (bw / 3)
                  + 18 / 100 * clamp (of_int ca / 17000) 0 1
                  + (if pf then 7 / 100 else 0)
                  + (if 850 \<le> cc \<or> 15 / 100 \<le> fd \<or> 2 \<le> rc then 4 / 100 else 0)) 0 1),
              impact_score = round2 (clamp (40 / 100 + 30 / 100 * (sw / 3)
                  + 22 / 100 * clamp (of_int cp / 22000) 0 1
                  + (if sp = ''high'' then 5 / 100 else 0)) 0 1),
              inc_notes = build_notes (pf = False \<and> sp = ''high'')
                  (850 \<le> cc \<or> 15 / 100 \<le> fd \<or> 2 \<le> rc) sp bp\<rparr>"
    by simp
  from v sel sid raw dg dr r show thesis by (rule that)
qed

lemma scenario_a_incentive_returns:
  assumes "sid \<noteq> []"
  shows "incentive_logic lib0 world0 scenario_a_input (PStr sid) =
     Inr (projr (incentive_logic lib0 world0 scenario_a_input (PStr sid)))"
proof -
  from stable_seed_inc_ok [OF scenario_a_inc_encodes, of sid] obtain seed where
    "stable_seed_inc lib0 scenario_a_input sid = Inr seed" by blast
  from incentive_logic_checked [OF scenario_a_valid_inc assms this, of world0]
  show ?thesis by auto
qed

text \<open>
  C3 (range invariants). In every response assess returns, \<open>rul_months_min\<close> is at most
  \<open>rul_months_max\<close> and both lie in [1, 30], \<open>confidence_score\<close> lies in [0.35, 0.9] and
  the \<open>overall_score\<close> of every recommendation card lies in [0, 1]. In every response
  incentive returns, \<open>accept_score\<close> and \<open>impact_score\<close> lie in [0, 1].
\<close>

theorem range_invariants:
  "(assess_logic L W p = Inr r \<longrightarrow>
      1 \<le> rul_months_min (rul_estimate r)
      \<and> rul_months_min (rul_estimate r) \<le> rul_months_max (rul_estimate r)
      \<and> rul_months_max (rul_estimate r) \<le> 30
      \<and> 35 / 100 \<le> confidence_score (rul_estimate r)
      \<and> confidence_score (rul_estimate r) \<le> 9 / 10
      \<and> (\<forall>c \<in> set (recommendations r).
            0 \<le> overall_score (scores c) \<and> overall_score (scores c) \<le> 1))
   \<and> (incentive_logic L W p sel = Inr r' \<longrightarrow>
        0 \<le> accept_score r' \<and> accept_score r' \<le> 1
        \<and> 0 \<le> impact_score r' \<and> impact_score r' \<le> 1)"
proof (intro conjI impI)
  assume ret: "assess_logic L W p = Inr r"
  then obtain s1 s2 s3 c1 c2 c3 and age b cyc rep :: int and fd :: rat where
      d: "compute_option_scores p =
            Inr [(''repair_battery'', s1), (''refurb_buy'', s2), (''tradein_new'', s3)]"
    and est: "rul_estimate r =
             \<lparr>rul_months_min = spec_rul_min (spec_rul_point age b cyc fd rep)
                  (spec_margin (spec_confidence_score (spec_risk age b cyc fd rep))),
              rul_months_max = spec_rul_max (spec_rul_point age b cyc fd rep)
                  (spec_margin (spec_confidence_score (spec_risk age b cyc fd rep))),
              confidence = c1, confidence_score =
                  round2 (spec_confidence_score (spec_risk age b cyc fd rep)),
              key_drivers = c2\<rparr>"
    and cards: "map scores (recommendations r) = [s1, s2, s3]"
    by (elim assess_returns) simp
  note pt = spec_rul_point_range [of age b cyc fd rep]
  note sc = spec_confidence_score_range [of "spec_risk age b cyc fd rep"]
  from rul_interval [of "spec_rul_point age b cyc fd rep"
      "spec_confidence_score (spec_risk age b cyc fd rep)"] pt sc est
  show "1 \<le> rul_months_min (rul_estimate r)"
    "rul_months_min (rul_estimate r) \<le> rul_months_max (rul_estimate r)"
    "rul_months_max (rul_estimate r) \<le> 30" by simp_all
  from round2_confidence_range [of "spec_confidence_score (spec_risk age b cyc fd rep)"] sc est
  show "35 / 100 \<le> confidence_score (rul_estimate r)"
    "confidence_score (rul_estimate r) \<le> 9 / 10" by simp_all
  from d compute_option_scores_post [of p]
  have "\<forall>s \<in> set [s1, s2, s3]. 0 \<le> overall_score s \<and> overall_score s \<le> 1" by auto
  with cards have "\<forall>s \<in> set (map scores (recommendations r)).
      0 \<le> overall_score s \<and> overall_score s \<le> 1" by simp
  then show "\<forall>c \<in> set (recommendations r).
      0 \<le> overall_score (scores c) \<and> overall_score (scores c) \<le> 1" by simp
next
  assume "incentive_logic L W p sel = Inr r'"
  then obtain a i where
      "accept_score r' = round2 (clamp a 0 1)" "impact_score r' = round2 (clamp i 0 1)"
    by (elim incentive_returns) simp
  with round2_unit [of "clamp a 0 1"] round2_unit [of "clamp i 0 1"]
    clamp_bounds [of 0 1 a] clamp_bounds [of 0 1 i]
  show "0 \<le> accept_score r'" "accept_score r' \<le> 1" "0 \<le> impact_score r'"
    "impact_score r' \<le> 1"
    by simp_all
qed

theorem range_invariants_witness:
  "assess_logic lib0 world0 scenario_a_input =
      Inr (projr (assess_logic lib0 world0 scenario_a_input))
   \<and> incentive_logic lib0 world0 scenario_a_input (PStr ''tradein_new'') =
      Inr (projr (incentive_logic lib0 world0 scenario_a_input (PStr ''tradein_new'')))
   \<and> 1 \<le> rul_months_min (rul_estimate (projr (assess_logic lib0 world0 scenario_a_input)))
   \<and> rul_months_min (rul_estimate (projr (assess_logic lib0 world0 scenario_a_input)))
        \<le> rul_months_max (rul_estimate (projr (assess_logic lib0 world0 scenario_a_input)))
   \<and> rul_months_max (rul_estimate (projr (assess_logic lib0 world0 scenario_a_input))) \<le> 30
   \<and> 35 / 100 \<le> confidence_score (rul_estimate (projr (assess_logic lib0 world0 scenario_a_input)))
   \<and> confidence_score (rul_estimate (projr (assess_logic lib0 world0 scenario_a_input))) \<le> 9 / 10
   \<and> list_all (\<lambda>c. 0 \<le> overall_score (scores c) \<and> overall_score (scores c) \<le> 1)
         (recommendations (projr (assess_logic lib0 world0 scenario_a_input)))
   \<and> 0 \<le> accept_score (projr (incentive_logic lib0 world0 scenario_a_input (PStr ''tradein_new'')))
   \<and> accept_score (projr (incentive_logic lib0 world0 scenario_a_input (PStr ''tradein_new''))) \<le> 1
   \<and> 0 \<le> impact_score (projr (incentive_logic lib0 world0 scenario_a_input (PStr ''tradein_new'')))
   \<and> impact_score (projr (incentive_logic lib0 world0 scenario_a_input (PStr ''tradein_new''))) \<le> 1"
proof -
  have i: "incentive_logic lib0 world0 scenario_a_input (PStr ''tradein_new'') =
      Inr (projr (incentive_logic lib0 world0 scenario_a_input (PStr ''tradein_new'')))"
    by (rule scenario_a_incentive_returns) simp
  from range_invariants [of lib0 world0 scenario_a_input
      "projr (assess_logic lib0 world0 scenario_a_input)" "PStr ''tradein_new''"
      "projr (incentive_logic lib0 world0 scenario_a_input (PStr ''tradein_new''))"]
    scenario_a_assess_returns i
  show ?thesis by (simp add: list_all_iff)
qed

subsection \<open>The seed as text\<close>

lemma hex_char_lowercase: "hex_char n \<in> set ''0123456789abcdef''"
proof -
  have "\<forall>k\<in>{0..<16}. ''0123456789abcdef'' ! k \<in> set ''0123456789abcdef''" by code_simp
  then show ?thesis by (simp add: hex_char_def)
qed

lemma spec_seed_digits_shape:
  "length (spec_seed_digits L raw) = 8
   \<and> set (spec_seed_digits L raw) \<subseteq> set ''0123456789abcdef''"
proof -
  have "length (spec_seed_digits L raw) = 8"
    by (simp add: spec_seed_digits_def hexdigest_def)
  moreover have "set (spec_seed_digits L raw) \<subseteq> set ''0123456789abcdef''"
    unfolding spec_seed_digits_def take8_hexdigest using hex_char_lowercase by auto
  ultimately show ?thesis by simp
qed

text \<open>
  C7 (seed and request id). In every response assess returns, the seed is the value, below
  \<open>2^32\<close>, of the first eight hexadecimal characters of the SHA-256 hex digest of the
  canonical JSON encoding of the payload; \<open>request_id\<close> is \<open>req_\<close> followed by the seed in
  eight lowercase zero-padded hexadecimal digits, which are those eight characters; and the
  estimated impacts of the three cards are drawn from the generator constructed from
  \<open>seed + 42\<close>. In every response incentive returns, the same holds with the seed taken on
  the encoding of \<open>{input_payload, selected_option_id}\<close>, the suffix \<open>_INC\<close> on the request
  id, and the package amounts drawn from the generator constructed from \<open>seed + 42\<close>.
\<close>

theorem seed_and_request_id:
  "(assess_logic L W p = Inr r \<longrightarrow>
      (\<exists>raw seed i1 i2 i3.
          json_dumps L p = Inr raw
        \<and> int16 (spec_seed_digits L raw) = Inr seed \<and> seed < 2 ^ 32
        \<and> request_id r = ''req_'' @ format_08x seed
        \<and> format_08x seed = spec_seed_digits L raw
        \<and> length (format_08x seed) = 8
        \<and> set (format_08x seed) \<subseteq> set ''0123456789abcdef''
        \<and> build_estimated_impacts L (Random L (int seed + 42)) =
             Inr [(''repair_battery'', i1), (''refurb_buy'', i2), (''tradein_new'', i3)]
        \<and> map estimated_impacts (recommendations r) = [i1, i2, i3]))
   \<and> (incentive_logic L W p sel = Inr r' \<longrightarrow>
        (\<exists>sid raw seed bias heavy sp pf ca cp hc hcp.
            sel = PStr sid
          \<and> json_dumps L (spec_incentive_seed_input p sid) = Inr raw
          \<and> int16 (spec_seed_digits L raw) = Inr seed
          \<and> seed < 2 ^ 32
          \<and> inc_request_id r' = ''req_'' @ format_08x seed @ ''_INC''
          \<and> format_08x seed = spec_seed_digits L raw
          \<and> length (format_08x seed) = 8
          \<and> set (format_08x seed) \<subseteq> set ''0123456789abcdef''
          \<and> draw_amounts L (Random L (int seed + 42)) bias heavy sp = Inr (ca, cp, hc, hcp)
          \<and> packages r' = build_packages ca cp hc hcp heavy pf sp))"
proof (intro conjI impI)
  assume "assess_logic L W p = Inr r"
  then obtain seed i1 i2 i3 where
      seed: "stable_seed L p = Inr seed"
    and imp: "build_estimated_impacts L (Random L (int seed + 42)) =
             Inr [(''repair_battery'', i1), (''refurb_buy'', i2), (''tradein_new'', i3)]"
    and rid: "request_id r = ''req_'' @ format_08x seed"
    and cards: "map estimated_impacts (recommendations r) = [i1, i2, i3]"
    by (elim assess_returns) simp
  from stable_seed_Inr [OF seed] obtain raw where
      raw: "json_dumps L p = Inr raw"
    and s: "int16 (spec_seed_digits L raw) = Inr seed"
    and b: "seed < 2 ^ 32" "format_08x seed = spec_seed_digits L raw"
    unfolding spec_seed_digits_def by blast
  with spec_seed_digits_shape [of L raw]
  have sh: "length (format_08x seed) = 8" "set (format_08x seed) \<subseteq> set ''0123456789abcdef''"
    by simp_all
  from raw s b(1) rid b(2) sh imp cards
  show "\<exists>raw seed i1 i2 i3.
          json_dumps L p = Inr raw
        \<and> int16 (spec_seed_digits L raw) = Inr seed \<and> seed < 2 ^ 32
        \<and> request_id r = ''req_'' @ format_08x seed
        \<and> format_08x seed = spec_seed_digits L raw
        \<and> length (format_08x seed) = 8
        \<and> set (format_08x seed) \<subseteq> set ''0123456789abcdef''
        \<and> build_estimated_impacts L (Random L (int seed + 42)) =
             Inr [(''repair_battery'', i1), (''refurb_buy'', i2), (''tradein_new'', i3)]
        \<and> map estimated_impacts (recommendations r) = [i1, i2, i3]"
    by - (intro exI conjI, assumption+)
next
  assume "incentive_logic L W p sel = Inr r'"
  then obtain sid raw seed bias heavy sp pf ca cp hc hcp where
      sel: "sel = PStr sid"
    and raw: "json_dumps L (spec_incentive_seed_input p sid) = Inr raw"
    and s: "int16 (spec_seed_digits L raw) = Inr seed"
    and b: "seed < 2 ^ 32" "format_08x seed = spec_seed_digits L raw"
    and draw: "draw_amounts L (Random L (int seed + 42)) bias heavy sp = Inr (ca, cp, hc, hcp)"
    and rid: "inc_request_id r' = ''req_'' @ format_08x seed @ ''_INC''"
    and pk: "packages r' = build_packages ca cp hc hcp heavy pf sp"
    by (elim incentive_returns) simp
  with spec_seed_digits_shape [of L raw]
  have sh: "length (format_08x seed) = 8" "set (format_08x seed) \<subseteq> set ''0123456789abcdef''"
    by simp_all
  from sel raw s b(1) rid b(2) sh draw pk
  show "\<exists>sid raw seed bias heavy sp pf ca cp hc hcp.
            sel = PStr sid
          \<and> json_dumps L (spec_incentive_seed_input p sid) = Inr raw
          \<and> int16 (spec_seed_digits L raw) = Inr seed
          \<and> seed < 2 ^ 32
          \<and> inc_request_id r' = ''req_'' @ format_08x seed @ ''_INC''
          \<and> format_08x seed = spec_seed_digits L raw
          \<and> length (format_08x seed) = 8
          \<and> set (format_08x seed) \<subseteq> set ''0123456789abcdef''
          \<and> draw_amounts L (Random L (int seed + 42)) bias heavy sp = Inr (ca, cp, hc, hcp)
          \<and> packages r' = build_packages ca cp hc hcp heavy pf sp"
    by - (intro exI conjI, assumption+)
qed

theorem seed_and_request_id_witness:
  "assess_logic lib0 world0 scenario_a_input =
      Inr (projr (assess_logic lib0 world0 scenario_a_input))
   \<and> incentive_logic lib0 world0 scenario_a_input (PStr ''tradein_new'') =
      Inr (projr (incentive_logic lib0 world0 scenario_a_input (PStr ''tradein_new'')))
   \<and> (\<exists>raw seed i1 i2 i3.
          json_dumps lib0 scenario_a_input = Inr raw
        \<and> int16 (spec_seed_digits lib0 raw) = Inr seed \<and> seed < 2 ^ 32
        \<and> request_id (projr (assess_logic lib0 world0 scenario_a_input))
            = ''req_'' @ format_08x seed
        \<and> format_08x seed = spec_seed_digits lib0 raw
        \<and> length (format_08x seed) = 8
        \<and> set (format_08x seed) \<subseteq> set ''0123456789abcdef''
        \<and> build_estimated_impacts lib0 (Random lib0 (int seed + 42)) =
             Inr [(''repair_battery'', i1), (''refurb_buy'', i2), (''tradein_new'', i3)]
        \<and> map estimated_impacts (recommendations (projr (assess_logic lib0 world0 scenario_a_input)))
            = [i1, i2, i3])
   \<and> (\<exists>sid raw seed bias heavy sp pf ca cp hc hcp.
            PStr ''tradein_new'' = PStr sid
          \<and> json_dumps lib0 (spec_incentive_seed_input scenario_a_input sid) = Inr raw
          \<and> int16 (spec_seed_digits lib0 raw) = Inr seed
          \<and> seed < 2 ^ 32
          \<and> inc_request_id (projr (incentive_logic lib0 world0 scenario_a_input (PStr ''tradein_new'')))
              = ''req_'' @ format_08x seed @ ''_INC''
          \<and> format_08x seed = spec_seed_digits lib0 raw
          \<and> length (format_08x seed) = 8
          \<and> set (format_08x seed) \<subseteq> set ''0123456789abcdef''
          \<and> draw_amounts lib0 (Random lib0 (int seed + 42)) bias heavy sp = Inr (ca, cp, hc, hcp)
          \<and> packages (projr (incentive_logic lib0 world0 scenario_a_input (PStr ''tradein_new'')))
              = build_packages ca cp hc hcp heavy pf sp)"
proof -
  have i: "incentive_logic lib0 world0 scenario_a_input (PStr ''tradein_new'') =
      Inr (projr (incentive_logic lib0 world0 scenario_a_input (PStr ''tradein_new'')))"
    by (rule scenario_a_incentive_returns) simp
  note t = seed_and_request_id [of lib0 world0 scenario_a_input
      "projr (assess_logic lib0 world0 scenario_a_input)" "PStr ''tradein_new''"
      "projr (incentive_logic lib0 world0 scenario_a_input (PStr ''tradein_new''))"]
  from t [THEN conjunct1] scenario_a_assess_returns t [THEN conjunct2] i
  show ?thesis by (intro conjI) (assumption | erule (1) mp)+
qed

text \<open>
  C8 (incentive package shape). In every response incentive returns, the packages are
  exactly three, with the ids cash, carbon\_points and hybrid in this order: the cash
  package has no carbon points and an integer cash amount in [7000, 18000]; the
  carbon\_points package has no cash amount and integer carbon points in [6000, 24000];
  the hybrid package has both, the cash amount in [7000, 13000] and the carbon points in
  [5000, 12000].
\<close>

theorem incentive_package_shape:
  assumes "incentive_logic L W p sel = Inr r"
  shows "\<exists>ca cp hc hcp k1 k2 k3.
     packages r =
         [\<lparr>package_id = ''cash'',
            pkg_value = \<lparr>cash_amount_try = Some ca, carbon_points = None, perk = k1\<rparr>\<rparr>,
          \<lparr>package_id = ''carbon_points'',
            pkg_value = \<lparr>cash_amount_try = None, carbon_points = Some cp, perk = k2\<rparr>\<rparr>,
          \<lparr>package_id = ''hybrid'',
            pkg_value = \<lparr>cash_amount_try = Some hc, carbon_points = Some hcp, perk = k3\<rparr>\<rparr>]
     \<and> 7000 \<le> ca \<and> ca \<le> 18000 \<and> 6000 \<le> cp \<and> cp \<le> 24000
     \<and> 7000 \<le> hc \<and> hc \<le> 13000 \<and> 5000 \<le> hcp \<and> hcp \<le> 12000"
proof -
  from assms obtain seed sw bw and cc rc :: int and fd :: rat and sp pf ca cp hc hcp
    where dr: "draw_amounts L (Random L (int seed + 42)) (sw - bw)
                 (850 \<le> cc \<or> 15 / 100 \<le> fd \<or> 2 \<le> rc) sp = Inr (ca, cp, hc, hcp)"
      and pk: "packages r = build_packages ca cp hc hcp
                 (850 \<le> cc \<or> 15 / 100 \<le> fd \<or> 2 \<le> rc) pf sp"
    by (elim incentive_returns) simp
  from draw_amounts_bounds [OF dr] pk show ?thesis
    by (simp add: build_packages_def Let_def)
qed

theorem incentive_package_shape_witness:
  "incentive_logic lib0 world0 scenario_a_input (PStr ''tradein_new'') =
      Inr (projr (incentive_logic lib0 world0 scenario_a_input (PStr ''tradein_new'')))
   \<and> (\<exists>ca cp hc hcp k1 k2 k3.
     packages (projr (incentive_logic lib0 world0 scenario_a_input (PStr ''tradein_new''))) =
         [\<lparr>package_id = ''cash'',
            pkg_value = \<lparr>cash_amount_try = Some ca, carbon_points = None, perk = k1\<rparr>\<rparr>,
          \<lparr>package_id = ''carbon_points'',
            pkg_value = \<lparr>cash_amount_try = None, carbon_points = Some cp, perk = k2\<rparr>\<rparr>,
          \<lparr>package_id = ''hybrid'',
            pkg_value = \<lparr>cash_amount_try = Some hc, carbon_points = Some hcp, perk = k3\<rparr>\<rparr>]
     \<and> 7000 \<le> ca \<and> ca \<le> 18000 \<and> 6000 \<le> cp \<and> cp \<le> 24000
     \<and> 7000 \<le> hc \<and> hc \<le> 13000 \<and> 5000 \<le> hcp \<and> hcp \<le> 12000)"
proof -
  have i: "incentive_logic lib0 world0 scenario_a_input (PStr ''tradein_new'') =
      Inr (projr (incentive_logic lib0 world0 scenario_a_input (PStr ''tradein_new'')))"
    by (rule scenario_a_incentive_returns) simp
  from incentive_package_shape [OF i] i show ?thesis by (intro conjI)
qed

text \<open>
  C9 (totality after validation), as stated: every payload that passes validation makes
  assess and incentive run to completion. This fails for assess: the validator puts no
  upper bound on \<open>device.age_months\<close>, \<open>signals.charge_cycles\<close> and
  \<open>signals.repair_history_count\<close>, and the scoring converts them to floats
  (\<^verbatim>\<open>age_months / 6.0\<close>), which raises \<^verbatim>\<open>OverflowError\<close> from \<open>2^1024 - 2^970\<close> on.
  Scenario A with an age of \<open>2^1024\<close> months passes validation, its encoding for the seed
  succeeds, and assess raises.
\<close>

theorem totality_after_validation_counterexample:
  "validate_input_payload huge_age_input = Inr ()
   \<and> json_dumps lib0 huge_age_input = Inr ''devicesignalsuser_preferences''
   \<and> assess_logic lib0 world0 huge_age_input = Inl OverflowError"
  using huge_age_valid huge_age_encodes
    assess_logic_overflow [OF huge_age_valid huge_age_no_fit huge_age_encodes, of world0]
  by simp

text \<open>
  C9 as amended. The seed is computed from the canonical JSON encoding of the payload
  (for incentive, of the payload and the selected option id), and the encoder can raise.
  For every payload that passes validation, whose age, charge cycles and repair count are
  below the conversion limit \<open>2^1024 - 2^970\<close> and whose encoding succeeds, assess runs to
  completion; for every payload that passes the incentive validator and every non-empty
  string as selected option whose encoding with the payload succeeds, incentive runs to
  completion, and the response has passed the key-set and range assertions. When the
  encoder raises on a validated payload, the pipeline raises that error. No division is
  by zero: the weight normalisation divides by a total weight of at least 3, and every
  other denominator is a literal.
\<close>

theorem totality_after_validation:
  "(validate_input_payload p = Inr () \<and> ints_fit_float p \<and> json_dumps L p = Inr raw \<longrightarrow>
      (\<exists>r. assess_logic L W p = Inr r))
   \<and> (validate_input_payload p = Inr () \<and> json_dumps L p = Inl e \<longrightarrow>
      assess_logic L W p = Inl e)
   \<and> (validate_input_payload_inc p = Inr () \<and> sid \<noteq> []
        \<and> json_dumps L (spec_incentive_seed_input p sid) = Inr raw' \<longrightarrow>
      (\<exists>r. incentive_logic L W p (PStr sid) = Inr r \<and> check_incentive_response r = Inr r))
   \<and> (validate_input_payload_inc p = Inr () \<and> sid \<noteq> []
        \<and> json_dumps L (spec_incentive_seed_input p sid) = Inl e' \<longrightarrow>
      incentive_logic L W p (PStr sid) = Inl e')
   \<and> (validate_input_payload_inc p = Inr () \<longrightarrow>
      (\<exists>wc ws wp. priority_weight p ''budget_priority'' = Inr wc
           \<and> priority_weight p ''sustainability_priority'' = Inr ws
           \<and> priority_weight p ''performance_priority'' = Inr wp
           \<and> 3 \<le> wc + ws + wp \<and> truediv wc (wc + ws + wp) = Inr (wc / (wc + ws + wp))
           \<and> truediv ws (wc + ws + wp) = Inr (ws / (wc + ws + wp))
           \<and> truediv wp (wc + ws + wp) = Inr (wp / (wc + ws + wp))))"
proof (intro conjI impI)
  assume "validate_input_payload p = Inr () \<and> ints_fit_float p \<and> json_dumps L p = Inr raw"
  then show "\<exists>r. assess_logic L W p = Inr r" by (elim conjE) (rule assess_logic_total)
next
  assume "validate_input_payload p = Inr () \<and> json_dumps L p = Inl e"
  then show "assess_logic L W p = Inl e" by (elim conjE) (rule assess_logic_seed_fails)
next
  assume "validate_input_payload_inc p = Inr () \<and> sid \<noteq> []
        \<and> json_dumps L (spec_incentive_seed_input p sid) = Inr raw'"
  then have v: "validate_input_payload_inc p = Inr ()" and sid: "sid \<noteq> []"
    and enc: "json_dumps L (PDict [(''input_payload'', p), (''selected_option_id'', PStr sid)])
                = Inr raw'"
    by (simp_all add: spec_incentive_seed_input_def)
  from stable_seed_inc_ok [OF enc] obtain seed where "stable_seed_inc L p sid = Inr seed"
    by blast
  with v sid
  show "\<exists>r. incentive_logic L W p (PStr sid) = Inr r \<and> check_incentive_response r = Inr r"
    by (rule incentive_logic_checked)
next
  assume "validate_input_payload_inc p = Inr () \<and> sid \<noteq> []
        \<and> json_dumps L (spec_incentive_seed_input p sid) = Inl e'"
  then have v: "validate_input_payload_inc p = Inr ()" and sid: "sid \<noteq> []"
    and enc: "json_dumps L (PDict [(''input_payload'', p), (''selected_option_id'', PStr sid)])
                = Inl e'"
    by (simp_all add: spec_incentive_seed_input_def)
  from v sid stable_seed_inc_Inl [OF enc]
  show "incentive_logic L W p (PStr sid) = Inl e'" by (rule incentive_logic_seed_fails)
next
  assume "validate_input_payload_inc p = Inr ()"
  then show "\<exists>wc ws wp. priority_weight p ''budget_priority'' = Inr wc
           \<and> priority_weight p ''sustainability_priority'' = Inr ws
           \<and> priority_weight p ''performance_priority'' = Inr wp
           \<and> 3 \<le> wc + ws + wp \<and> truediv wc (wc + ws + wp) = Inr (wc / (wc + ws + wp))
           \<and> truediv ws (wc + ws + wp) = Inr (ws / (wc + ws + wp))
           \<and> truediv wp (wc + ws + wp) = Inr (wp / (wc + ws + wp))"
    by (rule total_weight_ge_3)
qed

theorem totality_after_validation_witness:
  "validate_input_payload scenario_a_input = Inr () \<and> ints_fit_float scenario_a_input
   \<and> json_dumps lib0 scenario_a_input = Inr ''devicesignalsuser_preferences''
   \<and> validate_input_payload_inc scenario_a_input = Inr () \<and> ''tradein_new'' \<noteq> []
   \<and> json_dumps lib0 (spec_incentive_seed_input scenario_a_input ''tradein_new'')
       = Inr ''input_payloadselected_option_idtradein_new''
   \<and> validate_input_payload long_cycles_input = Inr ()
   \<and> json_dumps lib0 long_cycles_input
       = Inl (ValueError ''Exceeds the limit (4300 digits) for integer string conversion'')
   \<and> (\<exists>r. assess_logic lib0 world0 scenario_a_input = Inr r)
   \<and> (\<exists>r. incentive_logic lib0 world0 scenario_a_input (PStr ''tradein_new'') = Inr r
          \<and> check_incentive_response r = Inr r)
   \<and> assess_logic lib0 world0 long_cycles_input
       = Inl (ValueError ''Exceeds the limit (4300 digits) for integer string conversion'')
   \<and> (\<exists>wc ws wp. priority_weight scenario_a_input ''budget_priority'' = Inr wc
           \<and> priority_weight scenario_a_input ''sustainability_priority'' = Inr ws
           \<and> priority_weight scenario_a_input ''performance_priority'' = Inr wp
           \<and> 3 \<le> wc + ws + wp \<and> truediv wc (wc + ws + wp) = Inr (wc / (wc + ws + wp))
           \<and> truediv ws (wc + ws + wp) = Inr (ws / (wc + ws + wp))
           \<and> truediv wp (wc + ws + wp) = Inr (wp / (wc + ws + wp)))"
proof -
  have enc: "json_dumps lib0 (spec_incentive_seed_input scenario_a_input ''tradein_new'')
       = Inr ''input_payloadselected_option_idtradein_new''"
    by (simp add: spec_incentive_seed_input_def scenario_a_inc_encodes)
  note t = totality_after_validation [of scenario_a_input lib0
      "''devicesignalsuser_preferences''" world0 _ "''tradein_new''"
      "''input_payloadselected_option_idtradein_new''"]
  note u = totality_after_validation [of long_cycles_input lib0 _ world0
      "ValueError ''Exceeds the limit (4300 digits) for integer string conversion''"]
  from t scenario_a_valid scenario_a_fits scenario_a_encodes scenario_a_valid_inc enc
  have a: "\<exists>r. assess_logic lib0 world0 scenario_a_input = Inr r"
    and b: "\<exists>r. incentive_logic lib0 world0 scenario_a_input (PStr ''tradein_new'') = Inr r
          \<and> check_incentive_response r = Inr r"
    and c: "\<exists>wc ws wp. priority_weight scenario_a_input ''budget_priority'' = Inr wc
           \<and> priority_weight scenario_a_input ''sustainability_priority'' = Inr ws
           \<and> priority_weight scenario_a_input ''performance_priority'' = Inr wp
           \<and> 3 \<le> wc + ws + wp \<and> truediv wc (wc + ws + wp) = Inr (wc / (wc + ws + wp))
           \<and> truediv ws (wc + ws + wp) = Inr (ws / (wc + ws + wp))
           \<and> truediv wp (wc + ws + wp) = Inr (wp / (wc + ws + wp))"
    by simp_all
  from u long_cycles_valid long_cycles_encodes
  have d: "assess_logic lib0 world0 long_cycles_input
       = Inl (ValueError ''Exceeds the limit (4300 digits) for integer string conversion'')"
    by simp
  from scenario_a_valid scenario_a_fits scenario_a_encodes scenario_a_valid_inc enc
    long_cycles_valid long_cycles_encodes a b c d
  show ?thesis by simp
qed

text \<open>
  C10 (selected option id), as stated: on a payload that passes the incentive validator,
  incentive raises if and only if the selected option id is not a string or is empty. The
  seed is computed from the JSON encoding of the payload and the id, and the encoder
  raises \<^verbatim>\<open>ValueError\<close> on an integer of more than 4300 digits. Scenario A with \<open>10^4300\<close>
  charge cycles passes the incentive validator, and incentive raises on it with the
  option id \<open>tradein_new\<close>.
\<close>

theorem incentive_selected_option_id_counterexample:
  "validate_input_payload_inc long_cycles_input = Inr ()
   \<and> incentive_logic lib0 world0 long_cycles_input (PStr ''tradein_new'') =
       Inl (ValueError ''Exceeds the limit (4300 digits) for integer string conversion'')"
proof -
  have ne: "''tradein_new'' \<noteq> []" by simp
  from long_cycles_valid_inc
    incentive_logic_seed_fails [OF long_cycles_valid_inc ne
      stable_seed_inc_Inl [OF long_cycles_inc_encodes], of world0]
  show ?thesis by simp
qed

text \<open>
  C10 as amended. For every payload that passes the incentive validator: if the selected
  option id is not a string or is the empty string, incentive raises \<^verbatim>\<open>ValueError\<close>; if
  it is a non-empty string, whether or not one of the three option ids, the outcome is
  that of encoding \<open>{input_payload, selected_option_id}\<close> for the seed: when the encoder
  raises, incentive raises that error, and when it returns the text \<open>raw\<close>, incentive
  returns a response whose \<open>selected_option_id\<close> is the string unchanged and whose
  \<open>request_id\<close> is \<open>req_\<close>, the first eight characters of the SHA-256 hex digest of
  \<open>raw\<close>, and \<open>_INC\<close>.
\<close>

theorem incentive_selected_option_id:
  assumes "validate_input_payload_inc p = Inr ()"
  shows "(\<not> (\<exists>sid. sel = PStr sid \<and> sid \<noteq> []) \<longrightarrow>
            incentive_logic L W p sel =
              Inl (ValueError ''selected_option_id must be a non-empty string''))
       \<and> (\<forall>sid e. sel = PStr sid \<and> sid \<noteq> []
              \<and> json_dumps L (spec_incentive_seed_input p sid) = Inl e \<longrightarrow>
            incentive_logic L W p sel = Inl e)
       \<and> (\<forall>sid raw. sel = PStr sid \<and> sid \<noteq> []
              \<and> json_dumps L (spec_incentive_seed_input p sid) = Inr raw \<longrightarrow>
            (\<exists>r. incentive_logic L W p sel = Inr r \<and> selected_option_id r = sid
               \<and> inc_request_id r = ''req_'' @ spec_seed_digits L raw @ ''_INC''))"
proof (intro conjI allI impI)
  assume "\<not> (\<exists>sid. sel = PStr sid \<and> sid \<noteq> [])"
  with assms show "incentive_logic L W p sel =
      Inl (ValueError ''selected_option_id must be a non-empty string'')"
    by (rule incentive_bad_selected)
next
  fix sid e
  assume "sel = PStr sid \<and> sid \<noteq> [] \<and> json_dumps L (spec_incentive_seed_input p sid) = Inl e"
  then have sel: "sel = PStr sid" and sid: "sid \<noteq> []"
    and enc: "json_dumps L (PDict [(''input_payload'', p), (''selected_option_id'', PStr sid)])
                = Inl e"
    by (simp_all add: spec_incentive_seed_input_def)
  from incentive_logic_seed_fails [OF assms sid stable_seed_inc_Inl [OF enc], of W] sel
  show "incentive_logic L W p sel = Inl e" by simp
next
  fix sid raw
  assume "sel = PStr sid \<and> sid \<noteq> [] \<and> json_dumps L (spec_incentive_seed_input p sid) = Inr raw"
  then have sel: "sel = PStr sid" and sid: "sid \<noteq> []"
    and enc: "json_dumps L (PDict [(''input_payload'', p), (''selected_option_id'', PStr sid)])
                = Inr raw"
    by (simp_all add: spec_incentive_seed_input_def)
  from stable_seed_inc_ok [OF enc] obtain seed where
      seed: "stable_seed_inc L p sid = Inr seed"
    and fmt: "format_08x seed = spec_seed_digits L raw"
    unfolding spec_seed_digits_def by blast
  from incentive_logic_run [OF assms sid seed, of W] obtain r where
      "incentive_logic L W p (PStr sid) = Inr r" "selected_option_id r = sid"
      "inc_request_id r = ''req_'' @ format_08x seed @ ''_INC''"
    by fastforce
  with sel fmt
  show "\<exists>r. incentive_logic L W p sel = Inr r \<and> selected_option_id r = sid
               \<and> inc_request_id r = ''req_'' @ spec_seed_digits L raw @ ''_INC''"
    by simp
qed

theorem incentive_selected_option_id_witness:
  "validate_input_payload_inc scenario_a_input = Inr ()
   \<and> ''keep_device'' \<noteq> []
   \<and> json_dumps lib0 (spec_incentive_seed_input scenario_a_input ''keep_device'')
       = Inr ''input_payloadselected_option_idkeep_device''
   \<and> validate_input_payload_inc long_cycles_input = Inr ()
   \<and> json_dumps lib0 (spec_incentive_seed_input long_cycles_input ''keep_device'')
       = Inl (ValueError ''Exceeds the limit (4300 digits) for integer string conversion'')
   \<and> incentive_logic lib0 world0 scenario_a_input PNone =
       Inl (ValueError ''selected_option_id must be a non-empty string'')
   \<and> incentive_logic lib0 world0 scenario_a_input (PStr []) =
       Inl (ValueError ''selected_option_id must be a non-empty string'')
   \<and> incentive_logic lib0 world0 long_cycles_input (PStr ''keep_device'') =
       Inl (ValueError ''Exceeds the limit (4300 digits) for integer string conversion'')
   \<and> (\<exists>r. incentive_logic lib0 world0 scenario_a_input (PStr ''keep_device'') = Inr r
          \<and> selected_option_id r = ''keep_device''
          \<and> inc_request_id r =
              ''req_'' @ spec_seed_digits lib0 ''input_payloadselected_option_idkeep_device''
                @ ''_INC'')"
proof -
  have enc: "json_dumps lib0 (spec_incentive_seed_input scenario_a_input ''keep_device'')
       = Inr ''input_payloadselected_option_idkeep_device''"
    by (simp add: spec_incentive_seed_input_def scenario_a_inc_encodes)
  have lenc: "json_dumps lib0 (spec_incentive_seed_input long_cycles_input ''keep_device'')
       = Inl (ValueError ''Exceeds the limit (4300 digits) for integer string conversion'')"
    by (simp only: spec_incentive_seed_input_def long_cycles_inc_encodes)
  from incentive_selected_option_id [OF scenario_a_valid_inc, of PNone lib0 world0]
  have a: "incentive_logic lib0 world0 scenario_a_input PNone =
       Inl (ValueError ''selected_option_id must be a non-empty string'')" by simp
  from incentive_selected_option_id [OF scenario_a_valid_inc, of "PStr []" lib0 world0]
  have b: "incentive_logic lib0 world0 scenario_a_input (PStr []) =
       Inl (ValueError ''selected_option_id must be a non-empty string'')" by simp
  from incentive_selected_option_id [OF long_cycles_valid_inc, of "PStr ''keep_device''" lib0 world0]
    lenc
  have c: "incentive_logic lib0 world0 long_cycles_input (PStr ''keep_device'') =
       Inl (ValueError ''Exceeds the limit (4300 digits) for integer string conversion'')"
    by simp
  from incentive_selected_option_id [OF scenario_a_valid_inc, of "PStr ''keep_device''" lib0 world0]
    enc
  have d: "\<exists>r. incentive_logic lib0 world0 scenario_a_input (PStr ''keep_device'') = Inr r
          \<and> selected_option_id r = ''keep_device''
          \<and> inc_request_id r =
              ''req_'' @ spec_seed_digits lib0 ''input_payloadselected_option_idkeep_device''
                @ ''_INC''"
    by simp
  from scenario_a_valid_inc enc long_cycles_valid_inc lenc a b c d show ?thesis by simp
qed

text \<open>
  C6 (validator contract). The contract is that validation returns normally when every
  documented check holds and otherwise fails with a validation error naming the first
  offending field. Scenario A with the device given as the string \<open>Galaxy S22\<close> has no
  \<open>device.brand\<close>, the first field in the check order, so that the contract asks for
  \<^verbatim>\<open>ValueError\<close> with the message of \<open>device.brand\<close>. The validator reads the section
  with \<^verbatim>\<open>device.get\<close> without testing that it is an object, as it tests the payload
  itself: validation fails with \<^verbatim>\<open>AttributeError\<close>, and so does assess.
\<close>

theorem validator_attribute_error:
  "spec_first_offence device_string_input = Some ''device.brand must be non-empty string''
   \<and> validate_input_payload device_string_input = Inl AttributeError
   \<and> assess_logic lib0 world0 device_string_input = Inl AttributeError"
  using device_string_offence device_string_validate
    assess_logic_invalid [OF device_string_validate, of lib0 world0]
  by simp

end
